theory Spec2Isabelle
  imports Complex_Main
begin

section \<open>MediCare backend: a shallow embedding of the two variants of server.js\<close>

text \<open>
  The file \<^verbatim>\<open>src/server.js\<close> holds two variants of the Express backend, one after the
  other. Definitions ending in \<open>_A\<close> embed the first variant (lines 1 to 397), those ending
  in \<open>_B\<close> the second (lines 398 to 744). Handlers are functions from the store and the
  request to a reply and the new store. The libraries the handlers call (jsonwebtoken,
  bcryptjs, the wording of zod's and mongoose's error messages, mongoose's casts of
  unvalidated input, the JavaScript date parser, the database's regular-expression engine
  and its query operators) are parameters, collected in the record \<open>env\<close>; what a request
  cannot determine (the clock, generated ObjectIds, the bcrypt salt) is collected in the
  record \<open>ctx\<close>.

  Strings are lists of 8-bit code units; \<open>length\<close> therefore agrees with JavaScript's
  \<^verbatim>\<open>.length\<close> on Latin-1 text.

  The embedding handles one request at a time, on a database that is reachable: a query
  fails only where mongoose or the database raises (a value that cannot be cast, a
  document that does not validate, a unique key that is taken, a pattern that does not
  compile, an operand that is refused). The
  body of a request is the JSON object \<^verbatim>\<open>express.json()\<close> parsed, as a map from field
  names to values; a route parameter is a string, and a query parameter is what Express's
  query parser makes of the query string: a string, an array or an object. The feedback
  collection, which only the two feedback handlers touch, is passed to them on its own.
  What stands in front of every route (helmet, cors, the logger, the rate limiter) is not
  part of the embedding.
\<close>

subsection \<open>JSON values and replies\<close>

datatype json =
    JNull
  | JBool bool
  | JNum rat
  | JStr string
  | JDate int
  | JArr "json list"
  | JObj "(string \<times> json) list"

text \<open>
  A handler either writes a reply (\<^verbatim>\<open>res.status(n).json(v)\<close>; \<^verbatim>\<open>res.json(v)\<close> is status
  200) or, when an \<^verbatim>\<open>async\<close> handler without \<^verbatim>\<open>try\<close> rejects, writes nothing: Express 4
  does not observe the rejected promise.
\<close>

datatype reply = Reply nat json | No_Reply

fun status_of :: "reply \<Rightarrow> nat option" where
  "status_of (Reply n b) = Some n"
| "status_of No_Reply = None"

text \<open>All the keys of all the objects inside a JSON value.\<close>

primrec keys_of :: "json \<Rightarrow> string list" where
  "keys_of JNull = []"
| "keys_of (JBool b) = []"
| "keys_of (JNum n) = []"
| "keys_of (JStr s) = []"
| "keys_of (JDate d) = []"
| "keys_of (JArr js) = concat (map keys_of js)"
| "keys_of (JObj kvs) = concat (map (\<lambda>kv. fst kv # snd kv) (map (map_prod id keys_of) kvs))"

subsection \<open>Strings as JavaScript uses them\<close>

definition upper_letters :: string where
  "upper_letters = ''ABCDEFGHIJKLMNOPQRSTUVWXYZ'' @
     [CHR 0xC0, CHR 0xC1, CHR 0xC2, CHR 0xC3, CHR 0xC4, CHR 0xC5, CHR 0xC6, CHR 0xC7,
      CHR 0xC8, CHR 0xC9, CHR 0xCA, CHR 0xCB, CHR 0xCC, CHR 0xCD, CHR 0xCE, CHR 0xCF,
      CHR 0xD0, CHR 0xD1, CHR 0xD2, CHR 0xD3, CHR 0xD4, CHR 0xD5, CHR 0xD6,
      CHR 0xD8, CHR 0xD9, CHR 0xDA, CHR 0xDB, CHR 0xDC, CHR 0xDD, CHR 0xDE]"

definition lower_letters :: string where
  "lower_letters = ''abcdefghijklmnopqrstuvwxyz'' @
     [CHR 0xE0, CHR 0xE1, CHR 0xE2, CHR 0xE3, CHR 0xE4, CHR 0xE5, CHR 0xE6, CHR 0xE7,
      CHR 0xE8, CHR 0xE9, CHR 0xEA, CHR 0xEB, CHR 0xEC, CHR 0xED, CHR 0xEE, CHR 0xEF,
      CHR 0xF0, CHR 0xF1, CHR 0xF2, CHR 0xF3, CHR 0xF4, CHR 0xF5, CHR 0xF6,
      CHR 0xF8, CHR 0xF9, CHR 0xFA, CHR 0xFB, CHR 0xFC, CHR 0xFD, CHR 0xFE]"

definition to_lower :: "char \<Rightarrow> char" where
  "to_lower c = (case map_of (zip upper_letters lower_letters) c of Some d \<Rightarrow> d | None \<Rightarrow> c)"

text \<open>\<^verbatim>\<open>String.prototype.toLowerCase\<close>.\<close>

definition toLowerCase :: "string \<Rightarrow> string" where
  "toLowerCase s = map to_lower s"

text \<open>White space and line terminators, as \<^verbatim>\<open>trim\<close> and the class \<^verbatim>\<open>\s\<close> read them.\<close>

definition js_space :: "char \<Rightarrow> bool" where
  "js_space c = (c \<in> set [CHR 0x09, CHR 0x0A, CHR 0x0B, CHR 0x0C, CHR 0x0D, CHR 0x20, CHR 0xA0])"

definition trim :: "string \<Rightarrow> string" where
  "trim s = rev (dropWhile js_space (rev (dropWhile js_space s)))"

definition is_digit :: "char \<Rightarrow> bool" where
  "is_digit c = (c \<in> set ''0123456789'')"

fun startsWith :: "string \<Rightarrow> string \<Rightarrow> bool" where
  "startsWith s [] = True"
| "startsWith [] (p # ps) = False"
| "startsWith (c # cs) (p # ps) = (c = p \<and> startsWith cs ps)"

text \<open>\<^verbatim>\<open>s.includes(p)\<close>: \<open>p\<close> occurs in \<open>s\<close> as a contiguous substring.\<close>

fun str_includes :: "string \<Rightarrow> string \<Rightarrow> bool" where
  "str_includes [] p = (p = [])"
| "str_includes (c # cs) p = (startsWith (c # cs) p \<or> str_includes cs p)"

text \<open>\<^verbatim>\<open>s.split(sep)\<close> for a one-character separator.\<close>

fun split_on :: "char \<Rightarrow> string \<Rightarrow> string list" where
  "split_on sep [] = [[]]"
| "split_on sep (c # cs) =
     (if c = sep then [] # split_on sep cs
      else (case split_on sep cs of
              [] \<Rightarrow> [[c]]
            | w # ws \<Rightarrow> (c # w) # ws))"

text \<open>\<^verbatim>\<open>xs[i]\<close>, with \<open>None\<close> for \<^verbatim>\<open>undefined\<close>.\<close>

definition at_index :: "'a list \<Rightarrow> nat \<Rightarrow> 'a option" where
  "at_index xs i = (if i < length xs then Some (xs ! i) else None)"

text \<open>\<^verbatim>\<open>xs.join(sep)\<close>.\<close>

fun join :: "string \<Rightarrow> string list \<Rightarrow> string" where
  "join sep [] = []"
| "join sep [x] = x"
| "join sep (x # y # ys) = x @ sep @ join sep (y # ys)"

subsection \<open>Documents and the store\<close>

datatype role = Patient | Admin

datatype appointment_status = Pending | Confirmed | Cancelled

fun role_name :: "role \<Rightarrow> string" where
  "role_name Patient = ''patient''"
| "role_name Admin = ''admin''"

fun status_name :: "appointment_status \<Rightarrow> string" where
  "status_name Pending = ''pending''"
| "status_name Confirmed = ''confirmed''"
| "status_name Cancelled = ''cancelled''"

text \<open>
  The field \<open>u_password\<close> is what the collection stores under \<^verbatim>\<open>password\<close>. ObjectIds
  are kept as their 24 lower-case hexadecimal digits.
\<close>

record user =
  u_id :: string
  u_name :: string
  u_email :: string
  u_phone :: string
  u_password :: string
  u_role :: role
  u_joinDate :: int
  u_isActive :: bool

text \<open>
  What a document holds at a path that its schema does not require: nothing, \<^verbatim>\<open>null\<close>
  or a value.
\<close>

datatype 'a path_value = Unset | Null | Value 'a

record doctor =
  d_id :: string
  d_name :: string
  d_specialty :: string
  d_rating :: "rat path_value"
  d_reviews :: "rat path_value"
  d_location :: "string path_value"
  d_availability :: "string path_value"
  d_fee :: "string path_value"
  d_image :: "string path_value"

record appointment =
  a_id :: string
  a_doctor :: string
  a_doctorName :: string
  a_specialty :: string
  a_patient :: string
  a_patientName :: string
  a_date :: int
  a_time :: string
  a_symptoms :: string
  a_phone :: string
  a_status :: appointment_status
  a_createdAt :: int

record feedback =
  f_id :: string
  f_patient :: "string path_value"
  f_doctor :: "string path_value"
  f_rating :: "rat path_value"
  f_comment :: "string path_value"
  f_date :: int

record state =
  users :: "user list"
  doctors :: "doctor list"
  appointments :: "appointment list"

subsection \<open>Requests, the libraries and the surroundings of a request\<close>

text \<open>
  A parameter of the query string as \<^verbatim>\<open>req.query\<close> holds it: \<^verbatim>\<open>?search=amy\<close> gives a string,
  \<^verbatim>\<open>?specialty=a&specialty=b\<close> an array and \<^verbatim>\<open>?specialty[$ne]=a\<close> an object.
\<close>

datatype qvalue =
    QStr string
  | QArr "qvalue list"
  | QObj "(string \<times> qvalue) list"

record request =
  authorization :: "string option"
  body :: "string \<rightharpoonup> json"
  param_id :: string
  query :: "string \<rightharpoonup> qvalue"

text \<open>The payload of a token: \<^verbatim>\<open>{ id, role }\<close>, the role absent when it was signed as
  \<^verbatim>\<open>undefined\<close>.\<close>

record claims =
  c_id :: string
  c_role :: "role option"

text \<open>An exception raised by mongoose or by the handler itself.\<close>

datatype fault =
    CastError string string
  | ValidationError string
  | DuplicateKey string
  | TypeError string
  | QueryError "(string \<times> qvalue) list"

record env =
  JWT_SECRET :: string
  JWT_REFRESH_SECRET :: string
  jwt_sign :: "claims \<Rightarrow> string \<Rightarrow> nat \<Rightarrow> int \<Rightarrow> string"
  jwt_verify :: "string \<Rightarrow> string \<Rightarrow> int \<Rightarrow> claims option"
  bcrypt_hash :: "string \<Rightarrow> nat \<Rightarrow> string \<Rightarrow> string"
  bcrypt_compare :: "string \<Rightarrow> string \<Rightarrow> bool"
  zod_email :: "string \<Rightarrow> bool"
  zod_messages :: "string \<Rightarrow> (string \<rightharpoonup> json) \<Rightarrow> string list"
  zod_error_message :: "string \<Rightarrow> (string \<rightharpoonup> json) \<Rightarrow> string"
  fault_message :: "fault \<Rightarrow> string"
  date_parse :: "string \<Rightarrow> int option"
  regex :: "string \<Rightarrow> string \<Rightarrow> (string \<Rightarrow> bool) option"
  operand :: "string \<Rightarrow> qvalue \<Rightarrow> (string \<Rightarrow> bool) option"
  cast_string :: "json \<Rightarrow> string option"
  cast_number :: "json \<Rightarrow> rat option option"

text \<open>
  \<^item> \<open>jwt_sign env payload secret seconds now\<close> is \<^verbatim>\<open>jwt.sign(payload, secret, { expiresIn })\<close>
    at time \<open>now\<close>; \<open>jwt_verify env token secret now\<close> is \<^verbatim>\<open>jwt.verify(token, secret)\<close>,
    \<open>None\<close> when it throws.
  \<^item> \<open>bcrypt_hash env plaintext rounds salt\<close> is \<^verbatim>\<open>bcrypt.hash(plaintext, rounds)\<close> with the
    salt it drew; \<open>bcrypt_compare env plaintext hash\<close> is \<^verbatim>\<open>bcrypt.compare\<close>.
  \<^item> \<open>zod_email\<close> is the format \<^verbatim>\<open>z.string().email()\<close> accepts; \<open>zod_messages env schema b\<close>
    are the messages of the issues of a failed parse, in order, and \<open>zod_error_message\<close>
    is \<^verbatim>\<open>err.message\<close> of the ZodError.
  \<^item> \<open>fault_message\<close> is \<^verbatim>\<open>err.message\<close> of any other exception.
  \<^item> \<open>date_parse env s\<close> is \<^verbatim>\<open>new Date(s)\<close> in milliseconds, \<open>None\<close> for an invalid date.
  \<^item> \<open>regex env pattern options\<close> is the database's \<^verbatim>\<open>$regex\<close> operator: \<open>None\<close> when the
    pattern does not compile (the query then fails), otherwise the test it performs on a
    string.
  \<^item> \<open>operand env path v\<close> is what a query makes of a condition \<^verbatim>\<open>{ path: v }\<close> on a string
    path when \<open>v\<close> is not a string: an object is read as a set of query operators
    (\<^verbatim>\<open>$ne\<close>, \<^verbatim>\<open>$in\<close>, \<^verbatim>\<open>$regex\<close> and so on), an array as \<^verbatim>\<open>$in\<close>. It is \<open>None\<close> when
    mongoose or the database refuses the condition (the query then fails), otherwise the
    test performed on the stored string.
  \<^item> \<open>cast_string env v\<close> and \<open>cast_number env v\<close> are mongoose's casts of a value that is
    not \<^verbatim>\<open>null\<close> to the schema types \<^verbatim>\<open>String\<close> and \<^verbatim>\<open>Number\<close>: \<open>None\<close> when the cast
    fails; for a number, \<open>Some None\<close> when the value casts to \<^verbatim>\<open>null\<close>, as the empty
    string does.
\<close>

text \<open>
  \<open>now\<close> is the clock in milliseconds, \<open>new_id ctx k\<close> the \<open>k\<close>-th ObjectId generated while
  the request is handled, \<open>salt\<close> the salt bcrypt draws.
\<close>

record ctx =
  now :: int
  new_id :: "nat \<Rightarrow> string"
  salt :: string

subsection \<open>Mongoose: casting, lookups and creation\<close>

definition is_hex :: "char \<Rightarrow> bool" where
  "is_hex c = (c \<in> set ''0123456789abcdefABCDEF'')"

definition hex_digit :: "nat \<Rightarrow> char" where
  "hex_digit n = (case at_index ''0123456789abcdef'' n of Some c \<Rightarrow> c | None \<Rightarrow> CHR ''0'')"

definition hex_of_char :: "char \<Rightarrow> string" where
  "hex_of_char c = [hex_digit ((of_char c :: nat) div 16), hex_digit ((of_char c :: nat) mod 16)]"

text \<open>
  Casting a string to an ObjectId, as a query filter on \<^verbatim>\<open>_id\<close> does: 24 hexadecimal
  digits in either case, or any 12 characters taken as the 12 bytes; anything else is a
  CastError, with which the query rejects.
\<close>

definition cast_object_id :: "string \<Rightarrow> string option" where
  "cast_object_id v =
     (if length v = 24 \<and> list_all is_hex v then Some (toLowerCase v)
      else if length v = 12 then Some (concat (map hex_of_char v))
      else None)"

text \<open>
  \<^verbatim>\<open>User.findOne({ email })\<close>. The schema declares \<^verbatim>\<open>email\<close> with \<^verbatim>\<open>lowercase: true\<close>, a
  setter that mongoose also applies to the filter of a query.
\<close>

definition User_findOne_email :: "state \<Rightarrow> string \<Rightarrow> user option" where
  "User_findOne_email s email = find (\<lambda>u. u_email u = toLowerCase email) (users s)"

definition User_findById :: "state \<Rightarrow> string \<Rightarrow> fault + user option" where
  "User_findById s v =
     (case cast_object_id v of
        None \<Rightarrow> Inl (CastError v ''_id'')
      | Some i \<Rightarrow> Inr (find (\<lambda>u. u_id u = i) (users s)))"

definition Doctor_findById :: "state \<Rightarrow> string \<Rightarrow> fault + doctor option" where
  "Doctor_findById s v =
     (case cast_object_id v of
        None \<Rightarrow> Inl (CastError v ''_id'')
      | Some i \<Rightarrow> Inr (find (\<lambda>d. d_id d = i) (doctors s)))"

definition Appointment_findById :: "state \<Rightarrow> string \<Rightarrow> fault + appointment option" where
  "Appointment_findById s v =
     (case cast_object_id v of
        None \<Rightarrow> Inl (CastError v ''_id'')
      | Some i \<Rightarrow> Inr (find (\<lambda>a. a_id a = i) (appointments s)))"

text \<open>
  \<^verbatim>\<open>User.create({ name, email, phone, password, role })\<close> under the schema: \<^verbatim>\<open>name\<close> is
  trimmed, \<^verbatim>\<open>email\<close> lower-cased, \<^verbatim>\<open>role\<close> defaults to patient, \<^verbatim>\<open>joinDate\<close> to the clock
  and \<^verbatim>\<open>isActive\<close> to true; the four required strings must not be empty; \<^verbatim>\<open>_id\<close> and
  \<^verbatim>\<open>email\<close> are unique keys of the collection.
\<close>

definition User_create ::
  "ctx \<Rightarrow> state \<Rightarrow> string \<Rightarrow> string \<Rightarrow> string \<Rightarrow> string \<Rightarrow> role option \<Rightarrow> fault + (user \<times> state)" where
  "User_create ctx s name email phone password r =
     (let u = \<lparr> u_id = new_id ctx 0, u_name = trim name, u_email = toLowerCase email,
                u_phone = phone, u_password = password,
                u_role = (case r of None \<Rightarrow> Patient | Some x \<Rightarrow> x),
                u_joinDate = now ctx, u_isActive = True \<rparr>
      in if u_name u = [] \<or> u_email u = [] \<or> u_phone u = [] \<or> u_password u = []
         then Inl (ValidationError ''User'')
         else if list_ex (\<lambda>v. u_id v = u_id u) (users s) then Inl (DuplicateKey ''_id'')
         else if list_ex (\<lambda>v. u_email v = u_email u) (users s) then Inl (DuplicateKey ''email'')
         else Inr (u, s\<lparr> users := users s @ [u] \<rparr>))"

subsection \<open>Validation schemas (zod)\<close>

text \<open>\<^verbatim>\<open>z.string()\<close>: the field must be present and a string.\<close>

definition z_string :: "json option \<Rightarrow> string option" where
  "z_string j = (case j of Some (JStr v) \<Rightarrow> Some v | _ \<Rightarrow> None)"

record register_data =
  rd_name :: string
  rd_email :: string
  rd_phone :: string
  rd_password :: string

text \<open>The pattern \<^verbatim>\<open>/^[\d\+\-\s]{10,15}$/\<close> of the second variant.\<close>

definition phone_chars :: "string \<Rightarrow> bool" where
  "phone_chars v =
     (10 \<le> length v \<and> length v \<le> 15 \<and>
      list_all (\<lambda>c. is_digit c \<or> c = CHR ''+'' \<or> c = CHR ''-'' \<or> js_space c) v)"

definition registerSchema_A :: "env \<Rightarrow> (string \<rightharpoonup> json) \<Rightarrow> register_data option" where
  "registerSchema_A env b =
     (case (z_string (b ''name''), z_string (b ''email''), z_string (b ''phone''),
            z_string (b ''password''), z_string (b ''confirmPassword'')) of
        (Some name, Some email, Some phone, Some password, Some confirmPassword) \<Rightarrow>
          if 2 \<le> length name \<and> zod_email env email \<and> 6 \<le> length phone \<and>
             6 \<le> length password \<and> 6 \<le> length confirmPassword \<and>
             password = confirmPassword
          then Some \<lparr> rd_name = name, rd_email = email, rd_phone = phone, rd_password = password \<rparr>
          else None
      | _ \<Rightarrow> None)"

definition registerSchema_B :: "env \<Rightarrow> (string \<rightharpoonup> json) \<Rightarrow> register_data option" where
  "registerSchema_B env b =
     (case (z_string (b ''name''), z_string (b ''email''), z_string (b ''phone''),
            z_string (b ''password''), z_string (b ''confirmPassword'')) of
        (Some name, Some email, Some phone, Some password, Some confirmPassword) \<Rightarrow>
          if 2 \<le> length name \<and> zod_email env email \<and> phone_chars phone \<and>
             6 \<le> length password \<and> password = confirmPassword
          then Some \<lparr> rd_name = name, rd_email = email, rd_phone = phone, rd_password = password \<rparr>
          else None
      | _ \<Rightarrow> None)"

text \<open>The two ways the variants report a failed parse.\<close>

definition zod_400_A :: "env \<Rightarrow> string \<Rightarrow> (string \<rightharpoonup> json) \<Rightarrow> reply" where
  "zod_400_A env schema b =
     Reply 400 (JObj [(''error'', JStr (join '', '' (zod_messages env schema b)))])"

definition zod_400_B :: "env \<Rightarrow> string \<Rightarrow> (string \<rightharpoonup> json) \<Rightarrow> string \<Rightarrow> reply" where
  "zod_400_B env schema b fallback =
     Reply 400 (JObj [(''error'', JStr
       (case zod_messages env schema b of
          m # ms \<Rightarrow> if m \<noteq> [] then m else fallback
        | [] \<Rightarrow> fallback))])"

subsection \<open>Tokens\<close>

definition generateTokens_A :: "env \<Rightarrow> ctx \<Rightarrow> user \<Rightarrow> string \<times> string" where
  "generateTokens_A env ctx u =
     (let accessToken = jwt_sign env \<lparr> c_id = u_id u, c_role = Some (u_role u) \<rparr>
                          (JWT_SECRET env) (15 * 60) (now ctx);
          refreshToken = jwt_sign env \<lparr> c_id = u_id u, c_role = Some (u_role u) \<rparr>
                          (JWT_REFRESH_SECRET env) (7 * 24 * 60 * 60) (now ctx)
      in (accessToken, refreshToken))"

text \<open>The second variant signs the refresh token over \<^verbatim>\<open>{ id: user._id }\<close> alone.\<close>

definition generateTokens_B :: "env \<Rightarrow> ctx \<Rightarrow> string \<Rightarrow> role option \<Rightarrow> string \<times> string" where
  "generateTokens_B env ctx uid r =
     (let accessToken = jwt_sign env \<lparr> c_id = uid, c_role = r \<rparr>
                          (JWT_SECRET env) (15 * 60) (now ctx);
          refreshToken = jwt_sign env \<lparr> c_id = uid, c_role = None \<rparr>
                          (JWT_REFRESH_SECRET env) (7 * 24 * 60 * 60) (now ctx)
      in (accessToken, refreshToken))"

subsection \<open>POST /api/auth/register\<close>

definition server_error :: "env \<Rightarrow> fault \<Rightarrow> reply" where
  "server_error env f =
     Reply 500 (JObj [(''error'', JStr ''Server error''), (''details'', JStr (fault_message env f))])"

definition register_A :: "env \<Rightarrow> ctx \<Rightarrow> state \<Rightarrow> request \<Rightarrow> reply \<times> state" where
  "register_A env ctx s req =
     (case registerSchema_A env (body req) of
        None \<Rightarrow> (zod_400_A env ''registerSchema'' (body req), s)
      | Some parsed \<Rightarrow>
          (case User_findOne_email s (rd_email parsed) of
             Some exists \<Rightarrow> (Reply 400 (JObj [(''error'', JStr ''Email already registered'')]), s)
           | None \<Rightarrow>
               (let hashed = bcrypt_hash env (rd_password parsed) 10 (salt ctx) in
                case User_create ctx s (rd_name parsed) (rd_email parsed) (rd_phone parsed)
                       hashed None of
                  Inl f \<Rightarrow> (server_error env f, s)
                | Inr (u, s') \<Rightarrow>
                    (let tokens = generateTokens_A env ctx u in
                     (Reply 200 (JObj [(''message'', JStr ''Registered''),
                        (''user'', JObj [(''id'', JStr (u_id u)), (''name'', JStr (u_name u)),
                                         (''email'', JStr (u_email u))]),
                        (''accessToken'', JStr (fst tokens)),
                        (''refreshToken'', JStr (snd tokens))]), s')))))"

definition register_B :: "env \<Rightarrow> ctx \<Rightarrow> state \<Rightarrow> request \<Rightarrow> reply \<times> state" where
  "register_B env ctx s req =
     (case registerSchema_B env (body req) of
        None \<Rightarrow> (zod_400_B env ''registerSchema'' (body req)
                   (zod_error_message env ''registerSchema'' (body req)), s)
      | Some data \<Rightarrow>
          (case User_findOne_email s (rd_email data) of
             Some exists \<Rightarrow> (Reply 400 (JObj [(''error'', JStr ''Email already exists'')]), s)
           | None \<Rightarrow>
               (let hashed = bcrypt_hash env (rd_password data) 10 (salt ctx) in
                case User_create ctx s (rd_name data) (rd_email data) (rd_phone data)
                       hashed None of
                  Inl f \<Rightarrow> (Reply 400 (JObj [(''error'', JStr (fault_message env f))]), s)
                | Inr (u, s') \<Rightarrow>
                    (let tokens = generateTokens_B env ctx (u_id u) (Some (u_role u)) in
                     (Reply 200 (JObj [(''message'', JStr ''Registered successfully''),
                        (''accessToken'', JStr (fst tokens)),
                        (''refreshToken'', JStr (snd tokens)),
                        (''user'', JObj [(''id'', JStr (u_id u)), (''name'', JStr (u_name u)),
                                         (''email'', JStr (u_email u)),
                                         (''role'', JStr (role_name (u_role u)))])]), s')))))"

subsection \<open>The middleware: authenticate and adminOnly\<close>

definition unauthorized :: "string \<Rightarrow> reply" where
  "unauthorized msg = Reply 401 (JObj [(''error'', JStr msg)])"

definition bearer_payload :: "env \<Rightarrow> ctx \<Rightarrow> string \<Rightarrow> reply + claims" where
  "bearer_payload env ctx header =
     (case at_index (split_on CHR '' '' header) 1 of
        None \<Rightarrow> Inl (unauthorized ''Invalid or expired token'')
      | Some token \<Rightarrow>
          (case jwt_verify env token (JWT_SECRET env) (now ctx) of
             None \<Rightarrow> Inl (unauthorized ''Invalid or expired token'')
           | Some payload \<Rightarrow> Inr payload))"

definition authenticate_A :: "env \<Rightarrow> ctx \<Rightarrow> request \<Rightarrow> reply + claims" where
  "authenticate_A env ctx req =
     (case authorization req of
        None \<Rightarrow> Inl (unauthorized ''Unauthorized'')
      | Some header \<Rightarrow>
          if header = [] then Inl (unauthorized ''Unauthorized'')
          else if startsWith header ''Bearer '' then bearer_payload env ctx header
          else Inl (unauthorized ''Unauthorized''))"

definition authenticate_B :: "env \<Rightarrow> ctx \<Rightarrow> request \<Rightarrow> reply + claims" where
  "authenticate_B env ctx req =
     (case authorization req of
        None \<Rightarrow> Inl (unauthorized ''Access denied'')
      | Some authHeader \<Rightarrow>
          if startsWith authHeader ''Bearer '' then bearer_payload env ctx authHeader
          else Inl (unauthorized ''Access denied''))"

definition adminOnly :: "claims \<Rightarrow> reply option" where
  "adminOnly payload =
     (if c_role payload = Some Admin then None
      else Some (Reply 403 (JObj [(''error'', JStr ''Admin access required'')])))"

subsection \<open>POST /api/auth/login\<close>

definition loginSchema :: "env \<Rightarrow> (string \<rightharpoonup> json) \<Rightarrow> (string \<times> string) option" where
  "loginSchema env b =
     (case (z_string (b ''email''), z_string (b ''password'')) of
        (Some email, Some password) \<Rightarrow>
          if zod_email env email \<and> 6 \<le> length password then Some (email, password) else None
      | _ \<Rightarrow> None)"

definition invalid_credentials :: reply where
  "invalid_credentials = Reply 401 (JObj [(''error'', JStr ''Invalid credentials'')])"

definition login_A :: "env \<Rightarrow> ctx \<Rightarrow> state \<Rightarrow> request \<Rightarrow> reply \<times> state" where
  "login_A env ctx s req =
     (case loginSchema env (body req) of
        None \<Rightarrow> (zod_400_A env ''loginSchema'' (body req), s)
      | Some (email, password) \<Rightarrow>
          (case User_findOne_email s email of
             None \<Rightarrow> (invalid_credentials, s)
           | Some u \<Rightarrow>
               if bcrypt_compare env password (u_password u) then
                 (let tokens = generateTokens_A env ctx u in
                  (Reply 200 (JObj [(''message'', JStr ''Logged in''),
                     (''user'', JObj [(''id'', JStr (u_id u)), (''name'', JStr (u_name u)),
                                      (''email'', JStr (u_email u)),
                                      (''role'', JStr (role_name (u_role u)))]),
                     (''accessToken'', JStr (fst tokens)),
                     (''refreshToken'', JStr (snd tokens))]), s))
               else (invalid_credentials, s)))"

definition login_B :: "env \<Rightarrow> ctx \<Rightarrow> state \<Rightarrow> request \<Rightarrow> reply \<times> state" where
  "login_B env ctx s req =
     (case loginSchema env (body req) of
        None \<Rightarrow> (zod_400_B env ''loginSchema'' (body req) ''Invalid input'', s)
      | Some (email, password) \<Rightarrow>
          (case User_findOne_email s email of
             None \<Rightarrow> (invalid_credentials, s)
           | Some u \<Rightarrow>
               if bcrypt_compare env password (u_password u) then
                 (let tokens = generateTokens_B env ctx (u_id u) (Some (u_role u)) in
                  (Reply 200 (JObj [(''accessToken'', JStr (fst tokens)),
                     (''refreshToken'', JStr (snd tokens)),
                     (''user'', JObj [(''id'', JStr (u_id u)), (''name'', JStr (u_name u)),
                                      (''email'', JStr (u_email u)),
                                      (''role'', JStr (role_name (u_role u)))])]), s))
               else (invalid_credentials, s)))"

subsection \<open>POST /api/auth/refresh\<close>

text \<open>A value that \<^verbatim>\<open>!v\<close> takes for absent.\<close>

fun falsy :: "json \<Rightarrow> bool" where
  "falsy JNull = True"
| "falsy (JBool b) = (b = False)"
| "falsy (JNum n) = (n = 0)"
| "falsy (JStr v) = (v = [])"
| "falsy (JDate d) = False"
| "falsy (JArr js) = False"
| "falsy (JObj kvs) = False"

definition present :: "json option \<Rightarrow> json option" where
  "present j = (case j of None \<Rightarrow> None | Some v \<Rightarrow> if falsy v then None else Some v)"

definition invalid_refresh :: reply where
  "invalid_refresh = Reply 403 (JObj [(''error'', JStr ''Invalid refresh token'')])"

definition refresh_A :: "env \<Rightarrow> ctx \<Rightarrow> request \<Rightarrow> reply" where
  "refresh_A env ctx req =
     (case present (body req ''refreshToken'') of
        None \<Rightarrow> Reply 400 (JObj [(''error'', JStr ''No refresh token provided'')])
      | Some (JStr refreshToken) \<Rightarrow>
          (case jwt_verify env refreshToken (JWT_REFRESH_SECRET env) (now ctx) of
             None \<Rightarrow> invalid_refresh
           | Some payload \<Rightarrow>
               (let accessToken = jwt_sign env \<lparr> c_id = c_id payload, c_role = c_role payload \<rparr>
                                    (JWT_SECRET env) (15 * 60) (now ctx)
                in Reply 200 (JObj [(''accessToken'', JStr accessToken)])))
      | Some other \<Rightarrow> invalid_refresh)"

definition refresh_B :: "env \<Rightarrow> ctx \<Rightarrow> request \<Rightarrow> reply" where
  "refresh_B env ctx req =
     (case present (body req ''token'') of
        None \<Rightarrow> Reply 401 (JObj [(''error'', JStr ''No token'')])
      | Some (JStr token) \<Rightarrow>
          (case jwt_verify env token (JWT_REFRESH_SECRET env) (now ctx) of
             None \<Rightarrow> invalid_refresh
           | Some u \<Rightarrow>
               (let tokens = generateTokens_B env ctx (c_id u) (c_role u)
                in Reply 200 (JObj [(''accessToken'', JStr (fst tokens))])))
      | Some other \<Rightarrow> invalid_refresh)"

subsection \<open>GET /api/doctors\<close>

definition path_field :: "string \<Rightarrow> ('a \<Rightarrow> json) \<Rightarrow> 'a path_value \<Rightarrow> (string \<times> json) list" where
  "path_field k f v = (case v of Unset \<Rightarrow> [] | Null \<Rightarrow> [(k, JNull)] | Value x \<Rightarrow> [(k, f x)])"

definition doctor_fields :: "doctor \<Rightarrow> (string \<times> json) list" where
  "doctor_fields d =
     [(''_id'', JStr (d_id d)), (''name'', JStr (d_name d)), (''specialty'', JStr (d_specialty d))]
     @ path_field ''rating'' JNum (d_rating d) @ path_field ''reviews'' JNum (d_reviews d)
     @ path_field ''location'' JStr (d_location d)
     @ path_field ''availability'' JStr (d_availability d)
     @ path_field ''fee'' JStr (d_fee d) @ path_field ''image'' JStr (d_image d)"

definition doctor_json :: "doctor \<Rightarrow> json" where
  "doctor_json d = JObj (doctor_fields d)"

text \<open>
  A query parameter that \<^verbatim>\<open>if (v)\<close> takes as given: it is present and not the empty
  string. Arrays and objects always count.
\<close>

definition given :: "request \<Rightarrow> string \<Rightarrow> qvalue option" where
  "given req k =
     (case query req k of
        None \<Rightarrow> None
      | Some (QStr v) \<Rightarrow> if v = [] then None else Some (QStr v)
      | Some w \<Rightarrow> Some w)"

text \<open>
  The filter both variants build from \<^verbatim>\<open>req.query\<close>, which no schema checks:
  \<^verbatim>\<open>q.specialty = specialty\<close> when that parameter is given and
  \<^verbatim>\<open>q.name = { $regex: search, $options: 'i' }\<close> when that one is. A string for
  \<^verbatim>\<open>specialty\<close> asks for equality, a string for \<^verbatim>\<open>search\<close> is the pattern of a regular
  expression; any other value is an operand for the database to read. A condition is
  \<open>None\<close> when the query fails on it.
\<close>

definition specialty_condition :: "env \<Rightarrow> request \<Rightarrow> (string \<Rightarrow> bool) option" where
  "specialty_condition env req =
     (case given req ''specialty'' of
        None \<Rightarrow> Some (\<lambda>v. True)
      | Some (QStr specialty) \<Rightarrow> Some (\<lambda>v. v = specialty)
      | Some w \<Rightarrow> operand env ''specialty'' w)"

definition name_condition :: "env \<Rightarrow> request \<Rightarrow> (string \<Rightarrow> bool) option" where
  "name_condition env req =
     (case given req ''search'' of
        None \<Rightarrow> Some (\<lambda>v. True)
      | Some (QStr search) \<Rightarrow> regex env search ''i''
      | Some w \<Rightarrow> operand env ''name'' (QObj [(''$regex'', w), (''$options'', QStr ''i'')]))"

text \<open>The parameters that went into the filter, for the error of a query that fails.\<close>

definition filter_of :: "request \<Rightarrow> (string \<times> qvalue) list" where
  "filter_of req =
     (case given req ''specialty'' of None \<Rightarrow> [] | Some v \<Rightarrow> [(''specialty'', v)]) @
     (case given req ''search'' of None \<Rightarrow> [] | Some v \<Rightarrow> [(''search'', v)])"

definition doctor_filter :: "env \<Rightarrow> request \<Rightarrow> fault + (doctor \<Rightarrow> bool)" where
  "doctor_filter env req =
     (case (specialty_condition env req, name_condition env req) of
        (Some by_specialty, Some by_name) \<Rightarrow>
          Inr (\<lambda>d. by_specialty (d_specialty d) \<and> by_name (d_name d))
      | _ \<Rightarrow> Inl (QueryError (filter_of req)))"

definition list_doctors_A :: "env \<Rightarrow> state \<Rightarrow> request \<Rightarrow> reply" where
  "list_doctors_A env s req =
     (case doctor_filter env req of
        Inl f \<Rightarrow> server_error env f
      | Inr q \<Rightarrow> Reply 200 (JArr (map doctor_json (filter q (doctors s)))))"

definition list_doctors_B :: "env \<Rightarrow> state \<Rightarrow> request \<Rightarrow> reply" where
  "list_doctors_B env s req =
     (case doctor_filter env req of
        Inl f \<Rightarrow> No_Reply
      | Inr q \<Rightarrow> Reply 200 (JArr (map doctor_json (filter q (doctors s)))))"

subsection \<open>POST /api/appointments\<close>

record appointment_data =
  ad_doctorId :: string
  ad_date :: string
  ad_time :: string
  ad_symptoms :: string
  ad_phone :: string

text \<open>The pattern \<^verbatim>\<open>/^\d{4}-\d{2}-\d{2}$/\<close> of both variants.\<close>

definition date_format :: "string \<Rightarrow> bool" where
  "date_format v =
     (length v = 10 \<and> list_all is_digit (take 4 v) \<and> v ! 4 = CHR ''-'' \<and>
      list_all is_digit (take 2 (drop 5 v)) \<and> v ! 7 = CHR ''-'' \<and>
      list_all is_digit (drop 8 v))"

text \<open>The pattern \<^verbatim>\<open>/^([0-1]?[0-9]|2[0-3]):[0-5][0-9]$/\<close> of the second variant.\<close>

definition minutes_format :: "string \<Rightarrow> bool" where
  "minutes_format w =
     (length w = 3 \<and> w ! 0 = CHR '':'' \<and> w ! 1 \<in> set ''012345'' \<and> is_digit (w ! 2))"

definition time_format :: "string \<Rightarrow> bool" where
  "time_format v =
     ((length v = 4 \<and> is_digit (v ! 0) \<and> minutes_format (drop 1 v)) \<or>
      (length v = 5 \<and>
       ((v ! 0 \<in> set ''01'' \<and> is_digit (v ! 1)) \<or> (v ! 0 = CHR ''2'' \<and> v ! 1 \<in> set ''0123'')) \<and>
       minutes_format (drop 2 v)))"

definition appointmentZ :: "(string \<rightharpoonup> json) \<Rightarrow> appointment_data option" where
  "appointmentZ b =
     (case (z_string (b ''doctorId''), z_string (b ''date''), z_string (b ''time''),
            z_string (b ''symptoms''), z_string (b ''phone'')) of
        (Some doctorId, Some date, Some time, Some symptoms, Some phone) \<Rightarrow>
          if length doctorId = 24 \<and> date_format date \<and> 3 \<le> length time \<and>
             5 \<le> length symptoms \<and> 6 \<le> length phone
          then Some \<lparr> ad_doctorId = doctorId, ad_date = date, ad_time = time,
                       ad_symptoms = symptoms, ad_phone = phone \<rparr>
          else None
      | _ \<Rightarrow> None)"

definition appointmentSchema :: "(string \<rightharpoonup> json) \<Rightarrow> appointment_data option" where
  "appointmentSchema b =
     (case (z_string (b ''doctorId''), z_string (b ''date''), z_string (b ''time''),
            z_string (b ''symptoms''), z_string (b ''phone'')) of
        (Some doctorId, Some date, Some time, Some symptoms, Some phone) \<Rightarrow>
          if length doctorId = 24 \<and> date_format date \<and> time_format time \<and>
             10 \<le> length symptoms \<and> phone_chars phone
          then Some \<lparr> ad_doctorId = doctorId, ad_date = date, ad_time = time,
                       ad_symptoms = symptoms, ad_phone = phone \<rparr>
          else None
      | _ \<Rightarrow> None)"

definition appointment_json :: "appointment \<Rightarrow> json" where
  "appointment_json a =
     JObj [(''_id'', JStr (a_id a)), (''doctor'', JStr (a_doctor a)),
           (''doctorName'', JStr (a_doctorName a)), (''specialty'', JStr (a_specialty a)),
           (''patient'', JStr (a_patient a)), (''patientName'', JStr (a_patientName a)),
           (''date'', JDate (a_date a)), (''time'', JStr (a_time a)),
           (''symptoms'', JStr (a_symptoms a)), (''phone'', JStr (a_phone a)),
           (''status'', JStr (status_name (a_status a))),
           (''createdAt'', JDate (a_createdAt a)), (''__v'', JNum 0)]"

text \<open>
  \<^verbatim>\<open>Appointment.create(doc)\<close> under the schema: \<^verbatim>\<open>status\<close> defaults to pending and
  \<^verbatim>\<open>createdAt\<close> to the clock; \<^verbatim>\<open>date\<close> must be a valid date and the required strings must
  not be empty; \<^verbatim>\<open>_id\<close> is a unique key.
\<close>

definition Appointment_create ::
  "ctx \<Rightarrow> state \<Rightarrow> doctor \<Rightarrow> user \<Rightarrow> int option \<Rightarrow> appointment_data \<Rightarrow>
   appointment_status option \<Rightarrow> fault + (appointment \<times> state)" where
  "Appointment_create ctx s d p date data st =
     (case date of
        None \<Rightarrow> Inl (ValidationError ''Appointment'')
      | Some t \<Rightarrow>
          (let a = \<lparr> a_id = new_id ctx 0, a_doctor = d_id d, a_doctorName = d_name d,
                     a_specialty = d_specialty d, a_patient = u_id p, a_patientName = u_name p,
                     a_date = t, a_time = ad_time data, a_symptoms = ad_symptoms data,
                     a_phone = ad_phone data,
                     a_status = (case st of None \<Rightarrow> Pending | Some x \<Rightarrow> x),
                     a_createdAt = now ctx \<rparr>
           in if a_time a = [] \<or> a_symptoms a = [] \<or> a_phone a = []
              then Inl (ValidationError ''Appointment'')
              else if list_ex (\<lambda>b. a_id b = a_id a) (appointments s)
              then Inl (DuplicateKey ''_id'')
              else Inr (a, s\<lparr> appointments := appointments s @ [a] \<rparr>)))"

definition not_found :: "string \<Rightarrow> reply" where
  "not_found msg = Reply 404 (JObj [(''error'', JStr msg)])"

definition booked :: "appointment \<Rightarrow> reply" where
  "booked a = Reply 200 (JObj [(''message'', JStr ''Appointment booked''),
                               (''appointment'', appointment_json a)])"

definition book_A :: "env \<Rightarrow> ctx \<Rightarrow> state \<Rightarrow> request \<Rightarrow> reply \<times> state" where
  "book_A env ctx s req =
     (case authenticate_A env ctx req of
        Inl denied \<Rightarrow> (denied, s)
      | Inr payload \<Rightarrow>
          (case appointmentZ (body req) of
             None \<Rightarrow> (zod_400_A env ''appointmentZ'' (body req), s)
           | Some parsed \<Rightarrow>
               (case Doctor_findById s (ad_doctorId parsed) of
                  Inl f \<Rightarrow> (server_error env f, s)
                | Inr None \<Rightarrow> (not_found ''Doctor not found'', s)
                | Inr (Some d) \<Rightarrow>
                    (let appointmentDate = date_parse env (ad_date parsed @ ''T00:00:00'') in
                     case User_findById s (c_id payload) of
                       Inl f \<Rightarrow> (server_error env f, s)
                     | Inr None \<Rightarrow> (not_found ''Patient not found'', s)
                     | Inr (Some p) \<Rightarrow>
                         (case Appointment_create ctx s d p appointmentDate parsed
                                 (Some Confirmed) of
                            Inl f \<Rightarrow> (server_error env f, s)
                          | Inr (a, s') \<Rightarrow> (booked a, s'))))))"

definition caught_400 :: "env \<Rightarrow> fault \<Rightarrow> reply" where
  "caught_400 env f = Reply 400 (JObj [(''error'', JStr (fault_message env f))])"

definition book_B :: "env \<Rightarrow> ctx \<Rightarrow> state \<Rightarrow> request \<Rightarrow> reply \<times> state" where
  "book_B env ctx s req =
     (case authenticate_B env ctx req of
        Inl denied \<Rightarrow> (denied, s)
      | Inr payload \<Rightarrow>
          (case appointmentSchema (body req) of
             None \<Rightarrow> (zod_400_B env ''appointmentSchema'' (body req)
                        (zod_error_message env ''appointmentSchema'' (body req)), s)
           | Some data \<Rightarrow>
               (case Doctor_findById s (ad_doctorId data) of
                  Inl f \<Rightarrow> (caught_400 env f, s)
                | Inr None \<Rightarrow> (not_found ''Doctor not found'', s)
                | Inr (Some d) \<Rightarrow>
                    (case User_findById s (c_id payload) of
                       Inl f \<Rightarrow> (caught_400 env f, s)
                     | Inr None \<Rightarrow> (caught_400 env (TypeError ''name''), s)
                     | Inr (Some p) \<Rightarrow>
                         (case Appointment_create ctx s d p (date_parse env (ad_date data)) data
                                 None of
                            Inl f \<Rightarrow> (caught_400 env f, s)
                          | Inr (a, s') \<Rightarrow> (booked a, s'))))))"

subsection \<open>PATCH /api/appointments/:id/cancel (first variant only)\<close>

text \<open>\<^verbatim>\<open>appt.save()\<close>: the stored document with this \<^verbatim>\<open>_id\<close> is replaced.\<close>

fun save_appointment :: "appointment \<Rightarrow> appointment list \<Rightarrow> appointment list" where
  "save_appointment a [] = []"
| "save_appointment a (b # bs) = (if a_id b = a_id a then a # bs else b # save_appointment a bs)"

definition cancel_A :: "env \<Rightarrow> ctx \<Rightarrow> state \<Rightarrow> request \<Rightarrow> reply \<times> state" where
  "cancel_A env ctx s req =
     (case authenticate_A env ctx req of
        Inl denied \<Rightarrow> (denied, s)
      | Inr payload \<Rightarrow>
          (case Appointment_findById s (param_id req) of
             Inl f \<Rightarrow> (server_error env f, s)
           | Inr None \<Rightarrow> (not_found ''Appointment not found'', s)
           | Inr (Some appt) \<Rightarrow>
               if a_patient appt \<noteq> c_id payload \<and> c_role payload \<noteq> Some Admin
               then (Reply 403 (JObj [(''error'', JStr ''Not allowed'')]), s)
               else (let appt' = appt\<lparr> a_status := Cancelled \<rparr> in
                     (Reply 200 (JObj [(''message'', JStr ''Appointment cancelled''),
                                       (''appointment'', appointment_json appt')]),
                      s\<lparr> appointments := save_appointment appt' (appointments s) \<rparr>))))"

subsection \<open>GET /api/admin/users\<close>

definition user_json :: "user \<Rightarrow> json" where
  "user_json u =
     JObj [(''_id'', JStr (u_id u)), (''name'', JStr (u_name u)), (''email'', JStr (u_email u)),
           (''phone'', JStr (u_phone u)), (''password'', JStr (u_password u)),
           (''role'', JStr (role_name (u_role u))), (''joinDate'', JDate (u_joinDate u)),
           (''isActive'', JBool (u_isActive u)), (''__v'', JNum 0)]"

text \<open>The projection \<^verbatim>\<open>.select('-password')\<close>: the document without that field.\<close>

fun select_without :: "string \<Rightarrow> json \<Rightarrow> json" where
  "select_without k (JObj kvs) = JObj (filter (\<lambda>kv. fst kv \<noteq> k) kvs)"
| "select_without k v = v"

text \<open>
  \<^verbatim>\<open>.sort({ joinDate: -1 })\<close>: newest first. The order the database gives to documents
  with equal dates is not specified; the model keeps their stored order.
\<close>

definition newest_first :: "user list \<Rightarrow> user list" where
  "newest_first us = sort_key (\<lambda>u. - u_joinDate u) us"

definition admin_users_A :: "env \<Rightarrow> ctx \<Rightarrow> state \<Rightarrow> request \<Rightarrow> reply" where
  "admin_users_A env ctx s req =
     (case authenticate_A env ctx req of
        Inl denied \<Rightarrow> denied
      | Inr payload \<Rightarrow>
          (case adminOnly payload of
             Some denied \<Rightarrow> denied
           | None \<Rightarrow>
               Reply 200 (JArr (map (\<lambda>u. select_without ''password'' (user_json u))
                                  (newest_first (filter (\<lambda>u. u_role u = Patient) (users s)))))))"

definition admin_users_B :: "env \<Rightarrow> ctx \<Rightarrow> state \<Rightarrow> request \<Rightarrow> reply" where
  "admin_users_B env ctx s req =
     (case authenticate_B env ctx req of
        Inl denied \<Rightarrow> denied
      | Inr payload \<Rightarrow>
          (case adminOnly payload of
             Some denied \<Rightarrow> denied
           | None \<Rightarrow>
               Reply 200 (JArr (map (\<lambda>u. select_without ''password'' (user_json u))
                                  (filter (\<lambda>u. u_role u = Patient) (users s))))))"

subsection \<open>GET /api/admin/stats and GET /api/admin/appointments (first variant)\<close>

definition admin_stats_A :: "env \<Rightarrow> ctx \<Rightarrow> state \<Rightarrow> request \<Rightarrow> reply" where
  "admin_stats_A env ctx s req =
     (case authenticate_A env ctx req of
        Inl denied \<Rightarrow> denied
      | Inr payload \<Rightarrow>
          (case adminOnly payload of
             Some denied \<Rightarrow> denied
           | None \<Rightarrow>
               Reply 200 (JObj
                 [(''totalUsers'',
                     JNum (of_nat (length (filter (\<lambda>u. u_role u = Patient) (users s))))),
                  (''totalAppointments'', JNum (of_nat (length (appointments s)))),
                  (''totalDoctors'', JNum (of_nat (length (doctors s))))])))"

text \<open>
  An appointment with \<^verbatim>\<open>.populate('doctor', 'name specialty')\<close> and
  \<^verbatim>\<open>.populate('patient', 'name email phone')\<close>: each reference is replaced by the selected
  fields of the document it names, or by \<^verbatim>\<open>null\<close> when there is none.
\<close>

definition populated_json :: "state \<Rightarrow> appointment \<Rightarrow> json" where
  "populated_json s a =
     JObj [(''_id'', JStr (a_id a)),
           (''doctor'',
              (case find (\<lambda>d. d_id d = a_doctor a) (doctors s) of
                 None \<Rightarrow> JNull
               | Some d \<Rightarrow> JObj [(''_id'', JStr (d_id d)), (''name'', JStr (d_name d)),
                                 (''specialty'', JStr (d_specialty d))])),
           (''doctorName'', JStr (a_doctorName a)), (''specialty'', JStr (a_specialty a)),
           (''patient'',
              (case find (\<lambda>u. u_id u = a_patient a) (users s) of
                 None \<Rightarrow> JNull
               | Some u \<Rightarrow> JObj [(''_id'', JStr (u_id u)), (''name'', JStr (u_name u)),
                                 (''email'', JStr (u_email u)), (''phone'', JStr (u_phone u))])),
           (''patientName'', JStr (a_patientName a)),
           (''date'', JDate (a_date a)), (''time'', JStr (a_time a)),
           (''symptoms'', JStr (a_symptoms a)), (''phone'', JStr (a_phone a)),
           (''status'', JStr (status_name (a_status a))),
           (''createdAt'', JDate (a_createdAt a)), (''__v'', JNum 0)]"

definition admin_appointments_A :: "env \<Rightarrow> ctx \<Rightarrow> state \<Rightarrow> request \<Rightarrow> reply" where
  "admin_appointments_A env ctx s req =
     (case authenticate_A env ctx req of
        Inl denied \<Rightarrow> denied
      | Inr payload \<Rightarrow>
          (case adminOnly payload of
             Some denied \<Rightarrow> denied
           | None \<Rightarrow>
               Reply 200 (JArr (map (populated_json s)
                                  (sort_key (\<lambda>a. - a_createdAt a) (appointments s))))))"

subsection \<open>GET /api/ping (first variant)\<close>

definition ping_A :: "ctx \<Rightarrow> reply" where
  "ping_A ctx = Reply 200 (JObj [(''ok'', JBool True), (''time'', JDate (now ctx))])"

subsection \<open>POST /api/admin/doctors (first variant)\<close>

text \<open>
  What mongoose makes of a field of the body for a path of type \<^verbatim>\<open>String\<close> or \<^verbatim>\<open>Number\<close>:
  an absent field leaves the path unset, \<^verbatim>\<open>null\<close> is kept, any other value is cast. \<open>None\<close>
  when the cast fails.
\<close>

definition string_path :: "env \<Rightarrow> json option \<Rightarrow> string path_value option" where
  "string_path env j =
     (case j of
        None \<Rightarrow> Some Unset
      | Some JNull \<Rightarrow> Some Null
      | Some v \<Rightarrow> (case cast_string env v of None \<Rightarrow> None | Some x \<Rightarrow> Some (Value x)))"

definition number_path :: "env \<Rightarrow> json option \<Rightarrow> rat path_value option" where
  "number_path env j =
     (case j of
        None \<Rightarrow> Some Unset
      | Some JNull \<Rightarrow> Some Null
      | Some v \<Rightarrow>
          (case cast_number env v of
             None \<Rightarrow> None
           | Some None \<Rightarrow> Some Null
           | Some (Some n) \<Rightarrow> Some (Value n)))"

text \<open>The default of a path applies when the path is unset.\<close>

definition with_default :: "'a \<Rightarrow> 'a path_value \<Rightarrow> 'a path_value" where
  "with_default x v = (case v of Unset \<Rightarrow> Value x | Null \<Rightarrow> Null | Value y \<Rightarrow> Value y)"

text \<open>
  \<^verbatim>\<open>Doctor.create({ name, specialty, rating, reviews, location, availability, fee, image })\<close>
  with the fields of the body: every field is cast to the type of its path, \<^verbatim>\<open>name\<close> and
  \<^verbatim>\<open>specialty\<close> are required and must not be empty, \<^verbatim>\<open>rating\<close> defaults to 4.5 and
  \<^verbatim>\<open>reviews\<close> to 0; \<^verbatim>\<open>_id\<close> is a unique key.
\<close>

definition Doctor_create :: "env \<Rightarrow> ctx \<Rightarrow> state \<Rightarrow> (string \<rightharpoonup> json) \<Rightarrow> fault + (doctor \<times> state)" where
  "Doctor_create env ctx s b =
     (case (string_path env (b ''name''), string_path env (b ''specialty''),
            number_path env (b ''rating''), number_path env (b ''reviews'')) of
        (Some (Value name), Some (Value specialty), Some rating, Some reviews) \<Rightarrow>
          (case (string_path env (b ''location''), string_path env (b ''availability''),
                 string_path env (b ''fee''), string_path env (b ''image'')) of
             (Some location, Some availability, Some fee, Some image') \<Rightarrow>
               (let d = \<lparr> d_id = new_id ctx 0, d_name = name, d_specialty = specialty,
                          d_rating = with_default (45 / 10) rating,
                          d_reviews = with_default 0 reviews,
                          d_location = location, d_availability = availability,
                          d_fee = fee, d_image = image' \<rparr>
                in if name = [] \<or> specialty = [] then Inl (ValidationError ''Doctor'')
                   else if list_ex (\<lambda>e. d_id e = d_id d) (doctors s)
                   then Inl (DuplicateKey ''_id'')
                   else Inr (d, s\<lparr> doctors := doctors s @ [d] \<rparr>))
           | _ \<Rightarrow> Inl (ValidationError ''Doctor''))
      | _ \<Rightarrow> Inl (ValidationError ''Doctor''))"

text \<open>The created document as \<^verbatim>\<open>res.json\<close> writes it, with its version key.\<close>

definition doctor_document :: "doctor \<Rightarrow> json" where
  "doctor_document d = JObj (doctor_fields d @ [(''__v'', JNum 0)])"

definition create_doctor_A :: "env \<Rightarrow> ctx \<Rightarrow> state \<Rightarrow> request \<Rightarrow> reply \<times> state" where
  "create_doctor_A env ctx s req =
     (case authenticate_A env ctx req of
        Inl denied \<Rightarrow> (denied, s)
      | Inr payload \<Rightarrow>
          (case adminOnly payload of
             Some denied \<Rightarrow> (denied, s)
           | None \<Rightarrow>
               if present (body req ''name'') = None \<or> present (body req ''specialty'') = None
               then (Reply 400 (JObj [(''error'', JStr ''name & specialty required'')]), s)
               else (case Doctor_create env ctx s (body req) of
                       Inl f \<Rightarrow> (server_error env f, s)
                     | Inr (d, s') \<Rightarrow> (Reply 200 (doctor_document d), s'))))"

subsection \<open>GET /api/appointments (first variant)\<close>

text \<open>
  An appointment with \<^verbatim>\<open>.populate('doctor', 'name specialty image')\<close>.
\<close>

definition listed_json :: "state \<Rightarrow> appointment \<Rightarrow> json" where
  "listed_json s a =
     JObj [(''_id'', JStr (a_id a)),
           (''doctor'',
              (case find (\<lambda>d. d_id d = a_doctor a) (doctors s) of
                 None \<Rightarrow> JNull
               | Some d \<Rightarrow> JObj ([(''_id'', JStr (d_id d)), (''name'', JStr (d_name d)),
                                  (''specialty'', JStr (d_specialty d))]
                                 @ path_field ''image'' JStr (d_image d)))),
           (''doctorName'', JStr (a_doctorName a)), (''specialty'', JStr (a_specialty a)),
           (''patient'', JStr (a_patient a)), (''patientName'', JStr (a_patientName a)),
           (''date'', JDate (a_date a)), (''time'', JStr (a_time a)),
           (''symptoms'', JStr (a_symptoms a)), (''phone'', JStr (a_phone a)),
           (''status'', JStr (status_name (a_status a))),
           (''createdAt'', JDate (a_createdAt a)), (''__v'', JNum 0)]"

text \<open>
  \<^verbatim>\<open>Appointment.find({ patient: req.user.id })\<close>, the id cast to an ObjectId, sorted by
  \<^verbatim>\<open>{ date: -1, createdAt: -1 }\<close>: latest date first and, among equal dates, latest
  creation first.
\<close>

definition my_appointments_A :: "env \<Rightarrow> ctx \<Rightarrow> state \<Rightarrow> request \<Rightarrow> reply" where
  "my_appointments_A env ctx s req =
     (case authenticate_A env ctx req of
        Inl denied \<Rightarrow> denied
      | Inr payload \<Rightarrow>
          (case cast_object_id (c_id payload) of
             None \<Rightarrow> server_error env (CastError (c_id payload) ''patient'')
           | Some i \<Rightarrow>
               Reply 200 (JArr (map (listed_json s)
                 (sort_key (\<lambda>a. - a_date a)
                    (sort_key (\<lambda>a. - a_createdAt a)
                       (filter (\<lambda>a. a_patient a = i) (appointments s))))))))"

subsection \<open>POST /api/feedback and GET /api/feedback (first variant)\<close>

definition feedback_json :: "feedback \<Rightarrow> json" where
  "feedback_json f =
     JObj ([(''_id'', JStr (f_id f))]
           @ path_field ''patient'' JStr (f_patient f) @ path_field ''doctor'' JStr (f_doctor f)
           @ path_field ''rating'' JNum (f_rating f) @ path_field ''comment'' JStr (f_comment f)
           @ [(''date'', JDate (f_date f)), (''__v'', JNum 0)])"

text \<open>
  \<^verbatim>\<open>Feedback.create({ patient, doctor, rating, comment })\<close> with the fields of the body: a
  rating that is a number must lie between 1 and 5, \<^verbatim>\<open>date\<close> defaults to the clock.
\<close>

definition Feedback_create ::
  "env \<Rightarrow> ctx \<Rightarrow> feedback list \<Rightarrow> (string \<rightharpoonup> json) \<Rightarrow> fault + (feedback \<times> feedback list)" where
  "Feedback_create env ctx fs b =
     (case (string_path env (b ''patient''), string_path env (b ''doctor''),
            number_path env (b ''rating''), string_path env (b ''comment'')) of
        (Some patient, Some doctor, Some rating, Some comment) \<Rightarrow>
          (let f = \<lparr> f_id = new_id ctx 0, f_patient = patient, f_doctor = doctor,
                     f_rating = rating, f_comment = comment, f_date = now ctx \<rparr>
           in if (case rating of Value n \<Rightarrow> n < 1 \<or> 5 < n | _ \<Rightarrow> False)
              then Inl (ValidationError ''Feedback'')
              else if list_ex (\<lambda>e. f_id e = f_id f) fs then Inl (DuplicateKey ''_id'')
              else Inr (f, fs @ [f]))
      | _ \<Rightarrow> Inl (ValidationError ''Feedback''))"

definition post_feedback_A ::
  "env \<Rightarrow> ctx \<Rightarrow> feedback list \<Rightarrow> request \<Rightarrow> reply \<times> feedback list" where
  "post_feedback_A env ctx fs req =
     (if present (body req ''rating'') = None \<or> present (body req ''comment'') = None
      then (Reply 400 (JObj [(''error'', JStr ''rating and comment required'')]), fs)
      else (case Feedback_create env ctx fs (body req) of
              Inl f \<Rightarrow> (server_error env f, fs)
            | Inr (f, fs') \<Rightarrow> (Reply 200 (feedback_json f), fs')))"

text \<open>\<^verbatim>\<open>Feedback.find().sort({ date: -1 })\<close>.\<close>

definition get_feedback_A :: "feedback list \<Rightarrow> reply" where
  "get_feedback_A fs = Reply 200 (JArr (map feedback_json (sort_key (\<lambda>f. - f_date f) fs)))"

subsection \<open>Seeding (first variant)\<close>

definition seedDoctors :: "ctx \<Rightarrow> doctor list" where
  "seedDoctors ctx =
     [\<lparr> d_id = new_id ctx 1, d_name = ''Dr. Sarah Johnson'', d_specialty = ''Cardiology'',
        d_rating = Value (48 / 10), d_reviews = Value 245, d_location = Value ''Downtown Medical Center'',
        d_availability = Value ''Mon-Fri 9AM-5PM'', d_fee = Value ''$100'',
        d_image = Value ''https://placehold.co/600x400/007bff/ffffff?text=Dr+Sarah'' \<rparr>,
      \<lparr> d_id = new_id ctx 2, d_name = ''Dr. Michael Chen'', d_specialty = ''Dermatology'',
        d_rating = Value (49 / 10), d_reviews = Value 312, d_location = Value ''Skin Care Clinic'',
        d_availability = Value ''Mon-Sat 10AM-6PM'', d_fee = Value ''$80'',
        d_image = Value ''https://placehold.co/600x400/28a745/ffffff?text=Dr+Michael'' \<rparr>,
      \<lparr> d_id = new_id ctx 3, d_name = ''Dr. Emily Rodriguez'', d_specialty = ''Pediatrics'',
        d_rating = Value (47 / 10), d_reviews = Value 189,
        d_location = Value (''Children'' @ [CHR 0x27] @ ''s Hospital''),
        d_availability = Value ''Tue-Thu 8AM-4PM'', d_fee = Value ''$90'',
        d_image = Value ''https://placehold.co/600x400/ffc107/ffffff?text=Dr+Emily'' \<rparr>,
      \<lparr> d_id = new_id ctx 4, d_name = ''Dr. James Wilson'', d_specialty = ''Orthopedics'',
        d_rating = Value (46 / 10), d_reviews = Value 278, d_location = Value ''Sports Medicine Center'',
        d_availability = Value ''Mon-Fri 9AM-5PM'', d_fee = Value ''$120'',
        d_image = Value ''https://placehold.co/600x400/17a2b8/ffffff?text=Dr+James'' \<rparr>,
      \<lparr> d_id = new_id ctx 5, d_name = ''Dr. Lisa Anderson'', d_specialty = ''Neurology'',
        d_rating = Value (49 / 10), d_reviews = Value 156, d_location = Value ''Neurological Institute'',
        d_availability = Value ''Wed-Fri 1PM-7PM'', d_fee = Value ''$110'',
        d_image = Value ''https://placehold.co/600x400/6610f2/ffffff?text=Dr+Lisa'' \<rparr>]"

text \<open>
  \<^verbatim>\<open>seedData\<close>: when there is no doctor, the five doctors are inserted, and when there is
  no user, the admin is created with the bcrypt hash of \<^verbatim>\<open>admin123\<close>. An exception (here:
  a generated \<^verbatim>\<open>_id\<close> that is already taken) is caught and logged, and ends the seeding.
\<close>

definition seedData_A :: "env \<Rightarrow> ctx \<Rightarrow> state \<Rightarrow> state" where
  "seedData_A env ctx s =
     (case (if length (doctors s) = 0
            then (if distinct (map d_id (seedDoctors ctx))
                  then Some (s\<lparr> doctors := seedDoctors ctx \<rparr>) else None)
            else Some s) of
        None \<Rightarrow> s
      | Some s1 \<Rightarrow>
          if length (users s1) = 0 then
            (let hashed = bcrypt_hash env ''admin123'' 10 (salt ctx) in
             case User_create ctx s1 ''Admin'' ''admin@medicare.com'' ''9999999999'' hashed
                    (Some Admin) of
               Inl f \<Rightarrow> s1
             | Inr (u, s2) \<Rightarrow> s2)
          else s1)"

subsection \<open>A test double of the libraries\<close>

text \<open>
  Concrete stand-ins for the parameters of \<open>env\<close>, used where a handler is run on a
  concrete request. A token is the signing secret, the subject, the role (or a dash) and
  the expiry time in seconds, joined by dots; it verifies under the same secret until it
  expires. A password hash is the salt and the reversed password behind dollar signs. Dates
  are parsed in UTC. The regular-expression engine knows patterns made of literal
  characters and dots: a dot matches any character but a line feed, a letter matches
  itself in either case when the option \<^verbatim>\<open>i\<close> is set, and a pattern with any other
  metacharacter is refused, as PCRE refuses the pattern \<^verbatim>\<open>(\<close>, the only such pattern
  used below. Of the operands that are not strings the double knows \<^verbatim>\<open>{ $ne: x }\<close> and an
  array of strings, which mongoose reads as \<^verbatim>\<open>$in\<close>; of the casts, those of strings,
  booleans and natural numbers.
\<close>


function show_nat :: "nat \<Rightarrow> string" where
  "show_nat n = (if n < 10 then [hex_digit n] else show_nat (n div 10) @ [hex_digit (n mod 10)])"
  by pat_completeness auto
termination
  by (relation "measure id") auto

definition digit_value :: "char \<Rightarrow> nat" where
  "digit_value c = (case map_of (zip ''0123456789'' [0, 1, 2, 3, 4, 5, 6, 7, 8, 9]) c of
                      Some n \<Rightarrow> n | None \<Rightarrow> 0)"

definition parse_nat :: "string \<Rightarrow> nat option" where
  "parse_nat v = (if v \<noteq> [] \<and> list_all is_digit v
                  then Some (foldl (\<lambda>a c. 10 * a + digit_value c) 0 v) else None)"

definition parse_role :: "string \<Rightarrow> role option option" where
  "parse_role r = (if r = ''-'' then Some None
                   else if r = ''patient'' then Some (Some Patient)
                   else if r = ''admin'' then Some (Some Admin) else None)"

definition stub_jwt_sign :: "claims \<Rightarrow> string \<Rightarrow> nat \<Rightarrow> int \<Rightarrow> string" where
  "stub_jwt_sign c secret seconds t =
     join ''.'' [secret, c_id c, (case c_role c of None \<Rightarrow> ''-'' | Some r \<Rightarrow> role_name r),
                 show_nat (nat (t div 1000) + seconds)]"

definition stub_jwt_verify :: "string \<Rightarrow> string \<Rightarrow> int \<Rightarrow> claims option" where
  "stub_jwt_verify token secret t =
     (case split_on CHR ''.'' token of
        [k, i, r, e] \<Rightarrow>
          (case (parse_role r, parse_nat e) of
             (Some ro, Some ex) \<Rightarrow>
               if k = secret \<and> t div 1000 < int ex then Some \<lparr> c_id = i, c_role = ro \<rparr> else None
           | _ \<Rightarrow> None)
      | _ \<Rightarrow> None)"

definition stub_bcrypt_hash :: "string \<Rightarrow> nat \<Rightarrow> string \<Rightarrow> string" where
  "stub_bcrypt_hash plaintext rounds slt = ''$'' @ slt @ ''$'' @ rev plaintext"

definition stub_bcrypt_compare :: "string \<Rightarrow> string \<Rightarrow> bool" where
  "stub_bcrypt_compare plaintext h =
     (case h of
        [] \<Rightarrow> False
      | c # rest \<Rightarrow> c = CHR ''$'' \<and> drop 1 (dropWhile (\<lambda>x. x \<noteq> CHR ''$'') rest) = rev plaintext)"

definition stub_zod_email :: "string \<Rightarrow> bool" where
  "stub_zod_email e =
     (case split_on CHR ''@'' e of
        [l, d] \<Rightarrow> l \<noteq> [] \<and> str_includes d ''.'' \<and> list_all (\<lambda>c. c \<noteq> CHR '' '') e
      | _ \<Rightarrow> False)"

fun stub_fault_message :: "fault \<Rightarrow> string" where
  "stub_fault_message (CastError v p) = ''Cast to ObjectId failed''"
| "stub_fault_message (ValidationError m) = ''Validation failed''"
| "stub_fault_message (DuplicateKey k) = ''E11000 duplicate key error''"
| "stub_fault_message (TypeError p) = ''Cannot read properties of null''"
| "stub_fault_message (QueryError q) = ''Regular expression is invalid''"

definition leap_year :: "nat \<Rightarrow> bool" where
  "leap_year y = (y mod 4 = 0 \<and> (y mod 400 = 0 \<or> y mod 100 \<noteq> 0))"

definition days_in_month :: "nat \<Rightarrow> nat \<Rightarrow> nat" where
  "days_in_month y m =
     (if m = 2 then (if leap_year y then 29 else 28)
      else if m \<in> set [4, 6, 9, 11] then 30 else 31)"

definition days_from_civil :: "int \<Rightarrow> int \<Rightarrow> int \<Rightarrow> int" where
  "days_from_civil y m d =
     (let y' = (if m \<le> 2 then y - 1 else y);
          era = y' div 400;
          yoe = y' - era * 400;
          doy = (153 * (if 2 < m then m - 3 else m + 9) + 2) div 5 + d - 1;
          doe = yoe * 365 + yoe div 4 - yoe div 100 + doy
      in era * 146097 + doe - 719468)"

definition stub_date_parse :: "string \<Rightarrow> int option" where
  "stub_date_parse v =
     (if date_format (take 10 v) \<and> (drop 10 v = [] \<or> drop 10 v = ''T00:00:00'') then
        (case (parse_nat (take 4 v), parse_nat (take 2 (drop 5 v)), parse_nat (take 2 (drop 8 v))) of
           (Some y, Some m, Some d) \<Rightarrow>
             if 1 \<le> m \<and> m \<le> 12 \<and> 1 \<le> d \<and> d \<le> days_in_month y m
             then Some (days_from_civil (int y) (int m) (int d) * 86400000) else None
         | _ \<Rightarrow> None)
      else None)"

definition regex_meta :: string where
  "regex_meta = CHR 0x5C # ''^$.|?*+()[]{}''"

fun atom_matches :: "bool \<Rightarrow> char \<Rightarrow> char \<Rightarrow> bool" where
  "atom_matches ci p c =
     (if p = CHR ''.'' then c \<noteq> CHR 0x0A
      else if ci then to_lower p = to_lower c else p = c)"

fun match_here :: "bool \<Rightarrow> string \<Rightarrow> string \<Rightarrow> bool" where
  "match_here ci [] v = True"
| "match_here ci (p # ps) [] = False"
| "match_here ci (p # ps) (c # cs) = (atom_matches ci p c \<and> match_here ci ps cs)"

fun match_anywhere :: "bool \<Rightarrow> string \<Rightarrow> string \<Rightarrow> bool" where
  "match_anywhere ci p [] = match_here ci p []"
| "match_anywhere ci p (c # cs) = (match_here ci p (c # cs) \<or> match_anywhere ci p cs)"

definition stub_regex :: "string \<Rightarrow> string \<Rightarrow> (string \<Rightarrow> bool) option" where
  "stub_regex pattern options =
     (if list_all (\<lambda>c. c = CHR ''.'' \<or> c \<notin> set regex_meta) pattern
      then Some (match_anywhere (CHR ''i'' \<in> set options) pattern)
      else None)"

fun qstr :: "qvalue \<Rightarrow> string option" where
  "qstr (QStr v) = Some v"
| "qstr (QArr vs) = None"
| "qstr (QObj kvs) = None"

fun stub_operand :: "string \<Rightarrow> qvalue \<Rightarrow> (string \<Rightarrow> bool) option" where
  "stub_operand path (QObj [(k, QStr x)]) = (if k = ''$ne'' then Some (\<lambda>v. v \<noteq> x) else None)"
| "stub_operand path (QArr vs) =
     (if list_all (\<lambda>v. qstr v \<noteq> None) vs then Some (\<lambda>v. Some v \<in> set (map qstr vs)) else None)"
| "stub_operand path w = None"

definition whole :: "rat \<Rightarrow> bool" where
  "whole n = (0 \<le> n \<and> of_int \<lfloor>n\<rfloor> = n)"

fun stub_cast_string :: "json \<Rightarrow> string option" where
  "stub_cast_string (JStr v) = Some v"
| "stub_cast_string (JBool b) = Some (if b then ''true'' else ''false'')"
| "stub_cast_string (JNum n) = (if whole n then Some (show_nat (nat \<lfloor>n\<rfloor>)) else None)"
| "stub_cast_string j = None"

fun stub_cast_number :: "json \<Rightarrow> rat option option" where
  "stub_cast_number (JNum n) = Some (Some n)"
| "stub_cast_number (JBool b) = Some (Some (if b then 1 else 0))"
| "stub_cast_number (JStr v) =
     (if v = [] then Some None
      else (case parse_nat v of None \<Rightarrow> None | Some n \<Rightarrow> Some (Some (of_nat n))))"
| "stub_cast_number j = None"

definition stub_env :: env where
  "stub_env = \<lparr> JWT_SECRET = ''supersecret_access'', JWT_REFRESH_SECRET = ''supersecret_refresh'',
     jwt_sign = stub_jwt_sign, jwt_verify = stub_jwt_verify,
     bcrypt_hash = stub_bcrypt_hash, bcrypt_compare = stub_bcrypt_compare,
     zod_email = stub_zod_email,
     zod_messages = (\<lambda>schema b. [''Invalid input'']),
     zod_error_message = (\<lambda>schema b. ''Invalid input''),
     fault_message = stub_fault_message,
     date_parse = stub_date_parse,
     regex = stub_regex,
     operand = stub_operand,
     cast_string = stub_cast_string,
     cast_number = stub_cast_number \<rparr>"

subsection \<open>What a reply may show\<close>

text \<open>No object anywhere in the body of the reply has a field named \<^verbatim>\<open>password\<close>.\<close>

definition no_password_field :: "reply \<Rightarrow> bool" where
  "no_password_field r =
     (case r of Reply n b \<Rightarrow> ''password'' \<notin> set (keys_of b) | No_Reply \<Rightarrow> True)"

text \<open>All the strings inside a JSON value, the names of fields included.\<close>

primrec strings_of :: "json \<Rightarrow> string list" where
  "strings_of JNull = []"
| "strings_of (JBool b) = []"
| "strings_of (JNum n) = []"
| "strings_of (JStr v) = [v]"
| "strings_of (JDate d) = []"
| "strings_of (JArr js) = concat (map strings_of js)"
| "strings_of (JObj kvs) = concat (map (\<lambda>kv. fst kv # snd kv) (map (map_prod id strings_of) kvs))"

text \<open>The reply contains the text \<open>v\<close>: \<open>v\<close> occurs inside one of its strings.\<close>

definition mentions :: "string \<Rightarrow> reply \<Rightarrow> bool" where
  "mentions v r =
     (case r of Reply n b \<Rightarrow> list_ex (\<lambda>x. str_includes x v) (strings_of b) | No_Reply \<Rightarrow> False)"

text \<open>
  What a schema looks at in a password: whether it is a string and, if so, whether it has
  the six characters required; a value that is not a string is looked at as it is. Two
  bodies are alike up to their passwords when they agree on every other field, on what
  the schemas look at in \<^verbatim>\<open>password\<close> and \<^verbatim>\<open>confirmPassword\<close>, and on whether these two
  are equal.
\<close>

definition veiled :: "json option \<Rightarrow> bool + json option" where
  "veiled j = (case j of Some (JStr v) \<Rightarrow> Inl (6 \<le> length v) | other \<Rightarrow> Inr other)"

definition alike :: "(string \<rightharpoonup> json) \<Rightarrow> (string \<rightharpoonup> json) \<Rightarrow> bool" where
  "alike b b' =
     ((\<forall>k. k \<noteq> ''password'' \<and> k \<noteq> ''confirmPassword'' \<longrightarrow> b k = b' k) \<and>
      veiled (b ''password'') = veiled (b' ''password'') \<and>
      veiled (b ''confirmPassword'') = veiled (b' ''confirmPassword'') \<and>
      (b ''password'' = b ''confirmPassword'') = (b' ''password'' = b' ''confirmPassword''))"

text \<open>
  The messages of zod's issues name the path and the constraint that failed, never the
  value: two bodies that are alike up to their passwords get the same messages.
\<close>

definition zod_blind :: "env \<Rightarrow> bool" where
  "zod_blind env =
     (\<forall>schema b b'. alike b b' \<longrightarrow> zod_messages env schema b = zod_messages env schema b')"

text \<open>
  The verdict of \<^verbatim>\<open>bcrypt.compare\<close> on the password of a login body, for the user that
  has the email of the body.
\<close>

definition verdict :: "env \<Rightarrow> state \<Rightarrow> (string \<rightharpoonup> json) \<Rightarrow> bool" where
  "verdict env s b =
     (case (b ''email'', b ''password'') of
        (Some (JStr email), Some (JStr password)) \<Rightarrow>
          (case User_findOne_email s email of
             None \<Rightarrow> False
           | Some u \<Rightarrow> bcrypt_compare env password (u_password u))
      | _ \<Rightarrow> False)"

text \<open>The store with every stored password blanked out.\<close>

definition veil_user :: "user \<Rightarrow> user" where
  "veil_user u = u\<lparr> u_password := [] \<rparr>"

definition veil :: "state \<Rightarrow> state" where
  "veil s = s\<lparr> users := map veil_user (users s) \<rparr>"

subsection \<open>Literal search, for comparison\<close>

text \<open>\<open>p\<close> occurs in \<open>v\<close> as a substring, letter case ignored.\<close>

definition ci_includes :: "string \<Rightarrow> string \<Rightarrow> bool" where
  "ci_includes v p = str_includes (toLowerCase v) (toLowerCase p)"

text \<open>A search string without any of the characters that a regular expression reads as
  an operator.\<close>

definition no_meta :: "string \<Rightarrow> bool" where
  "no_meta p = list_all (\<lambda>c. c \<notin> set regex_meta) p"

text \<open>On such a string the database's case-insensitive \<^verbatim>\<open>$regex\<close> search is a
  case-insensitive substring search.\<close>

definition literal_engine :: "env \<Rightarrow> bool" where
  "literal_engine env =
     (\<forall>p. no_meta p \<longrightarrow> (\<exists>m. regex env p ''i'' = Some m \<and> (\<forall>v. m v = ci_includes v p)))"

text \<open>
  The listing as the specification words it, written from its sentence ``returns exactly
  the doctors whose name contains the search string case-insensitively as a substring''.
\<close>

definition literal_search :: "state \<Rightarrow> string \<Rightarrow> reply" where
  "literal_search s p =
     Reply 200 (JArr (map doctor_json (filter (\<lambda>d. ci_includes (d_name d) p) (doctors s))))"

subsection \<open>Fixtures\<close>

definition ctx1 :: ctx where
  "ctx1 = \<lparr> now = 1000000, new_id = (\<lambda>k. ''fffffffffffffffffffffff'' @ [hex_digit k]), salt = ''NaCl'' \<rparr>"

definition alice :: user where
  "alice = \<lparr> u_id = ''aaaaaaaaaaaaaaaaaaaaaaaa'', u_name = ''Alice'', u_email = ''a@x.com'',
     u_phone = ''1234567890'', u_password = ''$NaCl$1terces'', u_role = Patient,
     u_joinDate = 0, u_isActive = True \<rparr>"

definition store1 :: state where
  "store1 = \<lparr> users = [alice], doctors = [], appointments = [] \<rparr>"

definition register_req :: request where
  "register_req = \<lparr> authorization = None,
     body = [''name'' \<mapsto> JStr ''Al'', ''email'' \<mapsto> JStr ''a@x.com'', ''phone'' \<mapsto> JStr ''1234567890'',
             ''password'' \<mapsto> JStr ''secret1'', ''confirmPassword'' \<mapsto> JStr ''secret1''],
     param_id = [], query = Map.empty \<rparr>"

definition login_req :: request where
  "login_req = \<lparr> authorization = None,
     body = [''email'' \<mapsto> JStr ''a@x.com'', ''password'' \<mapsto> JStr ''wrong-password''],
     param_id = [], query = Map.empty \<rparr>"

definition store0 :: state where
  "store0 = \<lparr> users = [], doctors = [], appointments = [] \<rparr>"

definition bob :: user where
  "bob = \<lparr> u_id = ''bbbbbbbbbbbbbbbbbbbbbbbb'', u_name = ''Bob'', u_email = ''b@x.com'',
     u_phone = ''2345678901'', u_password = ''$NaCl$2terces'', u_role = Patient,
     u_joinDate = 10, u_isActive = True \<rparr>"

definition root :: user where
  "root = \<lparr> u_id = ''cccccccccccccccccccccccc'', u_name = ''Admin'', u_email = ''admin@medicare.com'',
     u_phone = ''9999999999'', u_password = ''$NaCl$321nimda'', u_role = Admin,
     u_joinDate = 20, u_isActive = True \<rparr>"

definition dr_johnson :: doctor where
  "dr_johnson = \<lparr> d_id = ''dddddddddddddddddddddddd'', d_name = ''Dr. Sarah Johnson'',
     d_specialty = ''Cardiology'', d_rating = Value (48 / 10), d_reviews = Value 245,
     d_location = Value ''Downtown Medical Center'', d_availability = Value ''Mon-Fri 9AM-5PM'',
     d_fee = Value ''$100'', d_image = Unset \<rparr>"

definition appt1 :: appointment where
  "appt1 = \<lparr> a_id = ''eeeeeeeeeeeeeeeeeeeeeeee'', a_doctor = ''dddddddddddddddddddddddd'',
     a_doctorName = ''Dr. Sarah Johnson'', a_specialty = ''Cardiology'',
     a_patient = ''aaaaaaaaaaaaaaaaaaaaaaaa'', a_patientName = ''Alice'',
     a_date = 1748736000000, a_time = ''09:30'', a_symptoms = ''fever for 3 days'',
     a_phone = ''9999999999'', a_status = Confirmed, a_createdAt = 500 \<rparr>"

definition store2 :: state where
  "store2 = \<lparr> users = [alice, bob, root], doctors = [dr_johnson], appointments = [appt1] \<rparr>"

definition as_alice :: "string option" where
  "as_alice = Some ''Bearer supersecret_access.aaaaaaaaaaaaaaaaaaaaaaaa.patient.2000''"

definition as_bob :: "string option" where
  "as_bob = Some ''Bearer supersecret_access.bbbbbbbbbbbbbbbbbbbbbbbb.patient.2000''"

definition as_root :: "string option" where
  "as_root = Some ''Bearer supersecret_access.cccccccccccccccccccccccc.admin.2000''"

definition cancel_req :: "string option \<Rightarrow> request" where
  "cancel_req who = \<lparr> authorization = who, body = Map.empty,
     param_id = ''eeeeeeeeeeeeeeeeeeeeeeee'', query = Map.empty \<rparr>"

definition book_req :: "string option \<Rightarrow> string \<Rightarrow> request" where
  "book_req who doctorId = \<lparr> authorization = who,
     body = [''doctorId'' \<mapsto> JStr doctorId, ''date'' \<mapsto> JStr ''2025-06-01'',
             ''time'' \<mapsto> JStr ''09:30'', ''symptoms'' \<mapsto> JStr ''fever for 3 days'',
             ''phone'' \<mapsto> JStr ''9999999999''],
     param_id = [], query = Map.empty \<rparr>"

definition new_appt :: "appointment_status \<Rightarrow> appointment" where
  "new_appt st = \<lparr> a_id = ''fffffffffffffffffffffff0'', a_doctor = ''dddddddddddddddddddddddd'',
     a_doctorName = ''Dr. Sarah Johnson'', a_specialty = ''Cardiology'',
     a_patient = ''aaaaaaaaaaaaaaaaaaaaaaaa'', a_patientName = ''Alice'',
     a_date = 1748736000000, a_time = ''09:30'', a_symptoms = ''fever for 3 days'',
     a_phone = ''9999999999'', a_status = st, a_createdAt = 1000000 \<rparr>"

definition loose_req :: request where
  "loose_req = \<lparr> authorization = as_alice,
     body = [''doctorId'' \<mapsto> JStr ''dddddddddddddddddddddddd'', ''date'' \<mapsto> JStr ''2025-06-01'',
             ''time'' \<mapsto> JStr ''abc'', ''symptoms'' \<mapsto> JStr ''fever for 3 days'',
             ''phone'' \<mapsto> JStr ''abcdef''],
     param_id = [], query = Map.empty \<rparr>"

definition loose_appt :: appointment where
  "loose_appt = \<lparr> a_id = ''fffffffffffffffffffffff0'', a_doctor = ''dddddddddddddddddddddddd'',
     a_doctorName = ''Dr. Sarah Johnson'', a_specialty = ''Cardiology'',
     a_patient = ''aaaaaaaaaaaaaaaaaaaaaaaa'', a_patientName = ''Alice'',
     a_date = 1748736000000, a_time = ''abc'', a_symptoms = ''fever for 3 days'',
     a_phone = ''abcdef'', a_status = Confirmed, a_createdAt = 1000000 \<rparr>"

definition bad_date_req :: request where
  "bad_date_req = \<lparr> authorization = as_alice,
     body = [''doctorId'' \<mapsto> JStr ''dddddddddddddddddddddddd'', ''date'' \<mapsto> JStr ''01/06/2025'',
             ''time'' \<mapsto> JStr ''09:30'', ''symptoms'' \<mapsto> JStr ''fever for 3 days'',
             ''phone'' \<mapsto> JStr ''9999999999''],
     param_id = [], query = Map.empty \<rparr>"

definition short_req :: request where
  "short_req = \<lparr> authorization = as_alice,
     body = [''doctorId'' \<mapsto> JStr ''dddddddddddddddddddddddd'', ''date'' \<mapsto> JStr ''2025-06-01'',
             ''time'' \<mapsto> JStr ''9'', ''symptoms'' \<mapsto> JStr ''fever for 3 days'',
             ''phone'' \<mapsto> JStr ''12345''],
     param_id = [], query = Map.empty \<rparr>"

definition refresh_req_A :: "string \<Rightarrow> request" where
  "refresh_req_A t = \<lparr> authorization = None, body = [''refreshToken'' \<mapsto> JStr t],
     param_id = [], query = Map.empty \<rparr>"

definition refresh_req_B :: "string \<Rightarrow> request" where
  "refresh_req_B t = \<lparr> authorization = None, body = [''token'' \<mapsto> JStr t],
     param_id = [], query = Map.empty \<rparr>"

definition bearer_req :: "string \<Rightarrow> request" where
  "bearer_req t = \<lparr> authorization = Some (''Bearer '' @ t), body = Map.empty,
     param_id = [], query = Map.empty \<rparr>"

definition register_new :: request where
  "register_new = \<lparr> authorization = None,
     body = [''name'' \<mapsto> JStr ''Carol'', ''email'' \<mapsto> JStr ''Carol@X.com'',
             ''phone'' \<mapsto> JStr ''3456789012'', ''password'' \<mapsto> JStr ''secret1'',
             ''confirmPassword'' \<mapsto> JStr ''secret1''],
     param_id = [], query = Map.empty \<rparr>"

definition doctors_req :: "(string \<rightharpoonup> qvalue) \<Rightarrow> request" where
  "doctors_req q = \<lparr> authorization = None, body = Map.empty, param_id = [], query = q \<rparr>"

definition search_req :: "string \<Rightarrow> request" where
  "search_req p = doctors_req [''search'' \<mapsto> QStr p]"

definition dr_amy :: doctor where
  "dr_amy = \<lparr> d_id = ''abababababababababababab'', d_name = ''Amy'',
     d_specialty = ''Neurology'', d_rating = Value (45 / 10), d_reviews = Value 0,
     d_location = Unset, d_availability = Unset, d_fee = Unset, d_image = Unset \<rparr>"

definition store3 :: state where
  "store3 = \<lparr> users = [], doctors = [dr_amy], appointments = [] \<rparr>"

definition store4 :: state where
  "store4 = \<lparr> users = [], doctors = [dr_johnson, dr_amy], appointments = [] \<rparr>"

definition dr_newline :: doctor where
  "dr_newline = \<lparr> d_id = ''fffffffffffffffffffffff0'', d_name = [CHR 0x0A],
     d_specialty = ''Surgery'', d_rating = Value (45 / 10), d_reviews = Value 0,
     d_location = Unset, d_availability = Unset, d_fee = Unset, d_image = Unset \<rparr>"

definition create_doctor_req :: "string \<Rightarrow> string \<Rightarrow> request" where
  "create_doctor_req name specialty = \<lparr> authorization = as_root,
     body = [''name'' \<mapsto> JStr name, ''specialty'' \<mapsto> JStr specialty],
     param_id = [], query = Map.empty \<rparr>"

definition store5 :: state where
  "store5 = \<lparr> users = [alice, bob, root], doctors = [dr_johnson, dr_newline],
     appointments = [appt1] \<rparr>"

definition other_specialty_req :: request where
  "other_specialty_req = doctors_req [''specialty'' \<mapsto> QObj [(''$ne'', QStr ''Cardiology'')]]"

definition echo_req :: request where
  "echo_req = \<lparr> authorization = None,
     body = [''name'' \<mapsto> JStr ''secret1'', ''email'' \<mapsto> JStr ''carol@x.com'',
             ''phone'' \<mapsto> JStr ''3456789012'', ''password'' \<mapsto> JStr ''secret1'',
             ''confirmPassword'' \<mapsto> JStr ''secret1''],
     param_id = [], query = Map.empty \<rparr>"

definition register_other :: request where
  "register_other = \<lparr> authorization = None,
     body = [''name'' \<mapsto> JStr ''Carol'', ''email'' \<mapsto> JStr ''Carol@X.com'',
             ''phone'' \<mapsto> JStr ''3456789012'', ''password'' \<mapsto> JStr ''hunter22'',
             ''confirmPassword'' \<mapsto> JStr ''hunter22''],
     param_id = [], query = Map.empty \<rparr>"

definition login_other :: request where
  "login_other = \<lparr> authorization = None,
     body = [''email'' \<mapsto> JStr ''a@x.com'', ''password'' \<mapsto> JStr ''another-guess''],
     param_id = [], query = Map.empty \<rparr>"

section \<open>Properties\<close>

subsection \<open>Evaluating the test double\<close>

lemma stub_sel:
  "JWT_SECRET stub_env = ''supersecret_access''"
  "JWT_REFRESH_SECRET stub_env = ''supersecret_refresh''"
  "jwt_sign stub_env = stub_jwt_sign"
  "jwt_verify stub_env = stub_jwt_verify"
  "bcrypt_hash stub_env = stub_bcrypt_hash"
  "bcrypt_compare stub_env = stub_bcrypt_compare"
  "zod_email stub_env = stub_zod_email"
  "zod_messages stub_env = (\<lambda>schema b. [''Invalid input''])"
  "zod_error_message stub_env = (\<lambda>schema b. ''Invalid input'')"
  "fault_message stub_env = stub_fault_message"
  "date_parse stub_env = stub_date_parse"
  "regex stub_env = stub_regex"
  "operand stub_env = stub_operand"
  "cast_string stub_env = stub_cast_string"
  "cast_number stub_env = stub_cast_number"
  by (simp_all add: stub_env_def)

lemmas stub_defs = stub_sel stub_jwt_sign_def stub_jwt_verify_def stub_bcrypt_hash_def
  stub_bcrypt_compare_def stub_zod_email_def stub_date_parse_def stub_regex_def

subsection \<open>Registration with an email that is taken\<close>

lemma find_list_ex: "list_ex P xs \<Longrightarrow> \<exists>x. find P xs = Some x"
  by (induction xs) auto

lemma registerSchema_A_email:
  "registerSchema_A env b = Some p \<Longrightarrow> z_string (b ''email'') = Some (rd_email p)"
  by (auto simp: registerSchema_A_def split: option.splits if_splits)

lemma registerSchema_B_email:
  "registerSchema_B env b = Some p \<Longrightarrow> z_string (b ''email'') = Some (rd_email p)"
  by (auto simp: registerSchema_B_def split: option.splits if_splits)

lemma register_A_existing:
  assumes "z_string (body req ''email'') = Some e"
    and "list_ex (\<lambda>u. u_email u = toLowerCase e) (users s)"
  shows "register_A env ctx s req =
           (case registerSchema_A env (body req) of
              None \<Rightarrow> (zod_400_A env ''registerSchema'' (body req), s)
            | Some p \<Rightarrow> (Reply 400 (JObj [(''error'', JStr ''Email already registered'')]), s))"
proof (cases "registerSchema_A env (body req)")
  case None
  then show ?thesis by (simp add: register_A_def)
next
  case (Some p)
  with assms(1) have "rd_email p = e"
    using registerSchema_A_email by fastforce
  with assms(2) obtain u where "User_findOne_email s (rd_email p) = Some u"
    unfolding User_findOne_email_def using find_list_ex by blast
  with Some show ?thesis by (simp add: register_A_def)
qed

lemma register_B_existing:
  assumes "z_string (body req ''email'') = Some e"
    and "list_ex (\<lambda>u. u_email u = toLowerCase e) (users s)"
  shows "register_B env ctx s req =
           (case registerSchema_B env (body req) of
              None \<Rightarrow> (zod_400_B env ''registerSchema'' (body req)
                         (zod_error_message env ''registerSchema'' (body req)), s)
            | Some p \<Rightarrow> (Reply 400 (JObj [(''error'', JStr ''Email already exists'')]), s))"
proof (cases "registerSchema_B env (body req)")
  case None
  then show ?thesis by (simp add: register_B_def)
next
  case (Some p)
  with assms(1) have "rd_email p = e"
    using registerSchema_B_email by fastforce
  with assms(2) obtain u where "User_findOne_email s (rd_email p) = Some u"
    unfolding User_findOne_email_def using find_list_ex by blast
  with Some show ?thesis by (simp add: register_B_def)
qed

text \<open>
  Claim C1, as stated: a registration whose email already belongs to a user is answered
  with status 409. At the store holding Alice (a@x.com), the request
  \<^verbatim>\<open>{name: "Al", email: "a@x.com", phone: "1234567890", password: "secret1",
  confirmPassword: "secret1"}\<close> passes the schema and is answered with status 400 by both
  variants.
\<close>

theorem register_existing_email_counterexample:
  "list_ex (\<lambda>u. u_email u = toLowerCase ''a@x.com'') (users store1) \<and>
   z_string (body register_req ''email'') = Some ''a@x.com'' \<and>
   fst (register_A stub_env ctx1 store1 register_req) =
     Reply 400 (JObj [(''error'', JStr ''Email already registered'')]) \<and>
   fst (register_B stub_env ctx1 store1 register_req) =
     Reply 400 (JObj [(''error'', JStr ''Email already exists'')])"
  by (simp add: register_A_def register_B_def registerSchema_A_def registerSchema_B_def
      register_req_def z_string_def stub_defs User_findOne_email_def store1_def alice_def
      toLowerCase_def to_lower_def upper_letters_def lower_letters_def phone_chars_def
      is_digit_def)

text \<open>
  Claim C1, amended: for every registration request whose email (a string \<open>e\<close>) already
  belongs to a user (emails are stored in lower case), both variants answer with status
  400 and leave the store as it was, so no second user with that email is created; when
  the request passes the schema, the reply is the duplicate-email error (``Email already
  registered'' in the first variant, ``Email already exists'' in the second).
\<close>

theorem register_existing_email_400:
  assumes "z_string (body req ''email'') = Some e"
    and "list_ex (\<lambda>u. u_email u = toLowerCase e) (users s)"
  shows "status_of (fst (register_A env ctx s req)) = Some 400 \<and>
         snd (register_A env ctx s req) = s \<and>
         status_of (fst (register_B env ctx s req)) = Some 400 \<and>
         snd (register_B env ctx s req) = s \<and>
         (registerSchema_A env (body req) \<noteq> None \<longrightarrow>
            fst (register_A env ctx s req) =
              Reply 400 (JObj [(''error'', JStr ''Email already registered'')])) \<and>
         (registerSchema_B env (body req) \<noteq> None \<longrightarrow>
            fst (register_B env ctx s req) =
              Reply 400 (JObj [(''error'', JStr ''Email already exists'')]))"
  using register_A_existing [OF assms] register_B_existing [OF assms]
  by (auto simp: zod_400_A_def zod_400_B_def split: option.splits)

theorem register_existing_email_400_witness:
  "status_of (fst (register_A stub_env ctx1 store1 register_req)) = Some 400 \<and>
   snd (register_A stub_env ctx1 store1 register_req) = store1 \<and>
   status_of (fst (register_B stub_env ctx1 store1 register_req)) = Some 400 \<and>
   snd (register_B stub_env ctx1 store1 register_req) = store1"
proof -
  have h1: "z_string (body register_req ''email'') = Some ''a@x.com''"
    by (simp add: register_req_def z_string_def)
  have h2: "list_ex (\<lambda>u. u_email u = toLowerCase ''a@x.com'') (users store1)"
    by (simp add: store1_def alice_def toLowerCase_def to_lower_def upper_letters_def
        lower_letters_def)
  from register_existing_email_400 [OF h1 h2] show ?thesis by blast
qed

subsection \<open>Failed logins\<close>

lemma login_A_failure:
  assumes "loginSchema env (body req) = Some (email, password)"
    and "User_findOne_email s email = None \<or>
         (\<exists>u. User_findOne_email s email = Some u \<and> bcrypt_compare env password (u_password u) = False)"
  shows "login_A env ctx s req = (Reply 401 (JObj [(''error'', JStr ''Invalid credentials'')]), s)"
  using assms by (auto simp: login_A_def invalid_credentials_def)

lemma login_B_failure:
  assumes "loginSchema env (body req) = Some (email, password)"
    and "User_findOne_email s email = None \<or>
         (\<exists>u. User_findOne_email s email = Some u \<and> bcrypt_compare env password (u_password u) = False)"
  shows "login_B env ctx s req = (Reply 401 (JObj [(''error'', JStr ''Invalid credentials'')]), s)"
  using assms by (auto simp: login_B_def invalid_credentials_def)

lemma login_A_failed_reply:
  "status_of (fst (login_A env ctx s req)) \<noteq> Some 200 \<Longrightarrow>
   fst (login_A env ctx s req) =
     (case loginSchema env (body req) of
        None \<Rightarrow> zod_400_A env ''loginSchema'' (body req)
      | Some p \<Rightarrow> Reply 401 (JObj [(''error'', JStr ''Invalid credentials'')]))"
  by (auto simp: login_A_def invalid_credentials_def Let_def split: option.splits if_splits)

lemma login_B_failed_reply:
  "status_of (fst (login_B env ctx s req)) \<noteq> Some 200 \<Longrightarrow>
   fst (login_B env ctx s req) =
     (case loginSchema env (body req) of
        None \<Rightarrow> zod_400_B env ''loginSchema'' (body req) ''Invalid input''
      | Some p \<Rightarrow> Reply 401 (JObj [(''error'', JStr ''Invalid credentials'')]))"
  by (auto simp: login_B_def invalid_credentials_def Let_def split: option.splits if_splits)

lemma login_unchanged:
  "snd (login_A env ctx s req) = s \<and> snd (login_B env ctx s req) = s"
  by (auto simp: login_A_def login_B_def Let_def split: option.splits if_splits)

text \<open>
  Claim C2: a login that fails because no user has the given email and a login that fails
  because the password does not verify get the same reply, status 401 with the body
  \<^verbatim>\<open>{error: "Invalid credentials"}\<close>, in both variants, and the store is unchanged. More
  generally the reply of a login that does not succeed is the same whatever the store
  holds, so it does not tell whether the email is registered.
\<close>

theorem login_failures_indistinguishable:
  "(loginSchema env (body req) = Some (email, password) \<and>
    (User_findOne_email s email = None \<or>
     (\<exists>u. User_findOne_email s email = Some u \<and>
          bcrypt_compare env password (u_password u) = False)) \<longrightarrow>
      login_A env ctx s req = (Reply 401 (JObj [(''error'', JStr ''Invalid credentials'')]), s) \<and>
      login_B env ctx s req = (Reply 401 (JObj [(''error'', JStr ''Invalid credentials'')]), s)) \<and>
   (status_of (fst (login_A env ctx s req)) \<noteq> Some 200 \<and>
    status_of (fst (login_A env ctx s' req)) \<noteq> Some 200 \<longrightarrow>
      fst (login_A env ctx s req) = fst (login_A env ctx s' req)) \<and>
   (status_of (fst (login_B env ctx s req)) \<noteq> Some 200 \<and>
    status_of (fst (login_B env ctx s' req)) \<noteq> Some 200 \<longrightarrow>
      fst (login_B env ctx s req) = fst (login_B env ctx s' req))"
proof (intro conjI impI)
  assume h: "loginSchema env (body req) = Some (email, password) \<and>
    (User_findOne_email s email = None \<or>
     (\<exists>u. User_findOne_email s email = Some u \<and>
          bcrypt_compare env password (u_password u) = False))"
  then show "login_A env ctx s req = (Reply 401 (JObj [(''error'', JStr ''Invalid credentials'')]), s)"
    using login_A_failure by blast
  from h show "login_B env ctx s req = (Reply 401 (JObj [(''error'', JStr ''Invalid credentials'')]), s)"
    using login_B_failure by blast
next
  assume "status_of (fst (login_A env ctx s req)) \<noteq> Some 200 \<and>
    status_of (fst (login_A env ctx s' req)) \<noteq> Some 200"
  then show "fst (login_A env ctx s req) = fst (login_A env ctx s' req)"
    using login_A_failed_reply [of env ctx s req] login_A_failed_reply [of env ctx s' req]
    by simp
next
  assume "status_of (fst (login_B env ctx s req)) \<noteq> Some 200 \<and>
    status_of (fst (login_B env ctx s' req)) \<noteq> Some 200"
  then show "fst (login_B env ctx s req) = fst (login_B env ctx s' req)"
    using login_B_failed_reply [of env ctx s req] login_B_failed_reply [of env ctx s' req]
    by simp
qed

theorem login_failures_indistinguishable_witness:
  "User_findOne_email store0 ''a@x.com'' = None \<and>
   User_findOne_email store1 ''a@x.com'' = Some alice \<and>
   bcrypt_compare stub_env ''wrong-password'' (u_password alice) = False \<and>
   login_A stub_env ctx1 store0 login_req =
     (Reply 401 (JObj [(''error'', JStr ''Invalid credentials'')]), store0) \<and>
   login_A stub_env ctx1 store1 login_req =
     (Reply 401 (JObj [(''error'', JStr ''Invalid credentials'')]), store1) \<and>
   login_B stub_env ctx1 store0 login_req =
     (Reply 401 (JObj [(''error'', JStr ''Invalid credentials'')]), store0) \<and>
   login_B stub_env ctx1 store1 login_req =
     (Reply 401 (JObj [(''error'', JStr ''Invalid credentials'')]), store1)"
proof -
  have p: "loginSchema stub_env (body login_req) = Some (''a@x.com'', ''wrong-password'')"
    by (simp add: loginSchema_def login_req_def z_string_def stub_defs)
  have a: "User_findOne_email store0 ''a@x.com'' = None"
    by (simp add: User_findOne_email_def store0_def)
  have b: "User_findOne_email store1 ''a@x.com'' = Some alice"
    by (simp add: User_findOne_email_def store1_def alice_def toLowerCase_def to_lower_def
        upper_letters_def lower_letters_def)
  have c: "bcrypt_compare stub_env ''wrong-password'' (u_password alice) = False"
    by (simp add: stub_defs alice_def)
  from login_failures_indistinguishable [of stub_env login_req "''a@x.com''" "''wrong-password''" store0 ctx1 store0]
       login_failures_indistinguishable [of stub_env login_req "''a@x.com''" "''wrong-password''" store1 ctx1 store1]
       login_failures_indistinguishable [of stub_env login_req "''a@x.com''" "''wrong-password''" store0 ctx1 store1]
       p a b c
  show ?thesis by blast
qed

subsection \<open>Cancelling an appointment\<close>

lemma Appointment_findById_Some:
  "Appointment_findById s v = Inr (Some a) \<Longrightarrow>
   \<exists>i. cast_object_id v = Some i \<and> find (\<lambda>b. a_id b = i) (appointments s) = Some a \<and> a_id a = i"
  by (auto simp: Appointment_findById_def find_Some_iff split: option.splits)

lemma find_save_appointment:
  "find (\<lambda>b. a_id b = i) xs = Some a \<Longrightarrow> a_id a' = i \<Longrightarrow>
   find (\<lambda>b. a_id b = i) (save_appointment a' xs) = Some a'"
  by (induction xs) auto

lemma save_appointment_same:
  "find (\<lambda>b. a_id b = a_id a) xs = Some a \<Longrightarrow> save_appointment a xs = xs"
  by (induction xs) auto

lemma save_appointment_ids:
  "find (\<lambda>b. a_id b = a_id a) xs = Some c \<Longrightarrow>
   map a_id (save_appointment a xs) = map a_id xs"
  by (induction xs) (auto split: if_splits)

lemma save_appointment_others:
  "a_id b \<noteq> a_id a \<Longrightarrow> b \<in> set xs \<Longrightarrow> b \<in> set (save_appointment a xs)"
  by (induction xs) auto

lemma cancel_A_forbidden:
  assumes "authenticate_A env ctx req = Inr payload"
    and "Appointment_findById s (param_id req) = Inr (Some appt)"
    and "a_patient appt \<noteq> c_id payload" and "c_role payload \<noteq> Some Admin"
  shows "cancel_A env ctx s req = (Reply 403 (JObj [(''error'', JStr ''Not allowed'')]), s)"
  using assms by (simp add: cancel_A_def)

lemma cancel_A_allowed:
  assumes "authenticate_A env ctx req = Inr payload"
    and "Appointment_findById s (param_id req) = Inr (Some appt)"
    and "a_patient appt = c_id payload \<or> c_role payload = Some Admin"
  shows "cancel_A env ctx s req =
           (Reply 200 (JObj [(''message'', JStr ''Appointment cancelled''),
                             (''appointment'', appointment_json (appt\<lparr> a_status := Cancelled \<rparr>))]),
            s\<lparr> appointments := save_appointment (appt\<lparr> a_status := Cancelled \<rparr>) (appointments s) \<rparr>)"
  using assms by (auto simp: cancel_A_def Let_def)

lemma cancelled_findById:
  assumes "Appointment_findById s v = Inr (Some appt)"
  shows "Appointment_findById
           (s\<lparr> appointments := save_appointment (appt\<lparr> a_status := Cancelled \<rparr>) (appointments s) \<rparr>) v
         = Inr (Some (appt\<lparr> a_status := Cancelled \<rparr>))"
proof -
  from Appointment_findById_Some [OF assms] obtain i where
    i: "cast_object_id v = Some i" "find (\<lambda>b. a_id b = i) (appointments s) = Some appt" "a_id appt = i"
    by blast
  have "find (\<lambda>b. a_id b = i) (save_appointment (appt\<lparr> a_status := Cancelled \<rparr>) (appointments s))
        = Some (appt\<lparr> a_status := Cancelled \<rparr>)"
    using find_save_appointment [OF i(2)] i(3) by simp
  with i(1) show ?thesis by (simp add: Appointment_findById_def)
qed

lemma cancel_A_allowed_facts:
  assumes "authenticate_A env ctx req = Inr payload"
    and "Appointment_findById s (param_id req) = Inr (Some appt)"
    and ok: "a_patient appt = c_id payload \<or> c_role payload = Some Admin"
  shows "status_of (fst (cancel_A env ctx s req)) = Some 200"
    and "Appointment_findById (snd (cancel_A env ctx s req)) (param_id req) =
           Inr (Some (appt\<lparr> a_status := Cancelled \<rparr>))"
    and "users (snd (cancel_A env ctx s req)) = users s"
    and "doctors (snd (cancel_A env ctx s req)) = doctors s"
    and "map a_id (appointments (snd (cancel_A env ctx s req))) = map a_id (appointments s)"
    and "\<forall>b \<in> set (appointments s). a_id b \<noteq> a_id appt \<longrightarrow>
           b \<in> set (appointments (snd (cancel_A env ctx s req)))"
proof -
  let ?c = "appt\<lparr> a_status := Cancelled \<rparr>"
  note first = cancel_A_allowed [OF assms]
  from Appointment_findById_Some [OF assms(2)] obtain i where
    i: "cast_object_id (param_id req) = Some i"
       "find (\<lambda>b. a_id b = i) (appointments s) = Some appt" "a_id appt = i"
    by blast
  show "status_of (fst (cancel_A env ctx s req)) = Some 200"
    by (simp add: first)
  show "Appointment_findById (snd (cancel_A env ctx s req)) (param_id req) = Inr (Some ?c)"
    using cancelled_findById [OF assms(2)] by (simp add: first)
  show "users (snd (cancel_A env ctx s req)) = users s"
    by (simp add: first)
  show "doctors (snd (cancel_A env ctx s req)) = doctors s"
    by (simp add: first)
  show "map a_id (appointments (snd (cancel_A env ctx s req))) = map a_id (appointments s)"
    using save_appointment_ids [of ?c "appointments s" appt] i by (simp add: first)
  show "\<forall>b \<in> set (appointments s). a_id b \<noteq> a_id appt \<longrightarrow>
          b \<in> set (appointments (snd (cancel_A env ctx s req)))"
    using save_appointment_others [of _ ?c "appointments s"] by (simp add: first)
qed

lemma cancel_A_again:
  assumes "authenticate_A env ctx req = Inr payload"
    and "Appointment_findById s (param_id req) = Inr (Some appt)"
    and ok: "a_patient appt = c_id payload \<or> c_role payload = Some Admin"
    and auth': "authenticate_A env ctx' req' = Inr payload'"
    and same_id: "param_id req' = param_id req"
    and ok': "a_patient appt = c_id payload' \<or> c_role payload' = Some Admin"
  shows "status_of (fst (cancel_A env ctx' (snd (cancel_A env ctx s req)) req')) = Some 200 \<and>
         snd (cancel_A env ctx' (snd (cancel_A env ctx s req)) req') = snd (cancel_A env ctx s req)"
proof -
  let ?c = "appt\<lparr> a_status := Cancelled \<rparr>"
  let ?s1 = "snd (cancel_A env ctx s req)"
  have found': "Appointment_findById ?s1 (param_id req') = Inr (Some ?c)"
    using cancel_A_allowed_facts(2) [OF assms(1,2) ok] same_id by simp
  have ok2: "a_patient ?c = c_id payload' \<or> c_role payload' = Some Admin"
    using ok' by simp
  note second = cancel_A_allowed [OF auth' found' ok2]
  from Appointment_findById_Some [OF found'] obtain j where
    j: "find (\<lambda>b. a_id b = j) (appointments ?s1) = Some ?c" "a_id ?c = j"
    by blast
  have same: "save_appointment ?c (appointments ?s1) = appointments ?s1"
    using save_appointment_same [of ?c "appointments ?s1"] j by simp
  show ?thesis
    using same by (simp add: second)
qed

lemmas fixture_defs = store2_def alice_def bob_def root_def dr_johnson_def appt1_def
  as_alice_def as_bob_def as_root_def cancel_req_def ctx1_def

lemma auth_alice: "authenticate_A stub_env ctx1 (cancel_req as_alice) =
    Inr \<lparr> c_id = ''aaaaaaaaaaaaaaaaaaaaaaaa'', c_role = Some Patient \<rparr>"
  by (simp add: authenticate_A_def bearer_payload_def fixture_defs stub_defs at_index_def
      parse_role_def parse_nat_def is_digit_def digit_value_def)

lemma auth_bob: "authenticate_A stub_env ctx1 (cancel_req as_bob) =
    Inr \<lparr> c_id = ''bbbbbbbbbbbbbbbbbbbbbbbb'', c_role = Some Patient \<rparr>"
  by (simp add: authenticate_A_def bearer_payload_def fixture_defs stub_defs at_index_def
      parse_role_def parse_nat_def is_digit_def digit_value_def)

lemma auth_root: "authenticate_A stub_env ctx1 (cancel_req as_root) =
    Inr \<lparr> c_id = ''cccccccccccccccccccccccc'', c_role = Some Admin \<rparr>"
  by (simp add: authenticate_A_def bearer_payload_def fixture_defs stub_defs at_index_def
      parse_role_def parse_nat_def is_digit_def digit_value_def)

lemma found_appt1: "Appointment_findById store2 ''eeeeeeeeeeeeeeeeeeeeeeee'' = Inr (Some appt1)"
  by (simp add: Appointment_findById_def cast_object_id_def is_hex_def toLowerCase_def
      to_lower_def upper_letters_def lower_letters_def store2_def appt1_def)

text \<open>
  Claim C3 (first variant; the second has no cancel route). The caller is the payload of
  the access token that \<open>authenticate\<close> accepted, and the appointment is the one
  \<^verbatim>\<open>Appointment.findById(req.params.id)\<close> returns. A caller who is neither the owning
  patient nor an admin gets status 403 and the store is unchanged. The owning patient or
  an admin gets status 200; afterwards the appointment is stored with status cancelled
  and its other fields as before, the users, the doctors and every other appointment are
  untouched; and a further cancellation by any authorized caller again gets status 200
  and leaves that store exactly as it is.
\<close>

theorem cancel_appointment:
  assumes "authenticate_A env ctx req = Inr payload"
    and "Appointment_findById s (param_id req) = Inr (Some appt)"
  shows "(a_patient appt \<noteq> c_id payload \<and> c_role payload \<noteq> Some Admin \<longrightarrow>
            cancel_A env ctx s req = (Reply 403 (JObj [(''error'', JStr ''Not allowed'')]), s)) \<and>
         (a_patient appt = c_id payload \<or> c_role payload = Some Admin \<longrightarrow>
            status_of (fst (cancel_A env ctx s req)) = Some 200 \<and>
            Appointment_findById (snd (cancel_A env ctx s req)) (param_id req) =
              Inr (Some (appt\<lparr> a_status := Cancelled \<rparr>)) \<and>
            users (snd (cancel_A env ctx s req)) = users s \<and>
            doctors (snd (cancel_A env ctx s req)) = doctors s \<and>
            map a_id (appointments (snd (cancel_A env ctx s req))) = map a_id (appointments s) \<and>
            (\<forall>b \<in> set (appointments s). a_id b \<noteq> a_id appt \<longrightarrow>
                 b \<in> set (appointments (snd (cancel_A env ctx s req)))) \<and>
            (\<forall>ctx' req' payload'.
               authenticate_A env ctx' req' = Inr payload' \<and> param_id req' = param_id req \<and>
               (a_patient appt = c_id payload' \<or> c_role payload' = Some Admin) \<longrightarrow>
                 status_of (fst (cancel_A env ctx' (snd (cancel_A env ctx s req)) req')) = Some 200 \<and>
                 snd (cancel_A env ctx' (snd (cancel_A env ctx s req)) req') =
                   snd (cancel_A env ctx s req)))"
proof (intro conjI)
  show "a_patient appt \<noteq> c_id payload \<and> c_role payload \<noteq> Some Admin \<longrightarrow>
          cancel_A env ctx s req = (Reply 403 (JObj [(''error'', JStr ''Not allowed'')]), s)"
    using cancel_A_forbidden [OF assms] by simp
  show "a_patient appt = c_id payload \<or> c_role payload = Some Admin \<longrightarrow>
            status_of (fst (cancel_A env ctx s req)) = Some 200 \<and>
            Appointment_findById (snd (cancel_A env ctx s req)) (param_id req) =
              Inr (Some (appt\<lparr> a_status := Cancelled \<rparr>)) \<and>
            users (snd (cancel_A env ctx s req)) = users s \<and>
            doctors (snd (cancel_A env ctx s req)) = doctors s \<and>
            map a_id (appointments (snd (cancel_A env ctx s req))) = map a_id (appointments s) \<and>
            (\<forall>b \<in> set (appointments s). a_id b \<noteq> a_id appt \<longrightarrow>
                 b \<in> set (appointments (snd (cancel_A env ctx s req)))) \<and>
            (\<forall>ctx' req' payload'.
               authenticate_A env ctx' req' = Inr payload' \<and> param_id req' = param_id req \<and>
               (a_patient appt = c_id payload' \<or> c_role payload' = Some Admin) \<longrightarrow>
                 status_of (fst (cancel_A env ctx' (snd (cancel_A env ctx s req)) req')) = Some 200 \<and>
                 snd (cancel_A env ctx' (snd (cancel_A env ctx s req)) req') =
                   snd (cancel_A env ctx s req))"
  proof
    assume ok: "a_patient appt = c_id payload \<or> c_role payload = Some Admin"
    note facts = cancel_A_allowed_facts [OF assms ok]
    have again: "\<forall>ctx' req' payload'.
               authenticate_A env ctx' req' = Inr payload' \<and> param_id req' = param_id req \<and>
               (a_patient appt = c_id payload' \<or> c_role payload' = Some Admin) \<longrightarrow>
                 status_of (fst (cancel_A env ctx' (snd (cancel_A env ctx s req)) req')) = Some 200 \<and>
                 snd (cancel_A env ctx' (snd (cancel_A env ctx s req)) req') =
                   snd (cancel_A env ctx s req)"
      using cancel_A_again [OF assms ok] by blast
    from facts again show "status_of (fst (cancel_A env ctx s req)) = Some 200 \<and>
            Appointment_findById (snd (cancel_A env ctx s req)) (param_id req) =
              Inr (Some (appt\<lparr> a_status := Cancelled \<rparr>)) \<and>
            users (snd (cancel_A env ctx s req)) = users s \<and>
            doctors (snd (cancel_A env ctx s req)) = doctors s \<and>
            map a_id (appointments (snd (cancel_A env ctx s req))) = map a_id (appointments s) \<and>
            (\<forall>b \<in> set (appointments s). a_id b \<noteq> a_id appt \<longrightarrow>
                 b \<in> set (appointments (snd (cancel_A env ctx s req)))) \<and>
            (\<forall>ctx' req' payload'.
               authenticate_A env ctx' req' = Inr payload' \<and> param_id req' = param_id req \<and>
               (a_patient appt = c_id payload' \<or> c_role payload' = Some Admin) \<longrightarrow>
                 status_of (fst (cancel_A env ctx' (snd (cancel_A env ctx s req)) req')) = Some 200 \<and>
                 snd (cancel_A env ctx' (snd (cancel_A env ctx s req)) req') =
                   snd (cancel_A env ctx s req))"
      by (intro conjI)
  qed
qed

theorem cancel_appointment_witness:
  "cancel_A stub_env ctx1 store2 (cancel_req as_bob) =
     (Reply 403 (JObj [(''error'', JStr ''Not allowed'')]), store2) \<and>
   status_of (fst (cancel_A stub_env ctx1 store2 (cancel_req as_alice))) = Some 200 \<and>
   Appointment_findById (snd (cancel_A stub_env ctx1 store2 (cancel_req as_alice)))
     ''eeeeeeeeeeeeeeeeeeeeeeee'' = Inr (Some (appt1\<lparr> a_status := Cancelled \<rparr>)) \<and>
   status_of (fst (cancel_A stub_env ctx1 (snd (cancel_A stub_env ctx1 store2 (cancel_req as_alice)))
                     (cancel_req as_root))) = Some 200 \<and>
   snd (cancel_A stub_env ctx1 (snd (cancel_A stub_env ctx1 store2 (cancel_req as_alice)))
          (cancel_req as_root)) = snd (cancel_A stub_env ctx1 store2 (cancel_req as_alice))"
proof -
  have id: "\<And>w. param_id (cancel_req w) = ''eeeeeeeeeeeeeeeeeeeeeeee''"
    by (simp add: cancel_req_def)
  have found: "\<And>w. Appointment_findById store2 (param_id (cancel_req w)) = Inr (Some appt1)"
    by (simp add: id found_appt1)
  have own: "a_patient appt1 = ''aaaaaaaaaaaaaaaaaaaaaaaa''"
    by (simp add: appt1_def)
  from cancel_appointment [OF auth_bob found] own
  have 1: "cancel_A stub_env ctx1 store2 (cancel_req as_bob) =
     (Reply 403 (JObj [(''error'', JStr ''Not allowed'')]), store2)"
    by simp
  from cancel_appointment [OF auth_alice found] own auth_root id
  show ?thesis using 1 by simp
qed

subsection \<open>Booking: the created appointment\<close>

lemmas eval_defs = fixture_defs stub_defs at_index_def parse_role_def parse_nat_def is_digit_def
  digit_value_def cast_object_id_def is_hex_def toLowerCase_def to_lower_def upper_letters_def
  lower_letters_def z_string_def hex_digit_def

lemma auth_A_alice_book: "authenticate_A stub_env ctx1 (book_req as_alice d) =
    Inr \<lparr> c_id = ''aaaaaaaaaaaaaaaaaaaaaaaa'', c_role = Some Patient \<rparr>"
  by (simp add: authenticate_A_def bearer_payload_def book_req_def eval_defs)

lemma auth_B_alice_book: "authenticate_B stub_env ctx1 (book_req as_alice d) =
    Inr \<lparr> c_id = ''aaaaaaaaaaaaaaaaaaaaaaaa'', c_role = Some Patient \<rparr>"
  by (simp add: authenticate_B_def bearer_payload_def book_req_def eval_defs)

lemma parsed_A: "appointmentZ (body (book_req w ''dddddddddddddddddddddddd'')) =
   Some \<lparr> ad_doctorId = ''dddddddddddddddddddddddd'', ad_date = ''2025-06-01'', ad_time = ''09:30'',
           ad_symptoms = ''fever for 3 days'', ad_phone = ''9999999999'' \<rparr>"
  by (simp add: appointmentZ_def book_req_def date_format_def eval_defs)

lemma parsed_B: "appointmentSchema (body (book_req w ''dddddddddddddddddddddddd'')) =
   Some \<lparr> ad_doctorId = ''dddddddddddddddddddddddd'', ad_date = ''2025-06-01'', ad_time = ''09:30'',
           ad_symptoms = ''fever for 3 days'', ad_phone = ''9999999999'' \<rparr>"
  by (simp add: appointmentSchema_def book_req_def date_format_def time_format_def
      minutes_format_def phone_chars_def eval_defs)

lemma found_dr: "Doctor_findById store2 ''dddddddddddddddddddddddd'' = Inr (Some dr_johnson)"
  by (simp add: Doctor_findById_def eval_defs)

lemma found_alice: "User_findById store2 ''aaaaaaaaaaaaaaaaaaaaaaaa'' = Inr (Some alice)"
  by (simp add: User_findById_def eval_defs)

lemma date_A: "date_parse stub_env ''2025-06-01T00:00:00'' = Some 1748736000000"
  by (simp add: eval_defs date_format_def days_in_month_def days_from_civil_def leap_year_def)

lemma date_B: "date_parse stub_env ''2025-06-01'' = Some 1748736000000"
  by (simp add: eval_defs date_format_def days_in_month_def days_from_civil_def leap_year_def)

lemma create_appt: "Appointment_create ctx1 store2 dr_johnson alice (Some 1748736000000)
     \<lparr> ad_doctorId = ''dddddddddddddddddddddddd'', ad_date = ''2025-06-01'', ad_time = ''09:30'',
       ad_symptoms = ''fever for 3 days'', ad_phone = ''9999999999'' \<rparr> st
   = Inr (new_appt (case st of None \<Rightarrow> Pending | Some x \<Rightarrow> x),
          store2\<lparr> appointments := appointments store2 @ [new_appt (case st of None \<Rightarrow> Pending | Some x \<Rightarrow> x)] \<rparr>)"
  by (simp add: Appointment_create_def new_appt_def eval_defs Let_def)

lemma book_A_success:
  assumes "status_of (fst (book_A env ctx s req)) = Some 200"
  shows "\<exists>payload parsed d p t.
           authenticate_A env ctx req = Inr payload \<and>
           appointmentZ (body req) = Some parsed \<and>
           Doctor_findById s (ad_doctorId parsed) = Inr (Some d) \<and>
           User_findById s (c_id payload) = Inr (Some p) \<and>
           date_parse env (ad_date parsed @ ''T00:00:00'') = Some t \<and>
           book_A env ctx s req =
             (booked \<lparr> a_id = new_id ctx 0, a_doctor = d_id d, a_doctorName = d_name d,
                       a_specialty = d_specialty d, a_patient = u_id p, a_patientName = u_name p,
                       a_date = t, a_time = ad_time parsed, a_symptoms = ad_symptoms parsed,
                       a_phone = ad_phone parsed, a_status = Confirmed, a_createdAt = now ctx \<rparr>,
              s\<lparr> appointments := appointments s @
                 [\<lparr> a_id = new_id ctx 0, a_doctor = d_id d, a_doctorName = d_name d,
                    a_specialty = d_specialty d, a_patient = u_id p, a_patientName = u_name p,
                    a_date = t, a_time = ad_time parsed, a_symptoms = ad_symptoms parsed,
                    a_phone = ad_phone parsed, a_status = Confirmed, a_createdAt = now ctx \<rparr>] \<rparr>)"
  using assms
  by (auto simp: book_A_def Let_def zod_400_A_def server_error_def not_found_def
      Appointment_create_def authenticate_A_def bearer_payload_def unauthorized_def
      split: sum.splits option.splits if_splits)

lemma book_B_success:
  assumes "status_of (fst (book_B env ctx s req)) = Some 200"
  shows "\<exists>payload parsed d p t.
           authenticate_B env ctx req = Inr payload \<and>
           appointmentSchema (body req) = Some parsed \<and>
           Doctor_findById s (ad_doctorId parsed) = Inr (Some d) \<and>
           User_findById s (c_id payload) = Inr (Some p) \<and>
           date_parse env (ad_date parsed) = Some t \<and>
           book_B env ctx s req =
             (booked \<lparr> a_id = new_id ctx 0, a_doctor = d_id d, a_doctorName = d_name d,
                       a_specialty = d_specialty d, a_patient = u_id p, a_patientName = u_name p,
                       a_date = t, a_time = ad_time parsed, a_symptoms = ad_symptoms parsed,
                       a_phone = ad_phone parsed, a_status = Pending, a_createdAt = now ctx \<rparr>,
              s\<lparr> appointments := appointments s @
                 [\<lparr> a_id = new_id ctx 0, a_doctor = d_id d, a_doctorName = d_name d,
                    a_specialty = d_specialty d, a_patient = u_id p, a_patientName = u_name p,
                    a_date = t, a_time = ad_time parsed, a_symptoms = ad_symptoms parsed,
                    a_phone = ad_phone parsed, a_status = Pending, a_createdAt = now ctx \<rparr>] \<rparr>)"
  using assms
  by (auto simp: book_B_def Let_def zod_400_B_def caught_400_def not_found_def
      Appointment_create_def authenticate_B_def bearer_payload_def unauthorized_def
      split: sum.splits option.splits if_splits)

text \<open>
  Claim C4. A successful booking in the first variant stores and returns an appointment
  with status confirmed and with the doctor's name and specialty and the patient's name
  copied from the documents found (lemma \<open>book_A_success\<close>). The second variant copies the
  same fields but passes no \<^verbatim>\<open>status\<close> to \<^verbatim>\<open>Appointment.create\<close>, so the schema default
  applies and the appointment is stored and returned with status pending (lemma
  \<open>book_B_success\<close>). The theorem evaluates both variants on the booking of the
  specification's scenario: Alice, authenticated, books Dr. Sarah Johnson for 2025-06-01 at
  09:30.
\<close>

theorem book_B_stores_pending:
  "book_A stub_env ctx1 store2 (book_req as_alice ''dddddddddddddddddddddddd'') =
     (booked (new_appt Confirmed), store2\<lparr> appointments := appointments store2 @ [new_appt Confirmed] \<rparr>) \<and>
   book_B stub_env ctx1 store2 (book_req as_alice ''dddddddddddddddddddddddd'') =
     (booked (new_appt Pending), store2\<lparr> appointments := appointments store2 @ [new_appt Pending] \<rparr>) \<and>
   a_status (new_appt Pending) = Pending"
  apply (simp add: book_A_def book_B_def auth_A_alice_book auth_B_alice_book parsed_A parsed_B
      found_dr found_alice date_A date_B create_appt)
  apply (simp add: new_appt_def)
  done

subsection \<open>Booking: a doctor that does not exist\<close>

lemma book_A_unknown_doctor:
  assumes "authenticate_A env ctx req = Inr payload"
    and "appointmentZ (body req) = Some parsed"
    and "cast_object_id (ad_doctorId parsed) = Some i"
    and "find (\<lambda>d. d_id d = i) (doctors s) = None"
  shows "book_A env ctx s req = (Reply 404 (JObj [(''error'', JStr ''Doctor not found'')]), s)"
  using assms by (simp add: book_A_def Doctor_findById_def not_found_def)

lemma book_B_unknown_doctor:
  assumes "authenticate_B env ctx req = Inr payload"
    and "appointmentSchema (body req) = Some parsed"
    and "cast_object_id (ad_doctorId parsed) = Some i"
    and "find (\<lambda>d. d_id d = i) (doctors s) = None"
  shows "book_B env ctx s req = (Reply 404 (JObj [(''error'', JStr ''Doctor not found'')]), s)"
  using assms by (simp add: book_B_def Doctor_findById_def not_found_def)

lemma book_A_store:
  "snd (book_A env ctx s req) = s \<or>
   (\<exists>parsed d. appointmentZ (body req) = Some parsed \<and>
                Doctor_findById s (ad_doctorId parsed) = Inr (Some d))"
  by (auto simp: book_A_def Let_def split: sum.splits option.splits)

lemma book_B_store:
  "snd (book_B env ctx s req) = s \<or>
   (\<exists>parsed d. appointmentSchema (body req) = Some parsed \<and>
                Doctor_findById s (ad_doctorId parsed) = Inr (Some d))"
  by (auto simp: book_B_def Let_def split: sum.splits option.splits)

text \<open>
  Claim C9, amended: for every authenticated booking request that passes the schema and
  whose \<^verbatim>\<open>doctorId\<close> is a well-formed ObjectId that no doctor of the store has, both
  variants answer 404 ``Doctor not found'' and leave the store unchanged; and whatever the
  request, the store changes only when the payload passed the schema and the doctor was
  found, so no appointment is created for a doctor that does not exist.
\<close>

theorem book_unknown_doctor_404:
  "(authenticate_A env ctx req = Inr payload \<and> appointmentZ (body req) = Some parsed \<and>
    cast_object_id (ad_doctorId parsed) = Some i \<and> find (\<lambda>d. d_id d = i) (doctors s) = None \<longrightarrow>
      book_A env ctx s req = (Reply 404 (JObj [(''error'', JStr ''Doctor not found'')]), s)) \<and>
   (authenticate_B env ctx req = Inr payload \<and> appointmentSchema (body req) = Some parsed \<and>
    cast_object_id (ad_doctorId parsed) = Some i \<and> find (\<lambda>d. d_id d = i) (doctors s) = None \<longrightarrow>
      book_B env ctx s req = (Reply 404 (JObj [(''error'', JStr ''Doctor not found'')]), s)) \<and>
   (snd (book_A env ctx s req) \<noteq> s \<longrightarrow>
      (\<exists>p d. appointmentZ (body req) = Some p \<and>
              Doctor_findById s (ad_doctorId p) = Inr (Some d))) \<and>
   (snd (book_B env ctx s req) \<noteq> s \<longrightarrow>
      (\<exists>p d. appointmentSchema (body req) = Some p \<and>
              Doctor_findById s (ad_doctorId p) = Inr (Some d)))"
  using book_A_unknown_doctor [of env ctx req payload parsed i s]
        book_B_unknown_doctor [of env ctx req payload parsed i s]
        book_A_store [of env ctx s req] book_B_store [of env ctx s req]
  by blast

lemma book_A_none: "book_A stub_env ctx1 store2 (book_req None d) =
    (Reply 401 (JObj [(''error'', JStr ''Unauthorized'')]), store2)"
  by (simp add: book_A_def authenticate_A_def book_req_def unauthorized_def)

lemma book_B_none: "book_B stub_env ctx1 store2 (book_req None d) =
    (Reply 401 (JObj [(''error'', JStr ''Access denied'')]), store2)"
  by (simp add: book_B_def authenticate_B_def book_req_def unauthorized_def)

lemma parsed_any_A: "length d = 24 \<Longrightarrow> appointmentZ (body (book_req w d)) =
   Some \<lparr> ad_doctorId = d, ad_date = ''2025-06-01'', ad_time = ''09:30'',
           ad_symptoms = ''fever for 3 days'', ad_phone = ''9999999999'' \<rparr>"
  by (simp add: appointmentZ_def book_req_def date_format_def eval_defs)

lemma parsed_any_B: "length d = 24 \<Longrightarrow> appointmentSchema (body (book_req w d)) =
   Some \<lparr> ad_doctorId = d, ad_date = ''2025-06-01'', ad_time = ''09:30'',
           ad_symptoms = ''fever for 3 days'', ad_phone = ''9999999999'' \<rparr>"
  by (simp add: appointmentSchema_def book_req_def date_format_def time_format_def
      minutes_format_def phone_chars_def eval_defs)

lemma cast_z: "cast_object_id ''zzzzzzzzzzzzzzzzzzzzzzzz'' = None"
  by (simp add: cast_object_id_def is_hex_def)

lemma cast_9: "cast_object_id ''999999999999999999999999'' = Some ''999999999999999999999999''"
  by (simp add: cast_object_id_def is_hex_def toLowerCase_def to_lower_def upper_letters_def
      lower_letters_def)

lemma no_doctor_9: "find (\<lambda>d. d_id d = ''999999999999999999999999'') (doctors store2) = None"
  by (simp add: store2_def dr_johnson_def)

text \<open>
  Claim C9, as stated: every booking request whose \<^verbatim>\<open>doctorId\<close> refers to no doctor is
  answered with 404. The store holds the single doctor \<^verbatim>\<open>dddddddddddddddddddddddd\<close>.
  A request without an \<^verbatim>\<open>Authorization\<close> header for the doctor
  \<^verbatim>\<open>999999999999999999999999\<close> is answered with 401 by the \<open>authenticate\<close> middleware,
  which runs first. An authenticated request that passes the schema with the doctorId
  \<^verbatim>\<open>zzzzzzzzzzzzzzzzzzzzzzzz\<close> (24 characters, not hexadecimal) makes
  \<^verbatim>\<open>Doctor.findById\<close> reject with a CastError, which the first variant's \<^verbatim>\<open>catch\<close>
  turns into 500 and the second's into 400.
\<close>

theorem book_unknown_doctor_counterexample:
  "find (\<lambda>d. d_id d = ''999999999999999999999999'') (doctors store2) = None \<and>
   find (\<lambda>d. d_id d = ''zzzzzzzzzzzzzzzzzzzzzzzz'') (doctors store2) = None \<and>
   book_A stub_env ctx1 store2 (book_req None ''999999999999999999999999'') =
     (Reply 401 (JObj [(''error'', JStr ''Unauthorized'')]), store2) \<and>
   book_B stub_env ctx1 store2 (book_req None ''999999999999999999999999'') =
     (Reply 401 (JObj [(''error'', JStr ''Access denied'')]), store2) \<and>
   appointmentZ (body (book_req as_alice ''zzzzzzzzzzzzzzzzzzzzzzzz'')) \<noteq> None \<and>
   appointmentSchema (body (book_req as_alice ''zzzzzzzzzzzzzzzzzzzzzzzz'')) \<noteq> None \<and>
   book_A stub_env ctx1 store2 (book_req as_alice ''zzzzzzzzzzzzzzzzzzzzzzzz'') =
     (Reply 500 (JObj [(''error'', JStr ''Server error''),
                       (''details'', JStr ''Cast to ObjectId failed'')]), store2) \<and>
   book_B stub_env ctx1 store2 (book_req as_alice ''zzzzzzzzzzzzzzzzzzzzzzzz'') =
     (Reply 400 (JObj [(''error'', JStr ''Cast to ObjectId failed'')]), store2)"
proof -
  have z: "find (\<lambda>d. d_id d = ''zzzzzzzzzzzzzzzzzzzzzzzz'') (doctors store2) = None"
    by (simp add: store2_def dr_johnson_def)
  have a: "book_A stub_env ctx1 store2 (book_req as_alice ''zzzzzzzzzzzzzzzzzzzzzzzz'') =
     (Reply 500 (JObj [(''error'', JStr ''Server error''),
                       (''details'', JStr ''Cast to ObjectId failed'')]), store2)"
    by (simp add: book_A_def auth_A_alice_book parsed_any_A Doctor_findById_def cast_z
        server_error_def stub_sel)
  have b: "book_B stub_env ctx1 store2 (book_req as_alice ''zzzzzzzzzzzzzzzzzzzzzzzz'') =
     (Reply 400 (JObj [(''error'', JStr ''Cast to ObjectId failed'')]), store2)"
    by (simp add: book_B_def auth_B_alice_book parsed_any_B Doctor_findById_def cast_z
        caught_400_def stub_sel)
  show ?thesis
    using z a b by (simp add: book_A_none book_B_none no_doctor_9 parsed_any_A parsed_any_B)
qed

theorem book_unknown_doctor_404_witness:
  "book_A stub_env ctx1 store2 (book_req as_alice ''999999999999999999999999'') =
     (Reply 404 (JObj [(''error'', JStr ''Doctor not found'')]), store2) \<and>
   book_B stub_env ctx1 store2 (book_req as_alice ''999999999999999999999999'') =
     (Reply 404 (JObj [(''error'', JStr ''Doctor not found'')]), store2)"
proof -
  let ?p = "\<lparr> ad_doctorId = ''999999999999999999999999'', ad_date = ''2025-06-01'',
              ad_time = ''09:30'', ad_symptoms = ''fever for 3 days'', ad_phone = ''9999999999'' \<rparr>"
  have pa: "appointmentZ (body (book_req as_alice ''999999999999999999999999'')) = Some ?p"
    by (simp add: parsed_any_A)
  have pb: "appointmentSchema (body (book_req as_alice ''999999999999999999999999'')) = Some ?p"
    by (simp add: parsed_any_B)
  have c: "cast_object_id (ad_doctorId ?p) = Some ''999999999999999999999999''"
    by (simp add: cast_9)
  from book_unknown_doctor_404 [of stub_env ctx1 "book_req as_alice ''999999999999999999999999''"
         "\<lparr> c_id = ''aaaaaaaaaaaaaaaaaaaaaaaa'', c_role = Some Patient \<rparr>" ?p
         "''999999999999999999999999''" store2]
       pa pb c no_doctor_9 auth_A_alice_book auth_B_alice_book
  show ?thesis by simp
qed

subsection \<open>Booking: validation comes first\<close>

lemma book_A_rejected:
  assumes "appointmentZ (body req) = None"
  shows "fst (book_A env ctx s req) = fst (book_A env ctx s' req)"
    and "snd (book_A env ctx s req) = s"
    and "authenticate_A env ctx req = Inr payload \<Longrightarrow>
         book_A env ctx s req = (zod_400_A env ''appointmentZ'' (body req), s)"
  using assms by (auto simp: book_A_def split: sum.splits)

lemma book_B_rejected:
  assumes "appointmentSchema (body req) = None"
  shows "fst (book_B env ctx s req) = fst (book_B env ctx s' req)"
    and "snd (book_B env ctx s req) = s"
    and "authenticate_B env ctx req = Inr payload \<Longrightarrow>
         book_B env ctx s req =
           (zod_400_B env ''appointmentSchema'' (body req)
              (zod_error_message env ''appointmentSchema'' (body req)), s)"
  using assms by (auto simp: book_B_def split: sum.splits)

lemma appointmentZ_Some:
  "appointmentZ b = Some p \<Longrightarrow>
   z_string (b ''doctorId'') = Some (ad_doctorId p) \<and> length (ad_doctorId p) = 24 \<and>
   z_string (b ''date'') = Some (ad_date p) \<and> date_format (ad_date p) \<and>
   z_string (b ''time'') = Some (ad_time p) \<and> 3 \<le> length (ad_time p) \<and>
   z_string (b ''symptoms'') = Some (ad_symptoms p) \<and> 5 \<le> length (ad_symptoms p) \<and>
   z_string (b ''phone'') = Some (ad_phone p) \<and> 6 \<le> length (ad_phone p)"
  by (auto simp: appointmentZ_def split: option.splits if_splits)

lemma appointmentSchema_Some:
  "appointmentSchema b = Some p \<Longrightarrow>
   z_string (b ''doctorId'') = Some (ad_doctorId p) \<and> length (ad_doctorId p) = 24 \<and>
   z_string (b ''date'') = Some (ad_date p) \<and> date_format (ad_date p) \<and>
   z_string (b ''time'') = Some (ad_time p) \<and> time_format (ad_time p) \<and>
   z_string (b ''symptoms'') = Some (ad_symptoms p) \<and> 10 \<le> length (ad_symptoms p) \<and>
   z_string (b ''phone'') = Some (ad_phone p) \<and> phone_chars (ad_phone p)"
  by (auto simp: appointmentSchema_def split: option.splits if_splits)

lemma schema_rejects:
  shows "(\<nexists>d. z_string (b ''date'') = Some d \<and> date_format d) \<Longrightarrow>
           appointmentZ b = None \<and> appointmentSchema b = None"
    and "(\<nexists>t. z_string (b ''time'') = Some t \<and> time_format t) \<Longrightarrow> appointmentSchema b = None"
    and "(\<nexists>p. z_string (b ''phone'') = Some p \<and> phone_chars p) \<Longrightarrow> appointmentSchema b = None"
    and "(\<nexists>t. z_string (b ''time'') = Some t \<and> 3 \<le> length t) \<Longrightarrow> appointmentZ b = None"
    and "(\<nexists>p. z_string (b ''phone'') = Some p \<and> 6 \<le> length p) \<Longrightarrow> appointmentZ b = None"
  using appointmentZ_Some [of b] appointmentSchema_Some [of b]
  by (cases "appointmentZ b"; cases "appointmentSchema b"; auto)+

text \<open>
  Claim C5, amended. In both variants the payload is parsed against the schema before
  the store is read or written: when the parse fails, the reply is the same whatever the
  store holds, the store is unchanged, and an authenticated request gets status 400. Both
  schemas reject a payload whose \<^verbatim>\<open>date\<close> is not a string of the form YYYY-MM-DD. The
  second variant rejects a \<^verbatim>\<open>time\<close> that is not H:MM or HH:MM on the 24-hour clock and a
  \<^verbatim>\<open>phone\<close> that is not 10 to 15 characters, each a digit, a plus, a minus or white
  space. The first variant requires only that \<^verbatim>\<open>time\<close> has at least 3 characters and
  \<^verbatim>\<open>phone\<close> at least 6.
\<close>

theorem book_validation:
  "(appointmentZ (body req) = None \<longrightarrow>
      fst (book_A env ctx s req) = fst (book_A env ctx s' req) \<and>
      snd (book_A env ctx s req) = s \<and>
      (authenticate_A env ctx req = Inr payload \<longrightarrow>
         status_of (fst (book_A env ctx s req)) = Some 400)) \<and>
   (appointmentSchema (body req) = None \<longrightarrow>
      fst (book_B env ctx s req) = fst (book_B env ctx s' req) \<and>
      snd (book_B env ctx s req) = s \<and>
      (authenticate_B env ctx req = Inr payload \<longrightarrow>
         status_of (fst (book_B env ctx s req)) = Some 400)) \<and>
   ((\<nexists>d. z_string (body req ''date'') = Some d \<and> date_format d) \<longrightarrow>
      appointmentZ (body req) = None \<and> appointmentSchema (body req) = None) \<and>
   ((\<nexists>t. z_string (body req ''time'') = Some t \<and> time_format t) \<longrightarrow>
      appointmentSchema (body req) = None) \<and>
   ((\<nexists>p. z_string (body req ''phone'') = Some p \<and> phone_chars p) \<longrightarrow>
      appointmentSchema (body req) = None) \<and>
   ((\<nexists>t. z_string (body req ''time'') = Some t \<and> 3 \<le> length t) \<longrightarrow>
      appointmentZ (body req) = None) \<and>
   ((\<nexists>p. z_string (body req ''phone'') = Some p \<and> 6 \<le> length p) \<longrightarrow>
      appointmentZ (body req) = None)"
proof (intro conjI impI)
  assume a: "appointmentZ (body req) = None"
  show "fst (book_A env ctx s req) = fst (book_A env ctx s' req)"
    by (rule book_A_rejected(1) [OF a])
  show "snd (book_A env ctx s req) = s"
    by (rule book_A_rejected(2) [OF a])
  show "status_of (fst (book_A env ctx s req)) = Some 400"
    if "authenticate_A env ctx req = Inr payload"
    using book_A_rejected(3) [OF a that] by (simp add: zod_400_A_def)
next
  assume b: "appointmentSchema (body req) = None"
  show "fst (book_B env ctx s req) = fst (book_B env ctx s' req)"
    by (rule book_B_rejected(1) [OF b])
  show "snd (book_B env ctx s req) = s"
    by (rule book_B_rejected(2) [OF b])
  show "status_of (fst (book_B env ctx s req)) = Some 400"
    if "authenticate_B env ctx req = Inr payload"
    using book_B_rejected(3) [OF b that] by (simp add: zod_400_B_def)
qed (use schema_rejects [of "body req"] in blast)+

lemma auth_A_alice_any: "authorization r = as_alice \<Longrightarrow> authenticate_A stub_env ctx1 r =
    Inr \<lparr> c_id = ''aaaaaaaaaaaaaaaaaaaaaaaa'', c_role = Some Patient \<rparr>"
  by (simp add: authenticate_A_def bearer_payload_def eval_defs)

lemma auth_B_alice_any: "authorization r = as_alice \<Longrightarrow> authenticate_B stub_env ctx1 r =
    Inr \<lparr> c_id = ''aaaaaaaaaaaaaaaaaaaaaaaa'', c_role = Some Patient \<rparr>"
  by (simp add: authenticate_B_def bearer_payload_def eval_defs)

text \<open>
  Claim C5, as stated: a payload whose time is not HH:MM or whose phone is not 10 to 15
  digits and punctuation is rejected and nothing is written. In the first variant Alice's
  booking with \<^verbatim>\<open>time: "abc"\<close> and \<^verbatim>\<open>phone: "abcdef"\<close> passes \<open>appointmentZ\<close> and the
  appointment is stored.
\<close>

theorem book_validation_counterexample:
  "time_format ''abc'' = False \<and> phone_chars ''abcdef'' = False \<and>
   book_A stub_env ctx1 store2 loose_req =
     (booked loose_appt, store2\<lparr> appointments := appointments store2 @ [loose_appt] \<rparr>) \<and>
   a_time loose_appt = ''abc'' \<and> a_phone loose_appt = ''abcdef''"
proof -
  have p: "appointmentZ (body loose_req) =
     Some \<lparr> ad_doctorId = ''dddddddddddddddddddddddd'', ad_date = ''2025-06-01'', ad_time = ''abc'',
            ad_symptoms = ''fever for 3 days'', ad_phone = ''abcdef'' \<rparr>"
    by (simp add: appointmentZ_def loose_req_def date_format_def eval_defs)
  have c: "Appointment_create ctx1 store2 dr_johnson alice (Some 1748736000000)
     \<lparr> ad_doctorId = ''dddddddddddddddddddddddd'', ad_date = ''2025-06-01'', ad_time = ''abc'',
       ad_symptoms = ''fever for 3 days'', ad_phone = ''abcdef'' \<rparr> (Some Confirmed)
     = Inr (loose_appt, store2\<lparr> appointments := appointments store2 @ [loose_appt] \<rparr>)"
    by (simp add: Appointment_create_def loose_appt_def eval_defs Let_def)
  have a: "authenticate_A stub_env ctx1 loose_req =
     Inr \<lparr> c_id = ''aaaaaaaaaaaaaaaaaaaaaaaa'', c_role = Some Patient \<rparr>"
    by (simp add: auth_A_alice_any loose_req_def)
  have r: "book_A stub_env ctx1 store2 loose_req =
     (booked loose_appt, store2\<lparr> appointments := appointments store2 @ [loose_appt] \<rparr>)"
    by (simp add: book_A_def a p found_dr found_alice date_A c)
  have t: "time_format ''abc'' = False"
    by (simp add: time_format_def)
  have ph: "phone_chars ''abcdef'' = False"
    by (simp add: phone_chars_def)
  show ?thesis using r t ph by (simp add: loose_appt_def)
qed

theorem book_validation_witness:
  "status_of (fst (book_A stub_env ctx1 store2 bad_date_req)) = Some 400 \<and>
   snd (book_A stub_env ctx1 store2 bad_date_req) = store2 \<and>
   fst (book_A stub_env ctx1 store2 bad_date_req) = fst (book_A stub_env ctx1 store0 bad_date_req) \<and>
   status_of (fst (book_B stub_env ctx1 store2 bad_date_req)) = Some 400 \<and>
   snd (book_B stub_env ctx1 store2 bad_date_req) = store2 \<and>
   status_of (fst (book_B stub_env ctx1 store2 loose_req)) = Some 400 \<and>
   snd (book_B stub_env ctx1 store2 loose_req) = store2 \<and>
   status_of (fst (book_A stub_env ctx1 store2 short_req)) = Some 400 \<and>
   snd (book_A stub_env ctx1 store2 short_req) = store2"
proof -
  have d: "\<nexists>d. z_string (body bad_date_req ''date'') = Some d \<and> date_format d"
    by (simp add: bad_date_req_def z_string_def date_format_def)
  have t: "\<nexists>t. z_string (body loose_req ''time'') = Some t \<and> time_format t"
    by (simp add: loose_req_def z_string_def time_format_def)
  have p: "\<nexists>p. z_string (body loose_req ''phone'') = Some p \<and> phone_chars p"
    by (simp add: loose_req_def z_string_def phone_chars_def)
  have t3: "\<nexists>t. z_string (body short_req ''time'') = Some t \<and> 3 \<le> length t"
    by (simp add: short_req_def z_string_def)
  have p6: "\<nexists>p. z_string (body short_req ''phone'') = Some p \<and> 6 \<le> length p"
    by (simp add: short_req_def z_string_def)
  have a1: "authenticate_A stub_env ctx1 bad_date_req =
     Inr \<lparr> c_id = ''aaaaaaaaaaaaaaaaaaaaaaaa'', c_role = Some Patient \<rparr>"
    and a2: "authenticate_B stub_env ctx1 bad_date_req =
     Inr \<lparr> c_id = ''aaaaaaaaaaaaaaaaaaaaaaaa'', c_role = Some Patient \<rparr>"
    and a3: "authenticate_B stub_env ctx1 loose_req =
     Inr \<lparr> c_id = ''aaaaaaaaaaaaaaaaaaaaaaaa'', c_role = Some Patient \<rparr>"
    and a4: "authenticate_A stub_env ctx1 short_req =
     Inr \<lparr> c_id = ''aaaaaaaaaaaaaaaaaaaaaaaa'', c_role = Some Patient \<rparr>"
    by (simp_all add: auth_A_alice_any auth_B_alice_any bad_date_req_def loose_req_def short_req_def)
  note T1 = book_validation [of bad_date_req stub_env ctx1 store2 store0
         "\<lparr> c_id = ''aaaaaaaaaaaaaaaaaaaaaaaa'', c_role = Some Patient \<rparr>"]
  note T2 = book_validation [of loose_req stub_env ctx1 store2 store0
         "\<lparr> c_id = ''aaaaaaaaaaaaaaaaaaaaaaaa'', c_role = Some Patient \<rparr>"]
  note T3 = book_validation [of short_req stub_env ctx1 store2 store0
         "\<lparr> c_id = ''aaaaaaaaaaaaaaaaaaaaaaaa'', c_role = Some Patient \<rparr>"]
  note z = T1 [THEN conjunct2, THEN conjunct2, THEN conjunct1, THEN mp, OF d]
  note r1 = T1 [THEN conjunct1, THEN mp, OF z [THEN conjunct1]]
  note r2 = T1 [THEN conjunct2, THEN conjunct1, THEN mp, OF z [THEN conjunct2]]
  note z3 = T2 [THEN conjunct2, THEN conjunct2, THEN conjunct2, THEN conjunct1, THEN mp, OF t]
  note z3' = T2 [THEN conjunct2, THEN conjunct2, THEN conjunct2, THEN conjunct2, THEN conjunct1,
                 THEN mp, OF p]
  note r3 = T2 [THEN conjunct2, THEN conjunct1, THEN mp, OF z3]
  note z4 = T3 [THEN conjunct2, THEN conjunct2, THEN conjunct2, THEN conjunct2, THEN conjunct2,
                THEN conjunct1, THEN mp, OF t3]
  note z4' = T3 [THEN conjunct2, THEN conjunct2, THEN conjunct2, THEN conjunct2, THEN conjunct2,
                 THEN conjunct2, THEN mp, OF p6]
  note r4 = T3 [THEN conjunct1, THEN mp, OF z4]
  have 1: "status_of (fst (book_A stub_env ctx1 store2 bad_date_req)) = Some 400 \<and>
     snd (book_A stub_env ctx1 store2 bad_date_req) = store2 \<and>
     fst (book_A stub_env ctx1 store2 bad_date_req) = fst (book_A stub_env ctx1 store0 bad_date_req) \<and>
     status_of (fst (book_B stub_env ctx1 store2 bad_date_req)) = Some 400 \<and>
     snd (book_B stub_env ctx1 store2 bad_date_req) = store2"
    using r1 [THEN conjunct1] r1 [THEN conjunct2, THEN conjunct1]
      r1 [THEN conjunct2, THEN conjunct2, THEN mp, OF a1]
      r2 [THEN conjunct2, THEN conjunct1] r2 [THEN conjunct2, THEN conjunct2, THEN mp, OF a2]
    by (intro conjI)
  have 2: "status_of (fst (book_B stub_env ctx1 store2 loose_req)) = Some 400 \<and>
     snd (book_B stub_env ctx1 store2 loose_req) = store2"
    using r3 [THEN conjunct2, THEN conjunct1] r3 [THEN conjunct2, THEN conjunct2, THEN mp, OF a3]
    by (intro conjI)
  have 3: "status_of (fst (book_A stub_env ctx1 store2 short_req)) = Some 400 \<and>
     snd (book_A stub_env ctx1 store2 short_req) = store2"
    using r4 [THEN conjunct2, THEN conjunct1] r4 [THEN conjunct2, THEN conjunct2, THEN mp, OF a4]
    by (intro conjI)
  from 1 2 3 show ?thesis by (intro conjI) (elim conjE, assumption)+
qed

subsection \<open>Refreshing the access token\<close>

lemma refresh_A_valid:
  assumes "body req ''refreshToken'' = Some (JStr t)" and "t \<noteq> []"
    and "jwt_verify env t (JWT_REFRESH_SECRET env) (now ctx) = Some payload"
  shows "refresh_A env ctx req =
           Reply 200 (JObj [(''accessToken'',
             JStr (jwt_sign env \<lparr> c_id = c_id payload, c_role = c_role payload \<rparr>
                     (JWT_SECRET env) (15 * 60) (now ctx)))])"
  using assms by (simp add: refresh_A_def present_def)

lemma refresh_A_invalid:
  assumes "body req ''refreshToken'' = Some (JStr t)" and "t \<noteq> []"
    and "jwt_verify env t (JWT_REFRESH_SECRET env) (now ctx) = None"
  shows "refresh_A env ctx req = Reply 403 (JObj [(''error'', JStr ''Invalid refresh token'')])"
  using assms by (simp add: refresh_A_def present_def invalid_refresh_def)

lemma refresh_B_valid:
  assumes "body req ''token'' = Some (JStr t)" and "t \<noteq> []"
    and "jwt_verify env t (JWT_REFRESH_SECRET env) (now ctx) = Some payload"
  shows "refresh_B env ctx req =
           Reply 200 (JObj [(''accessToken'',
             JStr (jwt_sign env \<lparr> c_id = c_id payload, c_role = c_role payload \<rparr>
                     (JWT_SECRET env) (15 * 60) (now ctx)))])"
  using assms by (simp add: refresh_B_def present_def generateTokens_B_def)

lemma refresh_B_invalid:
  assumes "body req ''token'' = Some (JStr t)" and "t \<noteq> []"
    and "jwt_verify env t (JWT_REFRESH_SECRET env) (now ctx) = None"
  shows "refresh_B env ctx req = Reply 403 (JObj [(''error'', JStr ''Invalid refresh token'')])"
  using assms by (simp add: refresh_B_def present_def invalid_refresh_def)

lemma tokens_A_root: "generateTokens_A stub_env ctx1 root =
   (''supersecret_access.cccccccccccccccccccccccc.admin.1900'',
    ''supersecret_refresh.cccccccccccccccccccccccc.admin.605800'')"
  by (simp add: generateTokens_A_def eval_defs)

lemma tokens_B_root: "generateTokens_B stub_env ctx1 (u_id root) (Some (u_role root)) =
   (''supersecret_access.cccccccccccccccccccccccc.admin.1900'',
    ''supersecret_refresh.cccccccccccccccccccccccc.-.605800'')"
  by (simp add: generateTokens_B_def eval_defs)

lemma verify_refresh_A: "jwt_verify stub_env ''supersecret_refresh.cccccccccccccccccccccccc.admin.605800''
     (JWT_REFRESH_SECRET stub_env) (now ctx1) = Some \<lparr> c_id = ''cccccccccccccccccccccccc'', c_role = Some Admin \<rparr>"
  by (simp add: eval_defs)

lemma verify_refresh_B: "jwt_verify stub_env ''supersecret_refresh.cccccccccccccccccccccccc.-.605800''
     (JWT_REFRESH_SECRET stub_env) (now ctx1) = Some \<lparr> c_id = ''cccccccccccccccccccccccc'', c_role = None \<rparr>"
  by (simp add: eval_defs)

lemma refreshed_A: "refresh_A stub_env ctx1 (refresh_req_A ''supersecret_refresh.cccccccccccccccccccccccc.admin.605800'') =
    Reply 200 (JObj [(''accessToken'', JStr ''supersecret_access.cccccccccccccccccccccccc.admin.1900'')])"
proof -
  have "body (refresh_req_A ''supersecret_refresh.cccccccccccccccccccccccc.admin.605800'') ''refreshToken''
        = Some (JStr ''supersecret_refresh.cccccccccccccccccccccccc.admin.605800'')"
    by (simp add: refresh_req_A_def)
  from refresh_A_valid [OF this _ verify_refresh_A] show ?thesis
    by (simp add: stub_sel stub_jwt_sign_def ctx1_def hex_digit_def at_index_def)
qed

lemma refreshed_B: "refresh_B stub_env ctx1 (refresh_req_B ''supersecret_refresh.cccccccccccccccccccccccc.-.605800'') =
    Reply 200 (JObj [(''accessToken'', JStr ''supersecret_access.cccccccccccccccccccccccc.-.1900'')])"
proof -
  have "body (refresh_req_B ''supersecret_refresh.cccccccccccccccccccccccc.-.605800'') ''token''
        = Some (JStr ''supersecret_refresh.cccccccccccccccccccccccc.-.605800'')"
    by (simp add: refresh_req_B_def)
  from refresh_B_valid [OF this _ verify_refresh_B] show ?thesis
    by (simp add: stub_sel stub_jwt_sign_def ctx1_def hex_digit_def at_index_def)
qed

lemma auth_new_A: "authenticate_A stub_env ctx1 (bearer_req ''supersecret_access.cccccccccccccccccccccccc.admin.1900'')
    = Inr \<lparr> c_id = ''cccccccccccccccccccccccc'', c_role = Some Admin \<rparr>"
  by (simp add: authenticate_A_def bearer_payload_def bearer_req_def eval_defs)

lemma auth_new_B: "authenticate_B stub_env ctx1 (bearer_req ''supersecret_access.cccccccccccccccccccccccc.-.1900'')
    = Inr \<lparr> c_id = ''cccccccccccccccccccccccc'', c_role = None \<rparr>"
  by (simp add: authenticate_B_def bearer_payload_def bearer_req_def eval_defs)

text \<open>
  Claim C6. In both variants the refresh handler answers a token that does not verify
  with 403 and signs the new access token over the \<^verbatim>\<open>id\<close> and \<^verbatim>\<open>role\<close> it reads from
  the verified refresh token (lemmas \<open>refresh_A_valid\<close>, \<open>refresh_A_invalid\<close>,
  \<open>refresh_B_valid\<close>, \<open>refresh_B_invalid\<close>). The first variant signs its refresh tokens
  over \<^verbatim>\<open>{ id, role }\<close>, so the claims match. The second variant's \<open>generateTokens\<close> signs
  the refresh token over \<^verbatim>\<open>{ id }\<close> only: the refreshed access token carries no role. The
  theorem follows the admin of the fixture through both variants: the tokens issued at
  login, the refresh, and the payload \<open>authenticate\<close> reads from the new access token; in
  the second variant the admin routes then answer 403.
\<close>

theorem refresh_B_loses_role:
  "u_role root = Admin \<and>
   generateTokens_B stub_env ctx1 (u_id root) (Some (u_role root)) =
     (''supersecret_access.cccccccccccccccccccccccc.admin.1900'',
      ''supersecret_refresh.cccccccccccccccccccccccc.-.605800'') \<and>
   jwt_verify stub_env ''supersecret_refresh.cccccccccccccccccccccccc.-.605800''
     (JWT_REFRESH_SECRET stub_env) (now ctx1) =
       Some \<lparr> c_id = ''cccccccccccccccccccccccc'', c_role = None \<rparr> \<and>
   refresh_B stub_env ctx1 (refresh_req_B ''supersecret_refresh.cccccccccccccccccccccccc.-.605800'') =
     Reply 200 (JObj [(''accessToken'', JStr ''supersecret_access.cccccccccccccccccccccccc.-.1900'')]) \<and>
   authenticate_B stub_env ctx1 (bearer_req ''supersecret_access.cccccccccccccccccccccccc.-.1900'') =
     Inr \<lparr> c_id = ''cccccccccccccccccccccccc'', c_role = None \<rparr> \<and>
   admin_users_B stub_env ctx1 store2 (bearer_req ''supersecret_access.cccccccccccccccccccccccc.-.1900'') =
     Reply 403 (JObj [(''error'', JStr ''Admin access required'')]) \<and>
   generateTokens_A stub_env ctx1 root =
     (''supersecret_access.cccccccccccccccccccccccc.admin.1900'',
      ''supersecret_refresh.cccccccccccccccccccccccc.admin.605800'') \<and>
   refresh_A stub_env ctx1 (refresh_req_A ''supersecret_refresh.cccccccccccccccccccccccc.admin.605800'') =
     Reply 200 (JObj [(''accessToken'', JStr ''supersecret_access.cccccccccccccccccccccccc.admin.1900'')]) \<and>
   authenticate_A stub_env ctx1 (bearer_req ''supersecret_access.cccccccccccccccccccccccc.admin.1900'') =
     Inr \<lparr> c_id = ''cccccccccccccccccccccccc'', c_role = Some Admin \<rparr>"
proof -
  have r: "u_role root = Admin" by (simp add: root_def)
  have d: "admin_users_B stub_env ctx1 store2 (bearer_req ''supersecret_access.cccccccccccccccccccccccc.-.1900'') =
     Reply 403 (JObj [(''error'', JStr ''Admin access required'')])"
    by (simp add: admin_users_B_def auth_new_B adminOnly_def)
  show ?thesis
    using r d tokens_A_root tokens_B_root verify_refresh_B refreshed_A refreshed_B auth_new_A auth_new_B
    by (intro conjI)
qed


subsection \<open>Passwords\<close>

lemma register_A_success:
  assumes "status_of (fst (register_A env ctx s req)) = Some 200"
  shows "\<exists>parsed. registerSchema_A env (body req) = Some parsed \<and>
           snd (register_A env ctx s req) =
             s\<lparr> users := users s @
               [\<lparr> u_id = new_id ctx 0, u_name = trim (rd_name parsed),
                  u_email = toLowerCase (rd_email parsed), u_phone = rd_phone parsed,
                  u_password = bcrypt_hash env (rd_password parsed) 10 (salt ctx),
                  u_role = Patient, u_joinDate = now ctx, u_isActive = True \<rparr>] \<rparr>"
  using assms
  by (auto simp: register_A_def zod_400_A_def server_error_def User_create_def Let_def
      split: option.splits sum.splits if_splits)

lemma register_B_success:
  assumes "status_of (fst (register_B env ctx s req)) = Some 200"
  shows "\<exists>parsed. registerSchema_B env (body req) = Some parsed \<and>
           snd (register_B env ctx s req) =
             s\<lparr> users := users s @
               [\<lparr> u_id = new_id ctx 0, u_name = trim (rd_name parsed),
                  u_email = toLowerCase (rd_email parsed), u_phone = rd_phone parsed,
                  u_password = bcrypt_hash env (rd_password parsed) 10 (salt ctx),
                  u_role = Patient, u_joinDate = now ctx, u_isActive = True \<rparr>] \<rparr>"
  using assms
  by (auto simp: register_B_def zod_400_B_def User_create_def Let_def
      split: option.splits sum.splits if_splits)

lemma register_failure_unchanged:
  "status_of (fst (register_A env ctx s req)) \<noteq> Some 200 \<Longrightarrow> snd (register_A env ctx s req) = s"
  "status_of (fst (register_B env ctx s req)) \<noteq> Some 200 \<Longrightarrow> snd (register_B env ctx s req) = s"
  by (auto simp: register_A_def register_B_def Let_def split: option.splits sum.splits)

lemma seedData_A_users:
  "users (seedData_A env ctx s) = users s \<or>
   (users s = [] \<and>
    users (seedData_A env ctx s) =
      [\<lparr> u_id = new_id ctx 0, u_name = ''Admin'', u_email = ''admin@medicare.com'',
         u_phone = ''9999999999'', u_password = bcrypt_hash env ''admin123'' 10 (salt ctx),
         u_role = Admin, u_joinDate = now ctx, u_isActive = True \<rparr>])"
  by (auto simp: seedData_A_def User_create_def Let_def trim_def js_space_def toLowerCase_def
      to_lower_def upper_letters_def lower_letters_def split: option.splits sum.splits if_splits)

lemma Doctor_create_users:
  "Doctor_create env ctx s b = Inr (d, s') \<Longrightarrow> users s' = users s"
  by (auto simp: Doctor_create_def Let_def split: option.splits path_value.splits if_splits)

lemma other_handlers_keep_users:
  "users (snd (login_A env ctx s req)) = users s"
  "users (snd (login_B env ctx s req)) = users s"
  "users (snd (book_A env ctx s req)) = users s"
  "users (snd (book_B env ctx s req)) = users s"
  "users (snd (cancel_A env ctx s req)) = users s"
  by (auto simp: login_A_def login_B_def book_A_def book_B_def cancel_A_def Let_def
      Appointment_create_def split: option.splits sum.splits if_splits)

lemma create_doctor_keeps_users: "users (snd (create_doctor_A env ctx s req)) = users s"
  by (auto simp: create_doctor_A_def Doctor_create_users split: option.splits sum.splits)

lemma keys_select_user [simp]:
  "keys_of (select_without ''password'' (user_json u)) =
     [''_id'', ''name'', ''email'', ''phone'', ''role'', ''joinDate'', ''isActive'', ''__v'']"
  by (simp add: user_json_def)

lemma keys_appointment [simp]:
  "keys_of (appointment_json a) =
     [''_id'', ''doctor'', ''doctorName'', ''specialty'', ''patient'', ''patientName'', ''date'',
      ''time'', ''symptoms'', ''phone'', ''status'', ''createdAt'', ''__v'']"
  by (simp add: appointment_json_def)

lemma keys_populated: "''password'' \<notin> set (keys_of (populated_json s a))"
  by (simp add: populated_json_def split: option.splits)

lemma keys_path_field: "k \<noteq> ''password'' \<Longrightarrow> ''password'' \<notin> set (keys_of (JObj (path_field k JStr v)))"
  "k \<noteq> ''password'' \<Longrightarrow> ''password'' \<notin> set (keys_of (JObj (path_field k JNum w)))"
  by (auto simp: path_field_def split: path_value.splits)

lemma keys_append: "keys_of (JObj (xs @ ys)) = keys_of (JObj xs) @ keys_of (JObj ys)"
  by simp

lemma keys_doctor_fields: "''password'' \<notin> set (keys_of (JObj (doctor_fields d)))"
  unfolding doctor_fields_def keys_append
  using keys_path_field(1) [of "''location''" "d_location d"]
    keys_path_field(1) [of "''availability''" "d_availability d"]
    keys_path_field(1) [of "''fee''" "d_fee d"] keys_path_field(1) [of "''image''" "d_image d"]
    keys_path_field(2) [of "''rating''" "d_rating d"]
    keys_path_field(2) [of "''reviews''" "d_reviews d"]
  by simp

lemma keys_doctor: "''password'' \<notin> set (keys_of (doctor_json d))"
  "''password'' \<notin> set (keys_of (doctor_document d))"
  using keys_doctor_fields [of d] by (simp_all add: doctor_json_def doctor_document_def)

lemma keys_listed: "''password'' \<notin> set (keys_of (listed_json s a))"
  using keys_path_field(1) [of "''image''"]
  by (simp add: listed_json_def split: option.splits)

lemma keys_feedback: "''password'' \<notin> set (keys_of (feedback_json f))"
  unfolding feedback_json_def keys_append
  using keys_path_field(1) [of "''patient''" "f_patient f"]
    keys_path_field(1) [of "''doctor''" "f_doctor f"]
    keys_path_field(1) [of "''comment''" "f_comment f"]
    keys_path_field(2) [of "''rating''" "f_rating f"]
  by simp

lemma no_password_field_simps [simp]:
  "no_password_field (Reply n b) = (''password'' \<notin> set (keys_of b))"
  "no_password_field No_Reply"
  by (simp_all add: no_password_field_def)

lemma pf_denied:
  "authenticate_A env ctx req = Inl r \<Longrightarrow> no_password_field r"
  "authenticate_B env ctx req = Inl r \<Longrightarrow> no_password_field r"
  "adminOnly p = Some r \<Longrightarrow> no_password_field r"
  by (auto simp: authenticate_A_def authenticate_B_def bearer_payload_def unauthorized_def
      adminOnly_def split: option.splits if_splits)

lemma pf_register: "no_password_field (fst (register_A env ctx s req))"
  "no_password_field (fst (register_B env ctx s req))"
  by (auto simp: register_A_def register_B_def zod_400_A_def zod_400_B_def server_error_def
      Let_def split: option.splits sum.splits)

lemma pf_login: "no_password_field (fst (login_A env ctx s req))"
  "no_password_field (fst (login_B env ctx s req))"
  by (auto simp: login_A_def login_B_def zod_400_A_def zod_400_B_def invalid_credentials_def
      Let_def split: option.splits sum.splits)

lemma pf_refresh: "no_password_field (refresh_A env ctx req)"
  "no_password_field (refresh_B env ctx req)"
  by (auto simp: refresh_A_def refresh_B_def invalid_refresh_def Let_def
      split: option.splits json.splits)

lemma pf_doctors: "no_password_field (list_doctors_A env s req)"
  by (auto simp: list_doctors_A_def server_error_def keys_doctor split: sum.splits)

lemma pf_book: "no_password_field (fst (book_A env ctx s req))"
  using pf_denied(1) [of env ctx req]
  by (auto simp: book_A_def zod_400_A_def server_error_def not_found_def booked_def Let_def
      split: option.splits sum.splits)

lemma pf_cancel: "no_password_field (fst (cancel_A env ctx s req))"
  using pf_denied(1) [of env ctx req]
  by (auto simp: cancel_A_def server_error_def not_found_def Let_def
      split: option.splits sum.splits)

lemma pf_admin_users: "no_password_field (admin_users_A env ctx s req)"
  "no_password_field (admin_users_B env ctx s req)"
  using pf_denied(1,2) [of env ctx req] pf_denied(3)
  by (auto simp: admin_users_A_def admin_users_B_def split: option.splits sum.splits)

lemma pf_admin_appointments: "no_password_field (admin_appointments_A env ctx s req)"
  using pf_denied(1) [of env ctx req] pf_denied(3)
  by (auto simp: admin_appointments_A_def keys_populated split: option.splits sum.splits)

lemma pf_admin_stats: "no_password_field (admin_stats_A env ctx s req)"
  using pf_denied(1) [of env ctx req] pf_denied(3)
  by (auto simp: admin_stats_A_def split: option.splits sum.splits)

lemma pf_ping: "no_password_field (ping_A ctx)"
  by (simp add: ping_A_def)

lemma pf_create_doctor: "no_password_field (fst (create_doctor_A env ctx s req))"
  using pf_denied(1) [of env ctx req] pf_denied(3)
  by (auto simp: create_doctor_A_def server_error_def keys_doctor split: option.splits sum.splits)

lemma pf_my_appointments: "no_password_field (my_appointments_A env ctx s req)"
  using pf_denied(1) [of env ctx req]
  by (auto simp: my_appointments_A_def server_error_def keys_listed
      split: option.splits sum.splits)

lemma pf_feedback: "no_password_field (fst (post_feedback_A env ctx fs req))"
  "no_password_field (get_feedback_A fs)"
  by (auto simp: post_feedback_A_def get_feedback_A_def server_error_def keys_feedback
      split: sum.splits)

lemma admin_users_A_listing:
  "status_of (admin_users_A env ctx s req) = Some 200 \<Longrightarrow>
   admin_users_A env ctx s req =
     Reply 200 (JArr (map (\<lambda>u. JObj [(''_id'', JStr (u_id u)), (''name'', JStr (u_name u)),
                                      (''email'', JStr (u_email u)), (''phone'', JStr (u_phone u)),
                                      (''role'', JStr (role_name (u_role u))),
                                      (''joinDate'', JDate (u_joinDate u)),
                                      (''isActive'', JBool (u_isActive u)), (''__v'', JNum 0)])
                        (newest_first (filter (\<lambda>u. u_role u = Patient) (users s)))))"
  by (auto simp: admin_users_A_def user_json_def authenticate_A_def bearer_payload_def
      unauthorized_def adminOnly_def split: option.splits sum.splits if_splits)

lemma z_string_Some: "z_string x = Some v \<longleftrightarrow> x = Some (JStr v)"
  by (auto simp: z_string_def split: option.splits json.splits)

lemma veiled_string:
  assumes "veiled x = veiled y" and "x = Some (JStr v)"
  shows "\<exists>w. y = Some (JStr w) \<and> (6 \<le> length w) = (6 \<le> length v)"
  using assms by (auto simp: veiled_def split: option.splits json.splits)

lemma veiled_other:
  assumes "veiled x = veiled y" and "z_string x = None"
  shows "z_string y = None"
  using assms by (auto simp: veiled_def z_string_def split: option.splits json.splits)

lemma alike_fields:
  assumes "alike b b'"
  shows "b' ''name'' = b ''name''" "b' ''email'' = b ''email''" "b' ''phone'' = b ''phone''"
    "veiled (b ''password'') = veiled (b' ''password'')"
    "veiled (b ''confirmPassword'') = veiled (b' ''confirmPassword'')"
    "(b ''password'' = b ''confirmPassword'') = (b' ''password'' = b' ''confirmPassword'')"
  using assms by (simp_all add: alike_def)

lemma registerSchema_A_alike:
  assumes "alike b b'"
  shows "(registerSchema_A env b = None \<longrightarrow> registerSchema_A env b' = None) \<and>
         (\<forall>p. registerSchema_A env b = Some p \<longrightarrow>
            (\<exists>pw. registerSchema_A env b' = Some (p\<lparr> rd_password := pw \<rparr>)))"
proof (cases "z_string (b ''password'')")
  case None
  then have "z_string (b' ''password'') = None"
    using veiled_other alike_fields(4) [OF assms] by blast
  with None show ?thesis
    by (simp add: registerSchema_A_def split: option.splits)
next
  case pw: (Some v)
  then obtain w where w: "b' ''password'' = Some (JStr w)" "(6 \<le> length w) = (6 \<le> length v)"
    using veiled_string [OF alike_fields(4) [OF assms]] by (auto simp: z_string_Some)
  show ?thesis
  proof (cases "z_string (b ''confirmPassword'')")
    case None
    then have "z_string (b' ''confirmPassword'') = None"
      using veiled_other alike_fields(5) [OF assms] by blast
    with None show ?thesis
      by (simp add: registerSchema_A_def split: option.splits)
  next
    case cp: (Some v')
    then obtain w' where w': "b' ''confirmPassword'' = Some (JStr w')"
      "(6 \<le> length w') = (6 \<le> length v')"
      using veiled_string [OF alike_fields(5) [OF assms]] by (auto simp: z_string_Some)
    have eq: "(v = v') = (w = w')"
      using alike_fields(6) [OF assms] pw cp w(1) w'(1) by (simp add: z_string_Some)
    have z: "z_string (b' ''password'') = Some w" "z_string (b' ''confirmPassword'') = Some w'"
      using w(1) w'(1) by (simp_all add: z_string_Some)
    show ?thesis
      using pw cp z w(2) w'(2) eq alike_fields(1-3) [OF assms]
      by (auto simp: registerSchema_A_def split: option.splits)
  qed
qed

lemma zod_400_A_alike:
  assumes "zod_blind env" and "alike b b'"
  shows "zod_400_A env schema b' = zod_400_A env schema b"
proof -
  have "zod_messages env schema b = zod_messages env schema b'"
    using assms(1) [unfolded zod_blind_def, rule_format, OF assms(2)] .
  then show ?thesis
    by (simp add: zod_400_A_def)
qed

lemma register_A_accepted:
  assumes "registerSchema_A env (body req) = Some p"
    and "bcrypt_hash env (rd_password p) 10 (salt ctx) \<noteq> []"
  shows "fst (register_A env ctx s req) =
           (case User_findOne_email s (rd_email p) of
              Some exists \<Rightarrow> Reply 400 (JObj [(''error'', JStr ''Email already registered'')])
            | None \<Rightarrow>
                if trim (rd_name p) = [] \<or> toLowerCase (rd_email p) = [] \<or> rd_phone p = []
                then server_error env (ValidationError ''User'')
                else if list_ex (\<lambda>v. u_id v = new_id ctx 0) (users s)
                then server_error env (DuplicateKey ''_id'')
                else if list_ex (\<lambda>v. u_email v = toLowerCase (rd_email p)) (users s)
                then server_error env (DuplicateKey ''email'')
                else Reply 200 (JObj [(''message'', JStr ''Registered''),
                  (''user'', JObj [(''id'', JStr (new_id ctx 0)), (''name'', JStr (trim (rd_name p))),
                                   (''email'', JStr (toLowerCase (rd_email p)))]),
                  (''accessToken'',
                     JStr (jwt_sign env \<lparr> c_id = new_id ctx 0, c_role = Some Patient \<rparr>
                             (JWT_SECRET env) (15 * 60) (now ctx))),
                  (''refreshToken'',
                     JStr (jwt_sign env \<lparr> c_id = new_id ctx 0, c_role = Some Patient \<rparr>
                             (JWT_REFRESH_SECRET env) (7 * 24 * 60 * 60) (now ctx)))]))"
  using assms
  by (simp add: register_A_def User_create_def generateTokens_A_def Let_def
      split: option.splits)

lemma register_A_blind:
  assumes "\<And>pw. bcrypt_hash env pw 10 (salt ctx) \<noteq> []" and "zod_blind env"
    and "alike (body req) (body req')"
  shows "fst (register_A env ctx s req') = fst (register_A env ctx s req)"
proof (cases "registerSchema_A env (body req)")
  case None
  then have "registerSchema_A env (body req') = None"
    using registerSchema_A_alike [OF assms(3), of env] by simp
  with None show ?thesis
    using zod_400_A_alike [OF assms(2,3)] by (simp add: register_A_def)
next
  case (Some p)
  then obtain pw where p': "registerSchema_A env (body req') = Some (p\<lparr> rd_password := pw \<rparr>)"
    using registerSchema_A_alike [OF assms(3), of env] by blast
  show ?thesis
    using register_A_accepted [OF Some assms(1), of s]
      register_A_accepted [OF p' assms(1), of s]
    by (simp split: option.splits)
qed

lemma loginSchema_alike:
  assumes "alike b b'"
  shows "(loginSchema env b = None \<longrightarrow> loginSchema env b' = None) \<and>
         (\<forall>e v. loginSchema env b = Some (e, v) \<longrightarrow>
            b ''email'' = Some (JStr e) \<and> b ''password'' = Some (JStr v) \<and>
            (\<exists>w. loginSchema env b' = Some (e, w) \<and> b' ''password'' = Some (JStr w)))"
proof (cases "z_string (b ''password'')")
  case None
  then have "z_string (b' ''password'') = None"
    using veiled_other alike_fields(4) [OF assms] by blast
  with None show ?thesis
    by (simp add: loginSchema_def split: option.splits)
next
  case pw: (Some v)
  then obtain w where w: "b' ''password'' = Some (JStr w)" "(6 \<le> length w) = (6 \<le> length v)"
    using veiled_string [OF alike_fields(4) [OF assms]] by (auto simp: z_string_Some)
  have z: "z_string (b' ''password'') = Some w"
    using w(1) by (simp add: z_string_Some)
  show ?thesis
    using pw z w alike_fields(2) [OF assms]
    by (auto simp: loginSchema_def z_string_def split: option.splits json.splits if_splits)
qed

lemma login_A_accepted:
  assumes "loginSchema env (body req) = Some (e, v)"
    and "body req ''email'' = Some (JStr e)" and "body req ''password'' = Some (JStr v)"
  shows "fst (login_A env ctx s req) =
           (if verdict env s (body req)
            then (case User_findOne_email s e of
                    None \<Rightarrow> invalid_credentials
                  | Some u \<Rightarrow>
                      Reply 200 (JObj [(''message'', JStr ''Logged in''),
                        (''user'', JObj [(''id'', JStr (u_id u)), (''name'', JStr (u_name u)),
                                         (''email'', JStr (u_email u)),
                                         (''role'', JStr (role_name (u_role u)))]),
                        (''accessToken'', JStr (fst (generateTokens_A env ctx u))),
                        (''refreshToken'', JStr (snd (generateTokens_A env ctx u)))]))
            else invalid_credentials)"
  using assms by (simp add: login_A_def verdict_def Let_def split: option.splits)

lemma login_A_blind:
  assumes "zod_blind env" and "alike (body req) (body req')"
    and "verdict env s (body req') = verdict env s (body req)"
  shows "fst (login_A env ctx s req') = fst (login_A env ctx s req)"
proof (cases "loginSchema env (body req)")
  case None
  then have "loginSchema env (body req') = None"
    using loginSchema_alike [OF assms(2), of env] by simp
  with None show ?thesis
    using zod_400_A_alike [OF assms(1,2)] by (simp add: login_A_def)
next
  case (Some ev)
  obtain e v where ev: "ev = (e, v)" by (cases ev)
  from Some ev loginSchema_alike [OF assms(2), of env] obtain w where
    b: "body req ''email'' = Some (JStr e)" "body req ''password'' = Some (JStr v)"
    and w: "loginSchema env (body req') = Some (e, w)" "body req' ''password'' = Some (JStr w)"
    by blast
  have e': "body req' ''email'' = Some (JStr e)"
    using alike_fields(2) [OF assms(2)] b(1) by simp
  show ?thesis
    using login_A_accepted [OF Some [unfolded ev] b, of ctx s]
      login_A_accepted [OF w(1) e' w(2), of ctx s] assms(3)
    by (simp split: option.splits)
qed

lemma veil_simps [simp]:
  "users (veil s) = map veil_user (users s)"
  "doctors (veil s) = doctors s"
  "appointments (veil s) = appointments s"
  by (simp_all add: veil_def)

lemma veil_user_simps [simp]:
  "u_id (veil_user u) = u_id u" "u_name (veil_user u) = u_name u"
  "u_email (veil_user u) = u_email u" "u_phone (veil_user u) = u_phone u"
  "u_role (veil_user u) = u_role u" "u_joinDate (veil_user u) = u_joinDate u"
  "u_isActive (veil_user u) = u_isActive u"
  by (simp_all add: veil_user_def)

lemma find_mapped: "find P (map f xs) = map_option f (find (\<lambda>x. P (f x)) xs)"
  by (induction xs) simp_all

lemma list_ex_mapped: "list_ex P (map f xs) = list_ex (\<lambda>x. P (f x)) xs"
  by (induction xs) simp_all

lemma insort_key_mapped:
  "(\<And>x. k (f x) = k x) \<Longrightarrow> insort_key k (f x) (map f ys) = map f (insort_key k x ys)"
  by (induction ys) simp_all

lemma sort_key_mapped: "(\<And>x. k (f x) = k x) \<Longrightarrow> sort_key k (map f xs) = map f (sort_key k xs)"
  by (induction xs) (simp_all add: insort_key_mapped)

lemma filter_mapped: "(\<And>x. P (f x) = P x) \<Longrightarrow> filter P (map f xs) = map f (filter P xs)"
  by (induction xs) simp_all

lemma User_findOne_email_veil:
  "User_findOne_email (veil s) e = map_option veil_user (User_findOne_email s e)"
  by (simp add: User_findOne_email_def find_mapped)

lemma User_findById_veil:
  "User_findById (veil s) v = map_sum id (map_option veil_user) (User_findById s v)"
  by (simp add: User_findById_def find_mapped split: option.splits)

lemma Doctor_findById_veil [simp]: "Doctor_findById (veil s) v = Doctor_findById s v"
  by (simp add: Doctor_findById_def split: option.splits)

lemma Appointment_findById_veil [simp]: "Appointment_findById (veil s) v = Appointment_findById s v"
  by (simp add: Appointment_findById_def split: option.splits)

lemma populated_json_veil [simp]: "populated_json (veil s) a = populated_json s a"
  by (simp add: populated_json_def find_mapped split: option.splits)

lemma listed_json_veil [simp]: "listed_json (veil s) a = listed_json s a"
  by (simp add: listed_json_def)

lemma user_json_veil [simp]:
  "select_without ''password'' (user_json (veil_user u)) = select_without ''password'' (user_json u)"
  by (simp add: user_json_def)

lemma register_A_veil: "fst (register_A env ctx (veil s) req) = fst (register_A env ctx s req)"
  by (auto simp: register_A_def User_findOne_email_veil User_create_def list_ex_mapped
      generateTokens_A_def Let_def split: option.splits)

lemma list_doctors_A_veil: "list_doctors_A env (veil s) req = list_doctors_A env s req"
  by (simp add: list_doctors_A_def split: sum.splits)

lemma Doctor_create_veil:
  "map_sum id fst (Doctor_create env ctx (veil s) b) = map_sum id fst (Doctor_create env ctx s b)"
  by (auto simp: Doctor_create_def Let_def split: option.splits path_value.splits)

lemma create_doctor_A_veil:
  "fst (create_doctor_A env ctx (veil s) req) = fst (create_doctor_A env ctx s req)"
  using Doctor_create_veil [of env ctx s "body req"]
  by (auto simp: create_doctor_A_def split: option.splits sum.splits)

lemma Appointment_create_veil:
  "map_sum id fst (Appointment_create ctx (veil s) d (veil_user p) date data st) =
   map_sum id fst (Appointment_create ctx s d p date data st)"
  by (auto simp: Appointment_create_def Let_def split: option.splits)

lemma book_A_veil: "fst (book_A env ctx (veil s) req) = fst (book_A env ctx s req)"
proof (cases "authenticate_A env ctx req")
  case (Inl denied)
  then show ?thesis by (simp add: book_A_def)
next
  case (Inr payload)
  show ?thesis
  proof (cases "appointmentZ (body req)")
    case None
    with Inr show ?thesis by (simp add: book_A_def)
  next
    case (Some parsed)
    show ?thesis
    proof (cases "Doctor_findById s (ad_doctorId parsed)")
      case (Inl f)
      with Inr Some show ?thesis by (simp add: book_A_def)
    next
      case d: (Inr dopt)
      show ?thesis
      proof (cases dopt)
        case None
        with Inr Some d show ?thesis by (simp add: book_A_def)
      next
        case dd: (Some doc)
        show ?thesis
        proof (cases "User_findById s (c_id payload)")
          case (Inl f)
          with Inr Some d dd show ?thesis by (simp add: book_A_def User_findById_veil)
        next
          case u: (Inr uopt)
          show ?thesis
          proof (cases uopt)
            case None
            with Inr Some d dd u show ?thesis by (simp add: book_A_def User_findById_veil)
          next
            case uu: (Some p)
            show ?thesis
              using Inr Some d dd u uu
                Appointment_create_veil [of ctx s doc p
                  "date_parse env (ad_date parsed @ ''T00:00:00'')" parsed "Some Confirmed"]
              by (auto simp: book_A_def User_findById_veil Let_def split: sum.splits)
          qed
        qed
      qed
    qed
  qed
qed

lemma cancel_A_veil: "fst (cancel_A env ctx (veil s) req) = fst (cancel_A env ctx s req)"
  by (auto simp: cancel_A_def Let_def split: option.splits sum.splits)

lemma my_appointments_A_veil:
  "my_appointments_A env ctx (veil s) req = my_appointments_A env ctx s req"
  by (simp add: my_appointments_A_def split: sum.splits option.splits)

lemma admin_stats_A_veil: "admin_stats_A env ctx (veil s) req = admin_stats_A env ctx s req"
  by (simp add: admin_stats_A_def filter_mapped split: sum.splits option.splits)

lemma admin_appointments_A_veil:
  "admin_appointments_A env ctx (veil s) req = admin_appointments_A env ctx s req"
  by (simp add: admin_appointments_A_def split: sum.splits option.splits)

lemma admin_users_A_veil: "admin_users_A env ctx (veil s) req = admin_users_A env ctx s req"
  by (simp add: admin_users_A_def newest_first_def filter_mapped sort_key_mapped comp_def
      split: sum.splits option.splits)

lemma login_A_veil:
  assumes "veil s' = veil s" and "verdict env s' (body req) = verdict env s (body req)"
  shows "fst (login_A env ctx s' req) = fst (login_A env ctx s req)"
proof (cases "loginSchema env (body req)")
  case None
  then show ?thesis by (simp add: login_A_def)
next
  case (Some ev)
  obtain e v where ev: "ev = (e, v)" by (cases ev)
  from Some ev have b: "body req ''email'' = Some (JStr e)" "body req ''password'' = Some (JStr v)"
    by (auto simp: loginSchema_def z_string_def split: option.splits json.splits if_splits)
  have "User_findOne_email (veil s') e = User_findOne_email (veil s) e"
    using assms(1) by simp
  then have f: "map_option veil_user (User_findOne_email s' e) =
                map_option veil_user (User_findOne_email s e)"
    by (simp add: User_findOne_email_veil)
  show ?thesis
  proof (cases "User_findOne_email s e")
    case None
    with f have "User_findOne_email s' e = None" by simp
    with None Some ev show ?thesis by (simp add: login_A_def)
  next
    case u: (Some u)
    with f obtain u' where u': "User_findOne_email s' e = Some u'" "veil_user u' = veil_user u"
      by (cases "User_findOne_email s' e") auto
    from u'(2) have same: "u_id u' = u_id u" "u_name u' = u_name u" "u_email u' = u_email u"
      "u_role u' = u_role u"
      by (metis veil_user_simps)+
    show ?thesis
      using login_A_accepted [OF Some [unfolded ev] b, of ctx s]
        login_A_accepted [OF Some [unfolded ev] b, of ctx s'] assms(2) u u' same
      by (simp add: generateTokens_A_def Let_def)
  qed
qed



lemma stub_hash_differs: "bcrypt_hash stub_env pw 10 (salt ctx1) \<noteq> pw"
proof
  assume "bcrypt_hash stub_env pw 10 (salt ctx1) = pw"
  then have "length (bcrypt_hash stub_env pw 10 (salt ctx1)) = length pw" by simp
  then show False by (simp add: stub_sel stub_bcrypt_hash_def)
qed

lemma stub_hash_not_empty: "bcrypt_hash stub_env pw 10 (salt ctx1) \<noteq> []"
  by (simp add: stub_sel stub_bcrypt_hash_def)

lemma stub_zod_blind: "zod_blind stub_env"
  by (simp add: zod_blind_def stub_sel)

lemma register_new_parsed: "registerSchema_A stub_env (body register_new) =
    Some \<lparr> rd_name = ''Carol'', rd_email = ''Carol@X.com'', rd_phone = ''3456789012'',
           rd_password = ''secret1'' \<rparr>"
  by (simp add: registerSchema_A_def register_new_def eval_defs)

lemma register_new_reply: "register_A stub_env ctx1 store1 register_new =
   (Reply 200 (JObj [(''message'', JStr ''Registered''),
      (''user'', JObj [(''id'', JStr ''fffffffffffffffffffffff0''), (''name'', JStr ''Carol''),
                       (''email'', JStr ''carol@x.com'')]),
      (''accessToken'', JStr ''supersecret_access.fffffffffffffffffffffff0.patient.1900''),
      (''refreshToken'', JStr ''supersecret_refresh.fffffffffffffffffffffff0.patient.605800'')]),
    store1\<lparr> users := users store1 @
      [\<lparr> u_id = ''fffffffffffffffffffffff0'', u_name = ''Carol'', u_email = ''carol@x.com'',
         u_phone = ''3456789012'', u_password = ''$NaCl$1terces'', u_role = Patient,
         u_joinDate = 1000000, u_isActive = True \<rparr>] \<rparr>)"
  by (simp add: register_A_def register_new_parsed User_findOne_email_def User_create_def
      generateTokens_A_def store1_def trim_def js_space_def Let_def eval_defs)

lemma register_other_alike: "alike (body register_new) (body register_other)"
  by (simp add: alike_def register_new_def register_other_def veiled_def)

lemma login_other_alike: "alike (body login_req) (body login_other)"
  by (simp add: alike_def login_req_def login_other_def veiled_def)

lemma login_verdicts: "verdict stub_env store1 (body login_req) = False"
  "verdict stub_env store1 (body login_other) = False"
  by (simp_all add: verdict_def login_req_def login_other_def User_findOne_email_def store1_def
      alice_def stub_sel stub_bcrypt_compare_def toLowerCase_def to_lower_def upper_letters_def
      lower_letters_def)


subsection \<open>Listing doctors\<close>

lemma specialty_condition_cases:
  "given req ''specialty'' = None \<Longrightarrow> specialty_condition env req = Some (\<lambda>v. True)"
  "given req ''specialty'' = Some (QStr sp) \<Longrightarrow> specialty_condition env req = Some (\<lambda>v. v = sp)"
  "given req ''specialty'' = Some w \<Longrightarrow> \<forall>v. w \<noteq> QStr v \<Longrightarrow>
     specialty_condition env req = operand env ''specialty'' w"
  by (auto simp: specialty_condition_def split: qvalue.splits)

lemma name_condition_cases:
  "given req ''search'' = None \<Longrightarrow> name_condition env req = Some (\<lambda>v. True)"
  "given req ''search'' = Some (QStr p) \<Longrightarrow> name_condition env req = regex env p ''i''"
  "given req ''search'' = Some w \<Longrightarrow> \<forall>v. w \<noteq> QStr v \<Longrightarrow>
     name_condition env req =
       operand env ''name'' (QObj [(''$regex'', w), (''$options'', QStr ''i'')])"
  by (auto simp: name_condition_def split: qvalue.splits)

lemma list_doctors_selects:
  assumes "specialty_condition env req = Some c1" and "name_condition env req = Some c2"
  shows "list_doctors_A env s req =
           Reply 200 (JArr (map doctor_json
             (filter (\<lambda>d. c1 (d_specialty d) \<and> c2 (d_name d)) (doctors s))))"
    and "list_doctors_B env s req = list_doctors_A env s req"
  using assms by (simp_all add: list_doctors_A_def list_doctors_B_def doctor_filter_def)

lemma list_doctors_fails:
  assumes "specialty_condition env req = None \<or> name_condition env req = None"
  shows "list_doctors_A env s req =
           Reply 500 (JObj [(''error'', JStr ''Server error''),
                            (''details'', JStr (fault_message env (QueryError (filter_of req))))])"
    and "list_doctors_B env s req = No_Reply"
  using assms
  by (auto simp: list_doctors_A_def list_doctors_B_def doctor_filter_def server_error_def
      split: option.splits)

lemma list_doctors_literal:
  assumes "literal_engine env" and "given req ''search'' = Some (QStr p)" and "no_meta p"
    and "specialty_condition env req = Some c"
  shows "list_doctors_A env s req =
           Reply 200 (JArr (map doctor_json
             (filter (\<lambda>d. c (d_specialty d) \<and> ci_includes (d_name d) p) (doctors s))))"
proof -
  from assms(1,3) obtain m where m: "regex env p ''i'' = Some m" "\<And>v. m v = ci_includes v p"
    unfolding literal_engine_def by blast
  have "name_condition env req = Some m"
    using name_condition_cases(2) [OF assms(2), of env] m(1) by simp
  from list_doctors_selects(1) [OF assms(4) this, of s] m(2) show ?thesis
    by simp
qed

text \<open>
  Claim C8, amended (the claim's source is the first variant). A parameter counts when
  it is present and not the empty string. With neither parameter the reply lists all
  doctors; with a string for \<^verbatim>\<open>specialty\<close> alone, exactly the doctors whose specialty equals
  it; with a string for \<^verbatim>\<open>search\<close> that has no regular-expression metacharacter, on a
  database that matches such a pattern as a case-insensitive substring, exactly the
  doctors (of that specialty, if one is given) whose name contains the search string,
  letter case ignored. In general each given parameter puts one condition on the doctors:
  a string for \<^verbatim>\<open>specialty\<close> asks for equality, a string for \<^verbatim>\<open>search\<close> is the pattern of
  a case-insensitive regular expression, and an array or an object is handed to the
  database as the operand of the condition. When the database accepts the conditions the
  reply has status 200 and lists every doctor that satisfies them all: there is no
  pagination. When it refuses one, as it does a pattern that does not compile, the query
  fails and the reply has status 500.
\<close>

theorem list_doctors_filters:
  assumes "literal_engine env"
  shows "(given req ''specialty'' = None \<and> given req ''search'' = None \<longrightarrow>
            list_doctors_A env s req = Reply 200 (JArr (map doctor_json (doctors s)))) \<and>
         (given req ''specialty'' = Some (QStr sp) \<and> given req ''search'' = None \<longrightarrow>
            list_doctors_A env s req =
              Reply 200 (JArr (map doctor_json (filter (\<lambda>d. d_specialty d = sp) (doctors s))))) \<and>
         (given req ''specialty'' = None \<and> given req ''search'' = Some (QStr p) \<and> no_meta p \<longrightarrow>
            list_doctors_A env s req =
              Reply 200 (JArr (map doctor_json
                (filter (\<lambda>d. ci_includes (d_name d) p) (doctors s))))) \<and>
         (given req ''specialty'' = Some (QStr sp) \<and> given req ''search'' = Some (QStr p) \<and>
          no_meta p \<longrightarrow>
            list_doctors_A env s req =
              Reply 200 (JArr (map doctor_json
                (filter (\<lambda>d. d_specialty d = sp \<and> ci_includes (d_name d) p) (doctors s))))) \<and>
         (given req ''search'' = Some (QStr p) \<and> regex env p ''i'' = None \<longrightarrow>
            list_doctors_A env s req =
              Reply 500 (JObj [(''error'', JStr ''Server error''),
                (''details'', JStr (fault_message env (QueryError (filter_of req))))])) \<and>
         (given req ''specialty'' = None \<longrightarrow>
            specialty_condition env req = Some (\<lambda>v. True)) \<and>
         (given req ''specialty'' = Some (QStr sp) \<longrightarrow>
            specialty_condition env req = Some (\<lambda>v. v = sp)) \<and>
         (given req ''specialty'' = Some w \<and> (\<forall>v. w \<noteq> QStr v) \<longrightarrow>
            specialty_condition env req = operand env ''specialty'' w) \<and>
         (given req ''search'' = None \<longrightarrow> name_condition env req = Some (\<lambda>v. True)) \<and>
         (given req ''search'' = Some (QStr p) \<longrightarrow> name_condition env req = regex env p ''i'') \<and>
         (given req ''search'' = Some w \<and> (\<forall>v. w \<noteq> QStr v) \<longrightarrow>
            name_condition env req =
              operand env ''name'' (QObj [(''$regex'', w), (''$options'', QStr ''i'')])) \<and>
         (specialty_condition env req = Some c1 \<and> name_condition env req = Some c2 \<longrightarrow>
            list_doctors_A env s req =
              Reply 200 (JArr (map doctor_json
                (filter (\<lambda>d. c1 (d_specialty d) \<and> c2 (d_name d)) (doctors s))))) \<and>
         (specialty_condition env req = None \<or> name_condition env req = None \<longrightarrow>
            list_doctors_A env s req =
              Reply 500 (JObj [(''error'', JStr ''Server error''),
                (''details'', JStr (fault_message env (QueryError (filter_of req))))]))"
proof (intro conjI impI)
  assume a: "given req ''specialty'' = None \<and> given req ''search'' = None"
  show "list_doctors_A env s req = Reply 200 (JArr (map doctor_json (doctors s)))"
    using list_doctors_selects(1) [of env req "\<lambda>v. True" "\<lambda>v. True" s] a
    by (simp add: specialty_condition_cases name_condition_cases)
next
  assume a: "given req ''specialty'' = Some (QStr sp) \<and> given req ''search'' = None"
  show "list_doctors_A env s req =
          Reply 200 (JArr (map doctor_json (filter (\<lambda>d. d_specialty d = sp) (doctors s))))"
    using list_doctors_selects(1) [of env req "\<lambda>v. v = sp" "\<lambda>v. True" s] a
    by (simp add: specialty_condition_cases name_condition_cases)
next
  assume a: "given req ''specialty'' = None \<and> given req ''search'' = Some (QStr p) \<and> no_meta p"
  show "list_doctors_A env s req =
          Reply 200 (JArr (map doctor_json (filter (\<lambda>d. ci_includes (d_name d) p) (doctors s))))"
    using list_doctors_literal [OF assms, of req p "\<lambda>v. True" s] a
    by (simp add: specialty_condition_cases)
next
  assume a: "given req ''specialty'' = Some (QStr sp) \<and> given req ''search'' = Some (QStr p) \<and>
             no_meta p"
  show "list_doctors_A env s req =
          Reply 200 (JArr (map doctor_json
            (filter (\<lambda>d. d_specialty d = sp \<and> ci_includes (d_name d) p) (doctors s))))"
    using list_doctors_literal [OF assms, of req p "\<lambda>v. v = sp" s] a
    by (simp add: specialty_condition_cases)
next
  assume a: "given req ''search'' = Some (QStr p) \<and> regex env p ''i'' = None"
  then have "name_condition env req = None"
    by (simp add: name_condition_cases)
  then show "list_doctors_A env s req =
          Reply 500 (JObj [(''error'', JStr ''Server error''),
            (''details'', JStr (fault_message env (QueryError (filter_of req))))])"
    using list_doctors_fails(1) [of env req s] by simp
next
  assume "given req ''specialty'' = None"
  then show "specialty_condition env req = Some (\<lambda>v. True)"
    by (rule specialty_condition_cases)
next
  assume "given req ''specialty'' = Some (QStr sp)"
  then show "specialty_condition env req = Some (\<lambda>v. v = sp)"
    by (rule specialty_condition_cases)
next
  assume "given req ''specialty'' = Some w \<and> (\<forall>v. w \<noteq> QStr v)"
  then show "specialty_condition env req = operand env ''specialty'' w"
    using specialty_condition_cases(3) [of req w env] by simp
next
  assume "given req ''search'' = None"
  then show "name_condition env req = Some (\<lambda>v. True)"
    by (rule name_condition_cases)
next
  assume "given req ''search'' = Some (QStr p)"
  then show "name_condition env req = regex env p ''i''"
    by (rule name_condition_cases)
next
  assume "given req ''search'' = Some w \<and> (\<forall>v. w \<noteq> QStr v)"
  then show "name_condition env req =
               operand env ''name'' (QObj [(''$regex'', w), (''$options'', QStr ''i'')])"
    using name_condition_cases(3) [of req w env] by simp
next
  assume "specialty_condition env req = Some c1 \<and> name_condition env req = Some c2"
  then show "list_doctors_A env s req =
          Reply 200 (JArr (map doctor_json
            (filter (\<lambda>d. c1 (d_specialty d) \<and> c2 (d_name d)) (doctors s))))"
    using list_doctors_selects(1) [of env req c1 c2 s] by simp
next
  assume "specialty_condition env req = None \<or> name_condition env req = None"
  then show "list_doctors_A env s req =
          Reply 500 (JObj [(''error'', JStr ''Server error''),
            (''details'', JStr (fault_message env (QueryError (filter_of req))))])"
    by (rule list_doctors_fails)
qed

lemma match_here_literal:
  "no_meta p \<Longrightarrow> match_here True p v = startsWith (toLowerCase v) (toLowerCase p)"
proof (induction p arbitrary: v)
  case Nil
  then show ?case by (simp add: toLowerCase_def)
next
  case (Cons a p)
  then have a: "a \<noteq> CHR ''.''" and p: "no_meta p"
    by (auto simp: no_meta_def regex_meta_def)
  show ?case
  proof (cases v)
    case Nil
    then show ?thesis by (simp add: toLowerCase_def)
  next
    case (Cons c cs)
    then show ?thesis
      using a Cons.IH [OF p, of cs] by (auto simp: toLowerCase_def)
  qed
qed

lemma match_anywhere_literal:
  "no_meta p \<Longrightarrow> match_anywhere True p v = ci_includes v p"
proof (induction v)
  case Nil
  then show ?case
    by (cases p) (simp_all add: ci_includes_def toLowerCase_def)
next
  case (Cons c cs)
  have "match_here True p (c # cs) = startsWith (toLowerCase (c # cs)) (toLowerCase p)"
    using Cons.prems by (rule match_here_literal)
  then show ?case
    using Cons by (simp add: ci_includes_def toLowerCase_def)
qed

lemma stub_literal_engine: "literal_engine stub_env"
  unfolding literal_engine_def
proof (intro allI impI)
  fix p assume p: "no_meta p"
  then have "list_all (\<lambda>c. c = CHR ''.'' \<or> c \<notin> set regex_meta) p"
    by (simp add: no_meta_def list_all_iff)
  then have "regex stub_env p ''i'' = Some (match_anywhere True p)"
    by (simp add: stub_sel stub_regex_def)
  with p show "\<exists>m. regex stub_env p ''i'' = Some m \<and> (\<forall>v. m v = ci_includes v p)"
    by (simp add: match_anywhere_literal)
qed

lemma match_dot: "match_anywhere True ''.'' v = list_ex (\<lambda>c. c \<noteq> CHR 0x0A) v"
  by (induction v) auto

lemma stub_dot: "regex stub_env ''.'' ''i'' = Some (match_anywhere True ''.'')"
  by (simp add: stub_sel stub_regex_def)

lemma stub_paren: "regex stub_env ''('' ''i'' = None"
  by (simp add: stub_sel stub_regex_def regex_meta_def)

lemma given_search: "p \<noteq> [] \<Longrightarrow> given (search_req p) ''search'' = Some (QStr p)"
  "given (search_req p) ''specialty'' = None"
  by (simp_all add: given_def search_req_def doctors_req_def)

lemma search_by_pattern:
  assumes "p \<noteq> []" and "regex env p ''i'' = Some m"
  shows "list_doctors_A env s (search_req p) =
           Reply 200 (JArr (map doctor_json (filter (\<lambda>d. m (d_name d)) (doctors s))))"
    and "list_doctors_B env s (search_req p) = list_doctors_A env s (search_req p)"
proof -
  have c: "specialty_condition env (search_req p) = Some (\<lambda>v. True)"
    "name_condition env (search_req p) = Some m"
    using assms by (simp_all add: specialty_condition_cases name_condition_cases given_search)
  show "list_doctors_A env s (search_req p) =
           Reply 200 (JArr (map doctor_json (filter (\<lambda>d. m (d_name d)) (doctors s))))"
    using list_doctors_selects(1) [OF c, of s] by simp
  show "list_doctors_B env s (search_req p) = list_doctors_A env s (search_req p)"
    using list_doctors_selects(2) [OF c, of s] by simp
qed

lemma search_refused:
  assumes "p \<noteq> []" and "regex env p ''i'' = None"
  shows "list_doctors_A env s (search_req p) =
           Reply 500 (JObj [(''error'', JStr ''Server error''),
             (''details'', JStr (fault_message env (QueryError [(''search'', QStr p)])))])"
    and "list_doctors_B env s (search_req p) = No_Reply"
proof -
  have c: "name_condition env (search_req p) = None"
    using assms by (simp add: name_condition_cases given_search)
  have f: "filter_of (search_req p) = [(''search'', QStr p)]"
    using assms(1) by (simp add: filter_of_def given_search)
  show "list_doctors_A env s (search_req p) =
           Reply 500 (JObj [(''error'', JStr ''Server error''),
             (''details'', JStr (fault_message env (QueryError [(''search'', QStr p)])))])"
    using list_doctors_fails(1) [of env "search_req p" s] c f by simp
  show "list_doctors_B env s (search_req p) = No_Reply"
    using list_doctors_fails(2) [of env "search_req p" s] c by simp
qed

lemma amy_has_no_dot: "ci_includes (d_name dr_amy) ''.'' = False"
  by (simp add: ci_includes_def dr_amy_def toLowerCase_def to_lower_def upper_letters_def
      lower_letters_def)

text \<open>
  Claim C8, as stated: with a search parameter the reply lists exactly the doctors whose
  name contains the search string, and with a specialty parameter exactly the doctors
  whose specialty equals the parameter. The first store holds the one doctor Amy; her
  name does not contain a dot, yet \<^verbatim>\<open>GET /api/doctors?search=.\<close> returns her, because the dot
  is read as a pattern that matches any character. The second store holds a cardiologist
  and the neurologist Amy; \<^verbatim>\<open>GET /api/doctors?specialty[$ne]=Cardiology\<close> returns Amy, whose
  specialty is not the parameter.
\<close>

theorem list_doctors_counterexample:
  "ci_includes (d_name dr_amy) ''.'' = False \<and>
   list_doctors_A stub_env store3 (search_req ''.'') = Reply 200 (JArr [doctor_json dr_amy]) \<and>
   literal_search store3 ''.'' = Reply 200 (JArr []) \<and>
   query other_specialty_req ''specialty'' = Some (QObj [(''$ne'', QStr ''Cardiology'')]) \<and>
   list_doctors_A stub_env store4 other_specialty_req = Reply 200 (JArr [doctor_json dr_amy])"
proof -
  have 1: "ci_includes (d_name dr_amy) ''.'' = False"
    by (rule amy_has_no_dot)
  have 2: "list_doctors_A stub_env store3 (search_req ''.'') = Reply 200 (JArr [doctor_json dr_amy])"
    using search_by_pattern(1) [OF _ stub_dot, of store3]
    by (simp add: store3_def match_dot) (simp add: dr_amy_def)
  have 3: "literal_search store3 ''.'' = Reply 200 (JArr [])"
    using 1 by (simp add: literal_search_def store3_def)
  have 4: "query other_specialty_req ''specialty'' = Some (QObj [(''$ne'', QStr ''Cardiology'')])"
    by (simp add: other_specialty_req_def doctors_req_def)
  have c: "specialty_condition stub_env other_specialty_req = Some (\<lambda>v. v \<noteq> ''Cardiology'')"
    "name_condition stub_env other_specialty_req = Some (\<lambda>v. True)"
    by (simp_all add: specialty_condition_def name_condition_def given_def
        other_specialty_req_def doctors_req_def stub_sel)
  have 5: "list_doctors_A stub_env store4 other_specialty_req = Reply 200 (JArr [doctor_json dr_amy])"
    using list_doctors_selects(1) [OF c, of store4]
    by (simp add: store4_def) (simp add: dr_amy_def dr_johnson_def)
  from 1 2 3 4 5 show ?thesis by (intro conjI)
qed

theorem list_doctors_filters_witness:
  "list_doctors_A stub_env store4 (doctors_req [''specialty'' \<mapsto> QStr ''Cardiology'']) =
     Reply 200 (JArr [doctor_json dr_johnson]) \<and>
   list_doctors_A stub_env store4 (doctors_req [''search'' \<mapsto> QStr ''john'']) =
     Reply 200 (JArr [doctor_json dr_johnson]) \<and>
   list_doctors_A stub_env store4
       (doctors_req [''specialty'' \<mapsto> QStr ''Neurology'', ''search'' \<mapsto> QStr ''AM'']) =
     Reply 200 (JArr [doctor_json dr_amy]) \<and>
   list_doctors_A stub_env store4 (doctors_req Map.empty) =
     Reply 200 (JArr [doctor_json dr_johnson, doctor_json dr_amy]) \<and>
   list_doctors_A stub_env store4 (search_req ''('') =
     Reply 500 (JObj [(''error'', JStr ''Server error''),
                      (''details'', JStr ''Regular expression is invalid'')]) \<and>
   list_doctors_A stub_env store4 other_specialty_req = Reply 200 (JArr [doctor_json dr_amy])"
proof -
  note T = list_doctors_filters [OF stub_literal_engine]
  have g1: "given (doctors_req [''specialty'' \<mapsto> QStr ''Cardiology'']) ''specialty'' =
              Some (QStr ''Cardiology'') \<and>
            given (doctors_req [''specialty'' \<mapsto> QStr ''Cardiology'']) ''search'' = None"
    by (simp add: given_def doctors_req_def)
  have g2: "given (doctors_req [''search'' \<mapsto> QStr ''john'']) ''specialty'' = None \<and>
            given (doctors_req [''search'' \<mapsto> QStr ''john'']) ''search'' = Some (QStr ''john'') \<and>
            no_meta ''john''"
    by (simp add: given_def doctors_req_def no_meta_def regex_meta_def)
  have g3: "given (doctors_req [''specialty'' \<mapsto> QStr ''Neurology'', ''search'' \<mapsto> QStr ''AM''])
              ''specialty'' = Some (QStr ''Neurology'') \<and>
            given (doctors_req [''specialty'' \<mapsto> QStr ''Neurology'', ''search'' \<mapsto> QStr ''AM''])
              ''search'' = Some (QStr ''AM'') \<and>
            no_meta ''AM''"
    by (simp add: given_def doctors_req_def no_meta_def regex_meta_def)
  have g4: "given (doctors_req Map.empty) ''specialty'' = None \<and>
            given (doctors_req Map.empty) ''search'' = None"
    by (simp add: given_def doctors_req_def)
  have g5: "given (search_req ''('') ''search'' = Some (QStr ''('') \<and>
            regex stub_env ''('' ''i'' = None"
    by (simp add: given_search stub_paren)
  have g6: "given other_specialty_req ''specialty'' = Some (QObj [(''$ne'', QStr ''Cardiology'')]) \<and>
            (\<forall>v. QObj [(''$ne'', QStr ''Cardiology'')] \<noteq> QStr v)"
    by (simp add: given_def other_specialty_req_def doctors_req_def)
  have g7: "given other_specialty_req ''search'' = None"
    by (simp add: given_def other_specialty_req_def doctors_req_def)
  have names: "ci_includes (d_name dr_johnson) ''john''" "ci_includes (d_name dr_amy) ''john'' = False"
    "ci_includes (d_name dr_amy) ''AM''" "d_specialty dr_johnson = ''Cardiology''"
    "d_specialty dr_amy = ''Neurology''"
    by (simp_all add: ci_includes_def dr_johnson_def dr_amy_def toLowerCase_def to_lower_def
        upper_letters_def lower_letters_def)
  have 1: "list_doctors_A stub_env store4 (doctors_req [''specialty'' \<mapsto> QStr ''Cardiology'']) =
     Reply 200 (JArr [doctor_json dr_johnson])"
    using T [of "doctors_req [''specialty'' \<mapsto> QStr ''Cardiology'']" store4 "''Cardiology''",
             THEN conjunct2, THEN conjunct1, THEN mp, OF g1] names
    by (simp add: store4_def)
  have 2: "list_doctors_A stub_env store4 (doctors_req [''search'' \<mapsto> QStr ''john'']) =
     Reply 200 (JArr [doctor_json dr_johnson])"
    using T [of "doctors_req [''search'' \<mapsto> QStr ''john'']" store4 _ "''john''",
             THEN conjunct2, THEN conjunct2, THEN conjunct1, THEN mp, OF g2] names
    by (simp add: store4_def)
  have 3: "list_doctors_A stub_env store4
       (doctors_req [''specialty'' \<mapsto> QStr ''Neurology'', ''search'' \<mapsto> QStr ''AM'']) =
     Reply 200 (JArr [doctor_json dr_amy])"
    using T [of "doctors_req [''specialty'' \<mapsto> QStr ''Neurology'', ''search'' \<mapsto> QStr ''AM'']" store4
             "''Neurology''" "''AM''",
             THEN conjunct2, THEN conjunct2, THEN conjunct2, THEN conjunct1, THEN mp, OF g3] names
    by (simp add: store4_def)
  have 4: "list_doctors_A stub_env store4 (doctors_req Map.empty) =
     Reply 200 (JArr [doctor_json dr_johnson, doctor_json dr_amy])"
    using T [of "doctors_req Map.empty" store4, THEN conjunct1, THEN mp, OF g4]
    by (simp add: store4_def)
  have 5: "list_doctors_A stub_env store4 (search_req ''('') =
     Reply 500 (JObj [(''error'', JStr ''Server error''),
                      (''details'', JStr ''Regular expression is invalid'')])"
    using T [of "search_req ''(''" store4 _ "''(''",
             THEN conjunct2, THEN conjunct2, THEN conjunct2, THEN conjunct2, THEN conjunct1,
             THEN mp, OF g5]
    by (simp add: stub_sel)
  have s6: "specialty_condition stub_env other_specialty_req = Some (\<lambda>v. v \<noteq> ''Cardiology'')"
    using T [of other_specialty_req _ _ _ "QObj [(''$ne'', QStr ''Cardiology'')]",
             THEN conjunct2, THEN conjunct2, THEN conjunct2, THEN conjunct2, THEN conjunct2,
             THEN conjunct2, THEN conjunct2, THEN conjunct1, THEN mp, OF g6]
    by (simp add: stub_sel)
  have n6: "name_condition stub_env other_specialty_req = Some (\<lambda>v. True)"
    using T [of other_specialty_req,
             THEN conjunct2, THEN conjunct2, THEN conjunct2, THEN conjunct2, THEN conjunct2,
             THEN conjunct2, THEN conjunct2, THEN conjunct2, THEN conjunct1, THEN mp, OF g7] .
  have 6: "list_doctors_A stub_env store4 other_specialty_req = Reply 200 (JArr [doctor_json dr_amy])"
    using T [of other_specialty_req store4 _ _ _ "\<lambda>v. v \<noteq> ''Cardiology''" "\<lambda>v. True",
             THEN conjunct2, THEN conjunct2, THEN conjunct2, THEN conjunct2, THEN conjunct2,
             THEN conjunct2, THEN conjunct2, THEN conjunct2, THEN conjunct2, THEN conjunct2,
             THEN conjunct2, THEN conjunct1, THEN mp, OF conjI [OF s6 n6]] names
    by (simp add: store4_def)
  from 1 2 3 4 5 6 show ?thesis by (intro conjI)
qed

lemma dot_on_names:
  "list_all (\<lambda>d. CHR 0x0A \<notin> set (d_name d)) ds \<Longrightarrow>
   filter (\<lambda>d. list_ex (\<lambda>c. c \<noteq> CHR 0x0A) (d_name d)) ds = filter (\<lambda>d. d_name d \<noteq> []) ds"
proof (induction ds)
  case Nil
  then show ?case by simp
next
  case (Cons d ds)
  then have "CHR 0x0A \<notin> set (d_name d)" by simp
  then have "list_ex (\<lambda>c. c \<noteq> CHR 0x0A) (d_name d) = (d_name d \<noteq> [])"
    by (cases "d_name d") (auto simp: list_ex_iff)
  with Cons show ?case by simp
qed

text \<open>
  Claim C10, as stated: with \<^verbatim>\<open>search=.\<close> every doctor with a non-empty name is returned.
  An admin creates a doctor whose name is a single line feed; the name is not empty, yet
  \<^verbatim>\<open>GET /api/doctors?search=.\<close> on the resulting store returns, in both variants, only the
  other doctor: the dot of a regular expression matches any character but a line feed.
\<close>

theorem search_dot_counterexample:
  "create_doctor_A stub_env ctx1 store2 (create_doctor_req [CHR 0x0A] ''Surgery'') =
     (Reply 200 (doctor_document dr_newline), store5) \<and>
   d_name dr_newline \<noteq> [] \<and>
   list_doctors_A stub_env store5 (search_req ''.'') = Reply 200 (JArr [doctor_json dr_johnson]) \<and>
   list_doctors_B stub_env store5 (search_req ''.'') = Reply 200 (JArr [doctor_json dr_johnson])"
proof -
  have a: "authenticate_A stub_env ctx1 (create_doctor_req [CHR 0x0A] ''Surgery'') =
             Inr \<lparr> c_id = ''cccccccccccccccccccccccc'', c_role = Some Admin \<rparr>"
    by (simp add: authenticate_A_def bearer_payload_def create_doctor_req_def as_root_def
        eval_defs)
  have 1: "create_doctor_A stub_env ctx1 store2 (create_doctor_req [CHR 0x0A] ''Surgery'') =
     (Reply 200 (doctor_document dr_newline), store5)"
    by (simp add: create_doctor_A_def a adminOnly_def)
       (simp add: create_doctor_req_def present_def Doctor_create_def string_path_def
        number_path_def with_default_def stub_sel store2_def store5_def dr_newline_def
        dr_johnson_def ctx1_def hex_digit_def at_index_def Let_def)
  have 2: "d_name dr_newline \<noteq> []"
    by (simp add: dr_newline_def)
  have 3: "list_doctors_A stub_env store5 (search_req ''.'') = Reply 200 (JArr [doctor_json dr_johnson])"
    using search_by_pattern(1) [OF _ stub_dot, of store5]
    by (simp add: store5_def match_dot) (simp add: dr_newline_def dr_johnson_def)
  have 4: "list_doctors_B stub_env store5 (search_req ''.'') = Reply 200 (JArr [doctor_json dr_johnson])"
    using search_by_pattern(2) [OF _ stub_dot, of store5] 3 by simp
  from 1 2 3 4 show ?thesis by (intro conjI)
qed

text \<open>
  Claim C10, amended. Both variants hand the search string to the database as a pattern.
  Given the engine's reading of the two patterns of the claim (a dot matches any
  character but a line feed; an opening parenthesis alone does not compile): with
  \<^verbatim>\<open>search=.\<close> the reply lists exactly the doctors whose name has a character other than a
  line feed, which are all the doctors with a non-empty name when no name contains a line
  feed; with \<^verbatim>\<open>search=(\<close> the query fails, the first variant answers 500 and the second,
  which has no \<^verbatim>\<open>try\<close>, does not answer; and in both cases the outcome differs from the
  literal substring search of the specification.
\<close>

theorem search_is_a_pattern:
  assumes "regex env ''.'' ''i'' = Some m"
    and "\<And>v. m v = list_ex (\<lambda>c. c \<noteq> CHR 0x0A) v"
    and "regex env ''('' ''i'' = None"
  shows "list_doctors_A env s (search_req ''.'') =
           Reply 200 (JArr (map doctor_json
             (filter (\<lambda>d. list_ex (\<lambda>c. c \<noteq> CHR 0x0A) (d_name d)) (doctors s)))) \<and>
         list_doctors_B env s (search_req ''.'') =
           Reply 200 (JArr (map doctor_json
             (filter (\<lambda>d. list_ex (\<lambda>c. c \<noteq> CHR 0x0A) (d_name d)) (doctors s)))) \<and>
         (list_all (\<lambda>d. CHR 0x0A \<notin> set (d_name d)) (doctors s) \<longrightarrow>
            list_doctors_A env s (search_req ''.'') =
              Reply 200 (JArr (map doctor_json (filter (\<lambda>d. d_name d \<noteq> []) (doctors s))))) \<and>
         list_doctors_A env s (search_req ''('') =
           Reply 500 (JObj [(''error'', JStr ''Server error''),
             (''details'', JStr (fault_message env (QueryError [(''search'', QStr ''('')])))]) \<and>
         list_doctors_B env s (search_req ''('') = No_Reply \<and>
         list_doctors_A env s (search_req ''('') \<noteq> literal_search s ''('' \<and>
         list_doctors_B env s (search_req ''('') \<noteq> literal_search s ''('' \<and>
         (\<exists>s'. list_doctors_A env s' (search_req ''.'') \<noteq> literal_search s' ''.'' \<and>
               list_doctors_B env s' (search_req ''.'') \<noteq> literal_search s' ''.'')"
proof -
  have a: "\<And>t. list_doctors_A env t (search_req ''.'') =
           Reply 200 (JArr (map doctor_json
             (filter (\<lambda>d. list_ex (\<lambda>c. c \<noteq> CHR 0x0A) (d_name d)) (doctors t))))"
    using search_by_pattern(1) [OF _ assms(1)] assms(2) by simp
  have b: "\<And>t. list_doctors_B env t (search_req ''.'') = list_doctors_A env t (search_req ''.'')"
    using search_by_pattern(2) [OF _ assms(1)] by simp
  have c: "list_doctors_A env s (search_req ''('') =
           Reply 500 (JObj [(''error'', JStr ''Server error''),
             (''details'', JStr (fault_message env (QueryError [(''search'', QStr ''('')])))])"
    using search_refused(1) [OF _ assms(3)] by simp
  have d: "list_doctors_B env s (search_req ''('') = No_Reply"
    using search_refused(2) [OF _ assms(3)] by simp
  have e: "list_doctors_A env store3 (search_req ''.'') \<noteq> literal_search store3 ''.''"
    by (simp add: a literal_search_def store3_def dr_amy_def ci_includes_def toLowerCase_def
        to_lower_def upper_letters_def lower_letters_def)
  have f: "list_all (\<lambda>d. CHR 0x0A \<notin> set (d_name d)) (doctors s) \<longrightarrow>
            list_doctors_A env s (search_req ''.'') =
              Reply 200 (JArr (map doctor_json (filter (\<lambda>d. d_name d \<noteq> []) (doctors s))))"
    using dot_on_names [of "doctors s"] by (simp add: a)
  have h: "\<exists>s'. list_doctors_A env s' (search_req ''.'') \<noteq> literal_search s' ''.'' \<and>
               list_doctors_B env s' (search_req ''.'') \<noteq> literal_search s' ''.''"
    using e b by (intro exI [of _ store3]) simp
  show ?thesis
    using a [of s] b [of s] c d f h by (simp add: literal_search_def)
qed

theorem search_is_a_pattern_witness:
  "list_doctors_A stub_env store3 (search_req ''.'') = Reply 200 (JArr [doctor_json dr_amy]) \<and>
   list_doctors_B stub_env store3 (search_req ''.'') = Reply 200 (JArr [doctor_json dr_amy]) \<and>
   literal_search store3 ''.'' = Reply 200 (JArr []) \<and>
   list_doctors_A stub_env store3 (search_req ''('') =
     Reply 500 (JObj [(''error'', JStr ''Server error''),
                      (''details'', JStr ''Regular expression is invalid'')]) \<and>
   list_doctors_B stub_env store3 (search_req ''('') = No_Reply \<and>
   literal_search store3 ''('' = Reply 200 (JArr [])"
proof -
  note T = search_is_a_pattern [OF stub_dot match_dot stub_paren, of store3]
  have n: "list_all (\<lambda>d. CHR 0x0A \<notin> set (d_name d)) (doctors store3)"
    by (simp add: store3_def dr_amy_def)
  have 1: "list_doctors_A stub_env store3 (search_req ''.'') = Reply 200 (JArr [doctor_json dr_amy])"
    using T [THEN conjunct2, THEN conjunct2, THEN conjunct1, THEN mp, OF n]
    by (simp add: store3_def) (simp add: dr_amy_def)
  have 2: "list_doctors_B stub_env store3 (search_req ''.'') = Reply 200 (JArr [doctor_json dr_amy])"
    using T [THEN conjunct1] T [THEN conjunct2, THEN conjunct1] 1 by simp
  have 3: "literal_search store3 ''.'' = Reply 200 (JArr [])"
    "literal_search store3 ''('' = Reply 200 (JArr [])"
    by (simp_all add: literal_search_def store3_def dr_amy_def ci_includes_def toLowerCase_def
        to_lower_def upper_letters_def lower_letters_def)
  have 4: "list_doctors_A stub_env store3 (search_req ''('') =
     Reply 500 (JObj [(''error'', JStr ''Server error''),
                      (''details'', JStr ''Regular expression is invalid'')])"
    using T [THEN conjunct2, THEN conjunct2, THEN conjunct2, THEN conjunct1]
    by (simp add: stub_sel)
  have 5: "list_doctors_B stub_env store3 (search_req ''('') = No_Reply"
    using T [THEN conjunct2, THEN conjunct2, THEN conjunct2, THEN conjunct2, THEN conjunct1]
    by simp
  from 1 2 3 4 5 show ?thesis by (intro conjI)
qed

end
